theory Spec2Isabelle
  imports Main
begin

section \<open>Runs of the program: output, return, exit, assertion failure\<close>

text \<open>
  Both source files write to a sink (\<^verbatim>\<open>vpr_printf\<close>, the file stream \<^verbatim>\<open>fp\<close>) and can
  end the process: \<^verbatim>\<open>exit(1)\<close>, a failed \<^verbatim>\<open>VTR_ASSERT\<close>, a read through an invalid
  identifier, a read at an address that is not a string, or a loop that never ends. A run either returns a value or stops; in both
  cases it carries the output written so far, in order.
\<close>

datatype stop = Exit nat | Assert_Failed | Invalid_Id | Segfault | Diverged

datatype ('o, 'a) run = Returns 'a "'o list" | Stops stop "'o list"

text \<open>The output \<open>out\<close> was written before the run \<open>m\<close> started.\<close>

fun after_output :: "'o list \<Rightarrow> ('o, 'a) run \<Rightarrow> ('o, 'a) run" where
  "after_output out (Returns b out') = Returns b (out @ out')"
| "after_output out (Stops s out') = Stops s (out @ out')"

text \<open>Sequencing: a run that stops ends the whole run; otherwise the next statement runs.\<close>

fun and_then :: "('o, 'a) run \<Rightarrow> ('a \<Rightarrow> ('o, 'b) run) \<Rightarrow> ('o, 'b) run" where
  "and_then (Stops s out) f = Stops s out"
| "and_then (Returns a out) f = after_output out (f a)"

definition emit :: "'o \<Rightarrow> ('o, unit) run" where
  "emit x = Returns () [x]"

definition VTR_ASSERT :: "bool \<Rightarrow> ('o, unit) run" where
  "VTR_ASSERT b = (if b then Returns () [] else Stops Assert_Failed [])"

definition exit_process :: "nat \<Rightarrow> ('o, 'a) run" where
  "exit_process code = Stops (Exit code) []"

text \<open>A read of element \<open>i\<close> of a vector through an identifier that is checked first.\<close>

definition lookup :: "'a list \<Rightarrow> nat \<Rightarrow> ('o, 'a) run" where
  "lookup xs i = (if i < length xs then Returns (xs ! i) [] else Stops Invalid_Id [])"

text \<open>A range-based \<^verbatim>\<open>for\<close> loop whose body returns nothing.\<close>

fun foreach :: "'x list \<Rightarrow> ('x \<Rightarrow> ('o, unit) run) \<Rightarrow> ('o, unit) run" where
  "foreach [] body = Returns () []"
| "foreach (x # xs) body = and_then (body x) (\<lambda>_. foreach xs body)"

text \<open>
  The statement \<^verbatim>\<open>num_err += f(...)\<close>. The counters are \<^verbatim>\<open>size_t\<close>; every increment
  follows one error message, so a counter equals a number of messages written and is
  kept as an unbounded natural number. The one \<^verbatim>\<open>size_t\<close> expression that does wrap,
  \<^verbatim>\<open>num_models() - 1\<close>, is written with its wrap-around (\<open>size_t_sub\<close> below).
\<close>

definition add_errors :: "nat \<Rightarrow> ('o, nat) run \<Rightarrow> ('o, nat) run" where
  "add_errors num_err m = and_then m (\<lambda>e. Returns (num_err + e) [])"

text \<open>A range-based \<^verbatim>\<open>for\<close> loop whose body is \<^verbatim>\<open>num_err += f(x)\<close>.\<close>

fun foreach_add :: "'x list \<Rightarrow> ('x \<Rightarrow> ('o, nat) run) \<Rightarrow> nat \<Rightarrow> ('o, nat) run" where
  "foreach_add [] body num_err = Returns num_err []"
| "foreach_add (x # xs) body num_err =
     and_then (add_errors num_err (body x)) (\<lambda>num_err. foreach_add xs body num_err)"

text \<open>
  \<^verbatim>\<open>size_t\<close> is taken as 64 bits wide; \<open>size_t_sub\<close> is its subtraction, which wraps.
\<close>

definition SIZE_T_RANGE :: nat where
  "SIZE_T_RANGE = 2 ^ 64"

definition size_t_sub :: "nat \<Rightarrow> nat \<Rightarrow> nat" where
  "size_t_sub a b = nat ((int a - int b) mod int SIZE_T_RANGE)"

section \<open>The circuit library\<close>

text \<open>
  Modelled from the spec: the enumerations \<^verbatim>\<open>e_spice_model_type\<close> and
  \<^verbatim>\<open>e_spice_model_port_type\<close> are declared in a header that is not among the sources.
  The tags are those the spec and \<^verbatim>\<open>check_circuit_library.cpp\<close> name; the further
  constructors stand for the tags the spec leaves open.
\<close>

datatype e_spice_model_type =
    SPICE_MODEL_CHAN_WIRE | SPICE_MODEL_WIRE | SPICE_MODEL_MUX | SPICE_MODEL_LUT
  | SPICE_MODEL_FF | SPICE_MODEL_SRAM | SPICE_MODEL_HARDLOGIC | SPICE_MODEL_SCFF
  | SPICE_MODEL_IOPAD | SPICE_MODEL_INVBUF | SPICE_MODEL_PASSGATE | SPICE_MODEL_GATE

datatype e_spice_model_port_type =
    SPICE_MODEL_PORT_INPUT | SPICE_MODEL_PORT_OUTPUT | SPICE_MODEL_PORT_INOUT
  | SPICE_MODEL_PORT_CLOCK | SPICE_MODEL_PORT_SRAM | SPICE_MODEL_PORT_BL
  | SPICE_MODEL_PORT_BLB | SPICE_MODEL_PORT_WL | SPICE_MODEL_PORT_WLB

text \<open>
  Modelled from the spec: class \<^verbatim>\<open>CircuitLibrary\<close> is not among the sources. A circuit
  model has a name, a prefix, a type tag and the flag that makes it the default of its
  type; a circuit port has its owning model, a port-type tag, a width, the boolean
  attributes, a default value and a library-scope name. \<^verbatim>\<open>CircuitModelId\<close> and
  \<^verbatim>\<open>CircuitPortId\<close> are positions in the two vectors.
\<close>

record circuit_model =
  cm_name :: string
  cm_prefix :: string
  cm_type :: e_spice_model_type
  cm_is_default :: bool

record circuit_port =
  cp_model :: nat
  cp_type :: e_spice_model_port_type
  cp_size :: nat
  cp_lib_name :: string
  cp_is_global :: bool
  cp_is_set :: bool
  cp_is_reset :: bool
  cp_is_config_enable :: bool
  cp_is_prog :: bool
  cp_default_value :: nat

record CircuitLibrary =
  lib_models :: "circuit_model list"
  lib_ports :: "circuit_port list"

definition num_models :: "CircuitLibrary \<Rightarrow> nat" where
  "num_models lib = length (lib_models lib)"

definition model_name :: "CircuitLibrary \<Rightarrow> nat \<Rightarrow> ('o, string) run" where
  "model_name lib model_id = and_then (lookup (lib_models lib) model_id) (\<lambda>m. Returns (cm_name m) [])"

definition model_prefix :: "CircuitLibrary \<Rightarrow> nat \<Rightarrow> ('o, string) run" where
  "model_prefix lib model_id = and_then (lookup (lib_models lib) model_id) (\<lambda>m. Returns (cm_prefix m) [])"

definition model_type :: "CircuitLibrary \<Rightarrow> nat \<Rightarrow> ('o, e_spice_model_type) run" where
  "model_type lib model_id = and_then (lookup (lib_models lib) model_id) (\<lambda>m. Returns (cm_type m) [])"

definition models_by_type :: "CircuitLibrary \<Rightarrow> e_spice_model_type \<Rightarrow> nat list" where
  "models_by_type lib t = filter (\<lambda>i. cm_type (lib_models lib ! i) = t) [0..<num_models lib]"

definition ports :: "CircuitLibrary \<Rightarrow> nat list" where
  "ports lib = [0..<length (lib_ports lib)]"

definition model_ports_by_type ::
  "CircuitLibrary \<Rightarrow> nat \<Rightarrow> e_spice_model_port_type \<Rightarrow> bool \<Rightarrow> nat list" where
  "model_ports_by_type lib model_id t ignore_global_port =
     filter (\<lambda>p. cp_model (lib_ports lib ! p) = model_id
                \<and> cp_type (lib_ports lib ! p) = t
                \<and> \<not> (ignore_global_port \<and> cp_is_global (lib_ports lib ! p)))
       (ports lib)"

text \<open>
  Modelled from the spec: ``every port with is\_global = true has port-type INPUT''.
\<close>

definition is_input_port :: "CircuitLibrary \<Rightarrow> nat \<Rightarrow> bool" where
  "is_input_port lib p = (cp_type (lib_ports lib ! p) = SPICE_MODEL_PORT_INPUT)"

text \<open>
  Modelled from the spec: a model is ``optionally flagged as the catalog's default model
  for its type''; \<open>None\<close> is \<^verbatim>\<open>CircuitModelId::INVALID()\<close>.
\<close>

definition default_model :: "CircuitLibrary \<Rightarrow> e_spice_model_type \<Rightarrow> nat option" where
  "default_model lib t =
     (case filter (\<lambda>i. cm_is_default (lib_models lib ! i)) (models_by_type lib t) of
        [] \<Rightarrow> None
      | i # _ \<Rightarrow> Some i)"

section \<open>check\_circuit\_library.cpp\<close>

text \<open>The messages of \<^verbatim>\<open>vpr_printf\<close>, one constructor per format string, with its arguments.\<close>

datatype msg =
    Info_Checking
  | Err_Share_Name nat nat string
  | Err_Share_Prefix string string string
  | Err_Model_Required e_spice_model_type
  | Err_No_Port e_spice_model_type string e_spice_model_port_type
  | Err_Port_Size string e_spice_model_port_type nat
  | Err_Port_Count nat e_spice_model_port_type e_spice_model_type nat
  | Err_Global_Not_Input e_spice_model_port_type nat
  | Err_Not_Global e_spice_model_port_type nat
  | Err_SRAM_Or_SCFF_Required
  | Err_No_Default e_spice_model_type
  | Info_Finished nat

definition vpr_printf :: "msg \<Rightarrow> (msg, unit) run" where
  "vpr_printf m = emit m"

text \<open>
  The two loops of \<^verbatim>\<open>check_circuit_library_unique_names\<close>, inner loop first. The
  counters \<open>i\<close> and \<open>j\<close> stay below \<^verbatim>\<open>num_models()\<close>, itself a \<^verbatim>\<open>size_t\<close>, so
  \<^verbatim>\<open>++i\<close>, \<^verbatim>\<open>++j\<close> and \<^verbatim>\<open>i + 1\<close> do not wrap; \<^verbatim>\<open>num_models() - 1\<close> does on an
  empty library. A model is read through its identifier, which the library checks.
\<close>

function unique_names_loop_j ::
  "CircuitLibrary \<Rightarrow> nat \<Rightarrow> string \<Rightarrow> nat \<Rightarrow> nat \<Rightarrow> (msg, nat) run" where
  "unique_names_loop_j lib i i_name j num_err =
     (if j < num_models lib then
        and_then (model_name lib j) (\<lambda>j_name.
          if i_name \<noteq> j_name then unique_names_loop_j lib i i_name (j + 1) num_err
          else and_then (vpr_printf (Err_Share_Name i j i_name)) (\<lambda>_.
                 unique_names_loop_j lib i i_name (j + 1) (num_err + 1)))
      else Returns num_err [])"
  by pat_completeness auto
termination
  by (relation "measure (\<lambda>(lib, i, i_name, j, num_err). num_models lib - j)") auto

declare unique_names_loop_j.simps [simp del]

function unique_names_loop_i :: "CircuitLibrary \<Rightarrow> nat \<Rightarrow> nat \<Rightarrow> (msg, nat) run" where
  "unique_names_loop_i lib i num_err =
     (if i < num_models lib then
        if i = size_t_sub (num_models lib) 1 then unique_names_loop_i lib (i + 1) num_err
        else and_then (model_name lib i) (\<lambda>i_name.
               and_then (unique_names_loop_j lib i i_name (i + 1) num_err) (\<lambda>num_err.
                 unique_names_loop_i lib (i + 1) num_err))
      else Returns num_err [])"
  by pat_completeness auto
termination
  by (relation "measure (\<lambda>(lib, i, num_err). num_models lib - i)") auto

declare unique_names_loop_i.simps [simp del]

definition check_circuit_library_unique_names :: "CircuitLibrary \<Rightarrow> (msg, nat) run" where
  "check_circuit_library_unique_names lib = unique_names_loop_i lib 0 0"

text \<open>The two loops of \<^verbatim>\<open>check_circuit_library_unique_prefix\<close>, in the same way.\<close>

function unique_prefix_loop_j ::
  "CircuitLibrary \<Rightarrow> nat \<Rightarrow> string \<Rightarrow> nat \<Rightarrow> nat \<Rightarrow> (msg, nat) run" where
  "unique_prefix_loop_j lib i i_prefix j num_err =
     (if j < num_models lib then
        and_then (model_prefix lib j) (\<lambda>j_prefix.
          if i_prefix \<noteq> j_prefix then unique_prefix_loop_j lib i i_prefix (j + 1) num_err
          else and_then (model_name lib i) (\<lambda>name_i.
               and_then (model_name lib j) (\<lambda>name_j.
               and_then (vpr_printf (Err_Share_Prefix name_i name_j i_prefix)) (\<lambda>_.
                 unique_prefix_loop_j lib i i_prefix (j + 1) (num_err + 1)))))
      else Returns num_err [])"
  by pat_completeness auto
termination
  by (relation "measure (\<lambda>(lib, i, i_prefix, j, num_err). num_models lib - j)") auto

declare unique_prefix_loop_j.simps [simp del]

function unique_prefix_loop_i :: "CircuitLibrary \<Rightarrow> nat \<Rightarrow> nat \<Rightarrow> (msg, nat) run" where
  "unique_prefix_loop_i lib i num_err =
     (if i < num_models lib then
        if i = size_t_sub (num_models lib) 1 then unique_prefix_loop_i lib (i + 1) num_err
        else and_then (model_prefix lib i) (\<lambda>i_prefix.
               and_then (unique_prefix_loop_j lib i i_prefix (i + 1) num_err) (\<lambda>num_err.
                 unique_prefix_loop_i lib (i + 1) num_err))
      else Returns num_err [])"
  by pat_completeness auto
termination
  by (relation "measure (\<lambda>(lib, i, num_err). num_models lib - i)") auto

declare unique_prefix_loop_i.simps [simp del]

definition check_circuit_library_unique_prefix :: "CircuitLibrary \<Rightarrow> (msg, nat) run" where
  "check_circuit_library_unique_prefix lib = unique_prefix_loop_i lib 0 0"

definition report_error :: "msg \<Rightarrow> nat \<Rightarrow> (msg, nat) run" where
  "report_error m num_err = and_then (vpr_printf m) (\<lambda>_. Returns (num_err + 1) [])"

definition port_size :: "CircuitLibrary \<Rightarrow> nat \<Rightarrow> ('o, nat) run" where
  "port_size lib port_id = and_then (lookup (lib_ports lib) port_id) (\<lambda>p. Returns (cp_size p) [])"

definition port_type :: "CircuitLibrary \<Rightarrow> nat \<Rightarrow> ('o, e_spice_model_port_type) run" where
  "port_type lib port_id = and_then (lookup (lib_ports lib) port_id) (\<lambda>p. Returns (cp_type p) [])"

definition check_circuit_model_required ::
  "CircuitLibrary \<Rightarrow> e_spice_model_type \<Rightarrow> (msg, nat) run" where
  "check_circuit_model_required lib circuit_model_type_to_check =
     (if length (models_by_type lib circuit_model_type_to_check) = 0
      then report_error (Err_Model_Required circuit_model_type_to_check) 0
      else Returns 0 [])"

text \<open>
  The call \<^verbatim>\<open>model_ports_by_type(model, type)\<close> with two arguments lists the ports of the
  type, global ones included.
\<close>

definition check_one_circuit_model_port_required ::
  "CircuitLibrary \<Rightarrow> nat \<Rightarrow> e_spice_model_port_type list \<Rightarrow> (msg, nat) run" where
  "check_one_circuit_model_port_required lib circuit_model port_types_to_check =
     foreach_add port_types_to_check
       (\<lambda>pt. if length (model_ports_by_type lib circuit_model pt False) = 0
             then and_then (model_type lib circuit_model) (\<lambda>t.
                  and_then (model_name lib circuit_model) (\<lambda>n.
                    report_error (Err_No_Port t n pt) 0))
             else Returns 0 [])
       0"

definition check_one_circuit_model_port_size_required ::
  "CircuitLibrary \<Rightarrow> nat \<Rightarrow> nat \<Rightarrow> nat \<Rightarrow> (msg, nat) run" where
  "check_one_circuit_model_port_size_required lib circuit_model circuit_port port_size_to_check =
     and_then (port_size lib circuit_port) (\<lambda>sz.
       if port_size_to_check \<noteq> sz
       then and_then (model_name lib circuit_model) (\<lambda>n.
            and_then (port_type lib circuit_port) (\<lambda>pt.
              report_error (Err_Port_Size n pt port_size_to_check) 0))
       else Returns 0 [])"

text \<open>
  The count-mismatch message of \<^verbatim>\<open>check_one_circuit_model_port_type_and_size_required\<close>.
  Its format is \<^verbatim>\<open>Expect %d %s ports for a %s circuit model, but only have %d %s ports!\<close>
  and its arguments are, in this order, the required count (a \<^verbatim>\<open>size_t\<close>), the port
  type string, the model type string, the port type string again and \<^verbatim>\<open>ports.size()\<close>
  (a \<^verbatim>\<open>size_t\<close>): the last conversion \<^verbatim>\<open>%s\<close> reads the number of ports as the address
  of a string. For no port this is the null pointer, which the C library prints as
  \<^verbatim>\<open>(null)\<close>; any other number is not the address of a string, and the process is
  killed before the message is written. The second \<^verbatim>\<open>%d\<close> prints a number read from the
  address of the port type string; the message below records the number of ports instead,
  and no statement depends on it.
\<close>

definition print_port_count_mismatch ::
  "nat \<Rightarrow> e_spice_model_port_type \<Rightarrow> e_spice_model_type \<Rightarrow> nat \<Rightarrow> (msg, unit) run" where
  "print_port_count_mismatch num_ports_to_check port_type_to_check t ports_size =
     (if ports_size = 0
      then vpr_printf (Err_Port_Count num_ports_to_check port_type_to_check t ports_size)
      else Stops Segfault [])"

definition check_one_circuit_model_port_type_and_size_required ::
  "CircuitLibrary \<Rightarrow> nat \<Rightarrow> e_spice_model_port_type \<Rightarrow> nat \<Rightarrow> nat \<Rightarrow> bool \<Rightarrow> (msg, nat) run" where
  "check_one_circuit_model_port_type_and_size_required lib circuit_model port_type_to_check
       num_ports_to_check port_size_to_check include_global_ports =
     (let ps = model_ports_by_type lib circuit_model port_type_to_check (False = include_global_ports)
      in and_then
           (if num_ports_to_check \<noteq> length ps
            then and_then (model_type lib circuit_model) (\<lambda>t.
                 and_then (print_port_count_mismatch num_ports_to_check port_type_to_check t
                             (length ps)) (\<lambda>_.
                   Returns (0 + 1) []))
            else Returns 0 [])
           (\<lambda>num_err.
              foreach_add ps
                (\<lambda>port. check_one_circuit_model_port_size_required lib circuit_model port
                           port_size_to_check)
                num_err))"

definition check_circuit_model_port_required ::
  "CircuitLibrary \<Rightarrow> e_spice_model_type \<Rightarrow> e_spice_model_port_type list \<Rightarrow> (msg, nat) run" where
  "check_circuit_model_port_required lib circuit_model_type_to_check port_types_to_check =
     foreach_add (models_by_type lib circuit_model_type_to_check)
       (\<lambda>id. check_one_circuit_model_port_required lib id port_types_to_check)
       0"

definition check_required_default_circuit_model ::
  "CircuitLibrary \<Rightarrow> e_spice_model_type \<Rightarrow> (msg, nat) run" where
  "check_required_default_circuit_model lib circuit_model_type =
     (if default_model lib circuit_model_type = None
      then and_then (vpr_printf (Err_No_Default circuit_model_type)) (\<lambda>_. exit_process 1)
      else Returns 0 [])"

definition check_sram_circuit_model_ports :: "CircuitLibrary \<Rightarrow> nat \<Rightarrow> bool \<Rightarrow> (msg, nat) run" where
  "check_sram_circuit_model_ports lib circuit_model check_blwl =
     and_then (model_type lib circuit_model) (\<lambda>t.
     and_then (VTR_ASSERT (SPICE_MODEL_SRAM = t)) (\<lambda>_.
     and_then (add_errors 0 (check_one_circuit_model_port_type_and_size_required lib circuit_model
                               SPICE_MODEL_PORT_OUTPUT 1 2 False)) (\<lambda>num_err.
     if False = check_blwl then Returns num_err []
     else
     and_then (add_errors num_err (check_one_circuit_model_port_type_and_size_required lib circuit_model
                               SPICE_MODEL_PORT_BL 1 1 False)) (\<lambda>num_err.
     add_errors num_err (check_one_circuit_model_port_type_and_size_required lib circuit_model
                               SPICE_MODEL_PORT_WL 1 1 False)))))"

text \<open>
  The identifiers of \<^verbatim>\<open>ports()\<close> are the positions of the port vector, so the attribute
  reads below are in range.
\<close>

definition check_circuit_library_ports :: "CircuitLibrary \<Rightarrow> (msg, nat) run" where
  "check_circuit_library_ports lib =
     and_then
       (foreach_add (ports lib)
          (\<lambda>port. if cp_is_global (lib_ports lib ! port) \<and> \<not> is_input_port lib port
                 then report_error (Err_Global_Not_Input (cp_type (lib_ports lib ! port)) port) 0
                 else Returns 0 [])
          0)
       (\<lambda>num_err.
          foreach_add (ports lib)
            (\<lambda>port. if (cp_is_set (lib_ports lib ! port)
                        \<or> cp_is_reset (lib_ports lib ! port)
                        \<or> cp_is_config_enable (lib_ports lib ! port))
                       \<and> \<not> cp_is_global (lib_ports lib ! port)
                   then report_error (Err_Not_Global (cp_type (lib_ports lib ! port)) port) 0
                   else Returns 0 [])
            num_err)"

definition iopad_port_types_required :: "e_spice_model_port_type list" where
  "iopad_port_types_required =
     [SPICE_MODEL_PORT_INPUT, SPICE_MODEL_PORT_OUTPUT, SPICE_MODEL_PORT_INOUT, SPICE_MODEL_PORT_SRAM]"

definition mux_port_types_required :: "e_spice_model_port_type list" where
  "mux_port_types_required =
     [SPICE_MODEL_PORT_INPUT, SPICE_MODEL_PORT_OUTPUT, SPICE_MODEL_PORT_SRAM]"

definition sram_port_types_required :: "e_spice_model_port_type list" where
  "sram_port_types_required = [SPICE_MODEL_PORT_INPUT, SPICE_MODEL_PORT_OUTPUT]"

definition scff_port_types_required :: "e_spice_model_port_type list" where
  "scff_port_types_required =
     [SPICE_MODEL_PORT_CLOCK, SPICE_MODEL_PORT_INPUT, SPICE_MODEL_PORT_OUTPUT]"

definition ff_port_types_required :: "e_spice_model_port_type list" where
  "ff_port_types_required =
     [SPICE_MODEL_PORT_CLOCK, SPICE_MODEL_PORT_INPUT, SPICE_MODEL_PORT_OUTPUT]"

definition lut_port_types_required :: "e_spice_model_port_type list" where
  "lut_port_types_required =
     [SPICE_MODEL_PORT_SRAM, SPICE_MODEL_PORT_INPUT, SPICE_MODEL_PORT_OUTPUT]"

text \<open>Checks 1 to 9 of \<^verbatim>\<open>check_circuit_library\<close>: each adds to the running total.\<close>

definition accumulated_checks :: "CircuitLibrary \<Rightarrow> (msg, nat) run" where
  "accumulated_checks lib =
     and_then (add_errors 0 (check_circuit_library_unique_names lib)) (\<lambda>num_err.
     and_then (add_errors num_err (check_circuit_library_unique_prefix lib)) (\<lambda>num_err.
     and_then (add_errors num_err (check_circuit_library_ports lib)) (\<lambda>num_err.
     and_then (add_errors num_err (check_circuit_model_required lib SPICE_MODEL_IOPAD)) (\<lambda>num_err.
     and_then (add_errors num_err (check_circuit_model_port_required lib SPICE_MODEL_IOPAD
                                     iopad_port_types_required)) (\<lambda>num_err.
     and_then (add_errors num_err (check_circuit_model_required lib SPICE_MODEL_MUX)) (\<lambda>num_err.
     and_then (add_errors num_err (check_circuit_model_port_required lib SPICE_MODEL_MUX
                                     mux_port_types_required)) (\<lambda>num_err.
     and_then (if length (models_by_type lib SPICE_MODEL_SRAM) = 0
                  \<and> length (models_by_type lib SPICE_MODEL_SCFF) = 0
               then report_error Err_SRAM_Or_SCFF_Required num_err
               else Returns num_err []) (\<lambda>num_err.
     and_then (add_errors num_err (check_circuit_model_port_required lib SPICE_MODEL_SRAM
                                     sram_port_types_required)) (\<lambda>num_err.
     and_then (add_errors num_err (check_circuit_model_port_required lib SPICE_MODEL_SCFF
                                     scff_port_types_required)) (\<lambda>num_err.
     and_then (add_errors num_err (check_circuit_model_port_required lib SPICE_MODEL_FF
                                     ff_port_types_required)) (\<lambda>num_err.
     add_errors num_err (check_circuit_model_port_required lib SPICE_MODEL_LUT
                                     lut_port_types_required))))))))))))"

text \<open>Check 10 of \<^verbatim>\<open>check_circuit_library\<close>, in the order MUX, CHAN\_WIRE, WIRE.\<close>

definition default_model_checks :: "CircuitLibrary \<Rightarrow> nat \<Rightarrow> (msg, nat) run" where
  "default_model_checks lib num_err =
     and_then (add_errors num_err (check_required_default_circuit_model lib SPICE_MODEL_MUX)) (\<lambda>num_err.
     and_then (add_errors num_err (check_required_default_circuit_model lib SPICE_MODEL_CHAN_WIRE)) (\<lambda>num_err.
     add_errors num_err (check_required_default_circuit_model lib SPICE_MODEL_WIRE)))"

definition check_circuit_library :: "CircuitLibrary \<Rightarrow> (msg, unit) run" where
  "check_circuit_library lib =
     and_then (vpr_printf Info_Checking) (\<lambda>_.
     and_then (accumulated_checks lib) (\<lambda>num_err.
     and_then (default_model_checks lib num_err) (\<lambda>num_err.
     and_then (vpr_printf (Info_Finished num_err)) (\<lambda>_.
     if 0 < num_err then exit_process 1 else Returns () []))))"

section \<open>Equal entries of a vector, pair by pair\<close>

text \<open>
  The positions \<open>(i, j)\<close> with \<open>i < j\<close> that hold equal entries, listed by \<open>i\<close> and then
  by \<open>j\<close>, starting from row \<open>k\<close>. This is the reference the two uniqueness loops are
  compared with.
\<close>

definition equal_pairs_from :: "'a list \<Rightarrow> nat \<Rightarrow> (nat \<times> nat) list" where
  "equal_pairs_from xs k =
     concat (map (\<lambda>i. map (Pair i) (filter (\<lambda>j. xs ! j = xs ! i) [i + 1..<length xs]))
               [k..<length xs])"

definition equal_pairs :: "'a list \<Rightarrow> (nat \<times> nat) list" where
  "equal_pairs xs = equal_pairs_from xs 0"

definition model_names :: "CircuitLibrary \<Rightarrow> string list" where
  "model_names lib = map cm_name (lib_models lib)"

definition model_prefixes :: "CircuitLibrary \<Rightarrow> string list" where
  "model_prefixes lib = map cm_prefix (lib_models lib)"

text \<open>The name-uniqueness messages of a log that report the name \<open>nm\<close>.\<close>

fun reports_name :: "string \<Rightarrow> msg \<Rightarrow> bool" where
  "reports_name nm (Err_Share_Name i j i_name) = (i_name = nm)"
| "reports_name nm _ = False"

section \<open>verilog\_preconfig\_top\_module.cpp\<close>

subsection \<open>Ports, modules, logical blocks and the bitstream\<close>

text \<open>
  Modelled from the spec: class \<^verbatim>\<open>BasicPort\<close> (\<^verbatim>\<open>device_port.h\<close>) is not among the sources.
  A port has a name and a pin range from \<open>lsb\<close> to \<open>msb\<close>; it is valid when
  \<open>lsb \<le> msb\<close> and then has \<open>msb - lsb + 1\<close> pins, and an invalid port has width 0. The
  constructor with a width makes the range \<open>[0, width - 1]\<close>, the constructor with two
  bounds and \<^verbatim>\<open>set_width(lsb, msb)\<close> make the range \<open>[lsb, msb]\<close>; a width of 0 or
  bounds with \<open>lsb > msb\<close> make the port invalid (the range \<open>[1, 0]\<close>).
\<close>

record BasicPort =
  bp_name :: string
  bp_lsb :: nat
  bp_msb :: nat

definition set_width :: "BasicPort \<Rightarrow> nat \<Rightarrow> nat \<Rightarrow> BasicPort" where
  "set_width p lsb msb =
     (if lsb > msb then p\<lparr>bp_lsb := 1, bp_msb := 0\<rparr> else p\<lparr>bp_lsb := lsb, bp_msb := msb\<rparr>)"

definition BasicPort_width :: "string \<Rightarrow> nat \<Rightarrow> BasicPort" where
  "BasicPort_width name width =
     (if width = 0 then \<lparr>bp_name = name, bp_lsb = 1, bp_msb = 0\<rparr>
      else \<lparr>bp_name = name, bp_lsb = 0, bp_msb = width - 1\<rparr>)"

definition BasicPort_range :: "string \<Rightarrow> nat \<Rightarrow> nat \<Rightarrow> BasicPort" where
  "BasicPort_range name lsb msb = set_width \<lparr>bp_name = name, bp_lsb = 1, bp_msb = 0\<rparr> lsb msb"

definition is_valid :: "BasicPort \<Rightarrow> bool" where
  "is_valid p = (bp_lsb p \<le> bp_msb p)"

definition get_name :: "BasicPort \<Rightarrow> string" where
  "get_name p = bp_name p"

definition get_width :: "BasicPort \<Rightarrow> nat" where
  "get_width p = (if is_valid p then bp_msb p - bp_lsb p + 1 else 0)"

definition pins :: "BasicPort \<Rightarrow> ('o, nat list) run" where
  "pins p = and_then (VTR_ASSERT (is_valid p)) (\<lambda>_. Returns [bp_lsb p..<bp_msb p + 1] [])"

text \<open>
  Modelled from the spec: class \<^verbatim>\<open>ModuleManager\<close> is not among the sources. A module has a
  name and an ordered set of ports, each in one role; \<^verbatim>\<open>ModuleId\<close> is a position in the
  vector of modules.
\<close>

datatype e_module_port_type = MODULE_GLOBAL_PORT | MODULE_GPIO_PORT | MODULE_INPUT_PORT

record module =
  mod_name :: string
  mod_ports :: "(e_module_port_type \<times> BasicPort) list"

type_synonym ModuleManager = "module list"

text \<open>\<^verbatim>\<open>ModuleManager::module_name\<close> (the plain name is reserved in Isabelle).\<close>

definition module_name_of :: "ModuleManager \<Rightarrow> nat \<Rightarrow> ('o, string) run" where
  "module_name_of module_manager module_id =
     and_then (lookup module_manager module_id) (\<lambda>m. Returns (mod_name m) [])"

definition module_ports_by_type ::
  "ModuleManager \<Rightarrow> nat \<Rightarrow> e_module_port_type \<Rightarrow> ('o, BasicPort list) run" where
  "module_ports_by_type module_manager module_id t =
     and_then (lookup module_manager module_id) (\<lambda>m.
       Returns (map snd (filter (\<lambda>tp. fst tp = t) (mod_ports m))) [])"

text \<open>
  Modelled from the spec: \<^verbatim>\<open>t_logical_block\<close> is declared in a header that is not among the
  sources; of a logical block the code reads its kind and its name.
\<close>

datatype logical_block_types = VPACK_INPAD | VPACK_OUTPAD | VPACK_COMB | VPACK_LATCH | VPACK_EMPTY

record t_logical_block =
  lb_type :: logical_block_types
  lb_name :: string

text \<open>
  Modelled from the spec: class \<^verbatim>\<open>BitstreamManager\<close> is not among the sources. A block has
  a name and a parent link, absent for the root; a configuration bit has its owning
  block, its index within the owner and a stored boolean value. \<^verbatim>\<open>ConfigBlockId\<close> and
  \<^verbatim>\<open>ConfigBitId\<close> are positions in the two vectors, \<open>None\<close> the invalid block identifier.
\<close>

record config_block =
  blk_name :: string
  blk_parent :: "nat option"

record config_bit =
  cbit_parent_block :: "nat option"
  cbit_index_in_parent_block :: nat
  cbit_value :: bool

record BitstreamManager =
  bm_blocks :: "config_block list"
  bm_bits :: "config_bit list"

definition valid_block_id :: "BitstreamManager \<Rightarrow> nat option \<Rightarrow> bool" where
  "valid_block_id bm block_id =
     (case block_id of None \<Rightarrow> False | Some b \<Rightarrow> b < length (bm_blocks bm))"

definition lookup_block :: "BitstreamManager \<Rightarrow> nat option \<Rightarrow> ('o, config_block) run" where
  "lookup_block bm block_id =
     (case block_id of None \<Rightarrow> Stops Invalid_Id [] | Some b \<Rightarrow> lookup (bm_blocks bm) b)"

definition block_name :: "BitstreamManager \<Rightarrow> nat option \<Rightarrow> ('o, string) run" where
  "block_name bm block_id = and_then (lookup_block bm block_id) (\<lambda>b. Returns (blk_name b) [])"

definition bit_parent_block :: "BitstreamManager \<Rightarrow> nat \<Rightarrow> ('o, nat option) run" where
  "bit_parent_block bm bit_id =
     and_then (lookup (bm_bits bm) bit_id) (\<lambda>b. Returns (cbit_parent_block b) [])"

definition bit_index_in_parent_block :: "BitstreamManager \<Rightarrow> nat \<Rightarrow> ('o, nat) run" where
  "bit_index_in_parent_block bm bit_id =
     and_then (lookup (bm_bits bm) bit_id) (\<lambda>b. Returns (cbit_index_in_parent_block b) [])"

definition bit_value :: "BitstreamManager \<Rightarrow> nat \<Rightarrow> ('o, bool) run" where
  "bit_value bm bit_id = and_then (lookup (bm_bits bm) bit_id) (\<lambda>b. Returns (cbit_value b) [])"

text \<open>
  Modelled from the spec: \<^verbatim>\<open>find_bitstream_manager_block_hierarchy\<close> is not among the
  sources. It ``walks owning-block, parent, \dots, root to produce the ordered ancestor
  chain from root to the bit's immediate owner'': while the block identifier is valid
  the block is appended and the walk goes to its parent, and the vector is reversed at
  the end. On parent links that form a cycle the walk never ends (\<open>None\<close>).
\<close>

partial_function (option) block_walk ::
  "BitstreamManager \<Rightarrow> nat option \<Rightarrow> nat option list \<Rightarrow> nat option list option" where
  "block_walk bm temp_block block_hierarchy =
     (if valid_block_id bm temp_block
      then block_walk bm (blk_parent (bm_blocks bm ! the temp_block)) (block_hierarchy @ [temp_block])
      else Some block_hierarchy)"

definition find_bitstream_manager_block_hierarchy ::
  "BitstreamManager \<Rightarrow> nat option \<Rightarrow> ('o, nat option list) run" where
  "find_bitstream_manager_block_hierarchy bm block =
     (case block_walk bm block [] of
        None \<Rightarrow> Stops Diverged []
      | Some block_hierarchy \<Rightarrow> Returns (rev block_hierarchy) [])"

text \<open>
  The constants and the name generator that \<^verbatim>\<open>verilog_global.h\<close> and
  \<^verbatim>\<open>fpga_x2p_naming.h\<close> declare are not among the sources; they are parameters.
\<close>

record verilog_names =
  formal_verification_top_module_port_postfix :: string
  formal_verification_top_module_uut_name :: string
  verilog_default_signal_init_value :: nat
  generate_configuration_chain_data_out_name :: string

subsection \<open>The calls into the netlist writer\<close>

text \<open>
  The writer functions of \<^verbatim>\<open>verilog_writer_utils.h\<close> are not among the sources. The
  output of this file is the sequence of its calls into them, each with its arguments,
  and of the line ends it writes itself.
\<close>

datatype emission =
    Verilog_Comment string
  | Wire_Connection BasicPort BasicPort bool
  | Wire_Constant_Values BasicPort "nat list"
  | Endl

definition print_verilog_comment :: "string \<Rightarrow> (emission, unit) run" where
  "print_verilog_comment c = emit (Verilog_Comment c)"

definition print_verilog_wire_connection ::
  "BasicPort \<Rightarrow> BasicPort \<Rightarrow> bool \<Rightarrow> (emission, unit) run" where
  "print_verilog_wire_connection output_port input_port inverted =
     emit (Wire_Connection output_port input_port inverted)"

definition print_verilog_wire_constant_values :: "BasicPort \<Rightarrow> nat list \<Rightarrow> (emission, unit) run" where
  "print_verilog_wire_constant_values output_port const_values =
     emit (Wire_Constant_Values output_port const_values)"

text \<open>
  \<^verbatim>\<open>check_file_handler\<close> ends the process when the stream is not open; \<open>fp_ok\<close> says
  whether it is.
\<close>

definition check_file_handler :: "bool \<Rightarrow> (emission, unit) run" where
  "check_file_handler fp_ok = (if fp_ok then Returns () [] else exit_process 1)"

subsection \<open>Global ports\<close>

definition port_lib_name :: "CircuitLibrary \<Rightarrow> nat \<Rightarrow> ('o, string) run" where
  "port_lib_name lib port_id =
     and_then (lookup (lib_ports lib) port_id) (\<lambda>p. Returns (cp_lib_name p) [])"

definition port_is_prog :: "CircuitLibrary \<Rightarrow> nat \<Rightarrow> ('o, bool) run" where
  "port_is_prog lib port_id =
     and_then (lookup (lib_ports lib) port_id) (\<lambda>p. Returns (cp_is_prog p) [])"

definition port_default_value :: "CircuitLibrary \<Rightarrow> nat \<Rightarrow> ('o, nat) run" where
  "port_default_value lib port_id =
     and_then (lookup (lib_ports lib) port_id) (\<lambda>p. Returns (cp_default_value p) [])"

text \<open>The inner loop: the first circuit port of \<open>global_ports\<close> with the module port's name.\<close>

fun find_linked_circuit_port ::
  "CircuitLibrary \<Rightarrow> string \<Rightarrow> nat list \<Rightarrow> (emission, nat option) run" where
  "find_linked_circuit_port circuit_lib name [] = Returns None []"
| "find_linked_circuit_port circuit_lib name (circuit_port_id # global_ports) =
     and_then (port_lib_name circuit_lib circuit_port_id) (\<lambda>lib_name.
       if name \<noteq> lib_name then find_linked_circuit_port circuit_lib name global_ports
       else Returns (Some circuit_port_id) [])"

text \<open>The two ways to drive one global port.\<close>

definition wire_to_benchmark_clocks ::
  "verilog_names \<Rightarrow> string list \<Rightarrow> BasicPort \<Rightarrow> (emission, unit) run" where
  "wire_to_benchmark_clocks g benchmark_clock_port_names module_global_port =
     and_then (pins module_global_port) (\<lambda>ps.
       foreach ps (\<lambda>pin.
         foreach benchmark_clock_port_names (\<lambda>clock_port_name.
           print_verilog_wire_connection
             (BasicPort_range (get_name module_global_port) pin pin)
             (BasicPort_width (clock_port_name @ formal_verification_top_module_port_postfix g) 1)
             False)))"

definition wire_to_default_value :: "CircuitLibrary \<Rightarrow> nat \<Rightarrow> BasicPort \<Rightarrow> (emission, unit) run" where
  "wire_to_default_value circuit_lib linked_circuit_port_id module_global_port =
     and_then (port_default_value circuit_lib linked_circuit_port_id) (\<lambda>v.
       print_verilog_wire_constant_values module_global_port
         (replicate (get_width module_global_port) v))"

text \<open>The body of the loop over the global ports of the top module.\<close>

definition connect_global_port ::
  "verilog_names \<Rightarrow> CircuitLibrary \<Rightarrow> nat list \<Rightarrow> string list \<Rightarrow> BasicPort \<Rightarrow> (emission, unit) run" where
  "connect_global_port g circuit_lib global_ports benchmark_clock_port_names module_global_port =
     and_then (find_linked_circuit_port circuit_lib (get_name module_global_port) global_ports)
       (\<lambda>linked_circuit_port_id.
     and_then (VTR_ASSERT (None \<noteq> linked_circuit_port_id)) (\<lambda>_.
     and_then (port_size circuit_lib (the linked_circuit_port_id)) (\<lambda>sz.
     and_then (VTR_ASSERT (get_width module_global_port = sz)) (\<lambda>_.
     and_then (port_type circuit_lib (the linked_circuit_port_id)) (\<lambda>t.
       if SPICE_MODEL_PORT_CLOCK = t
       then and_then (port_is_prog circuit_lib (the linked_circuit_port_id)) (\<lambda>prog.
              if False = prog
              then wire_to_benchmark_clocks g benchmark_clock_port_names module_global_port
              else wire_to_default_value circuit_lib (the linked_circuit_port_id) module_global_port)
       else wire_to_default_value circuit_lib (the linked_circuit_port_id) module_global_port)))))"

definition print_verilog_preconfig_top_module_connect_global_ports ::
  "verilog_names \<Rightarrow> bool \<Rightarrow> ModuleManager \<Rightarrow> nat \<Rightarrow> CircuitLibrary \<Rightarrow> nat list \<Rightarrow> string list
     \<Rightarrow> (emission, unit) run" where
  "print_verilog_preconfig_top_module_connect_global_ports g fp_ok module_manager top_module
       circuit_lib global_ports benchmark_clock_port_names =
     and_then (check_file_handler fp_ok) (\<lambda>_.
     and_then (print_verilog_comment ''----- Begin Connect Global ports of FPGA top module -----'') (\<lambda>_.
     and_then (module_ports_by_type module_manager top_module MODULE_GLOBAL_PORT) (\<lambda>module_global_ports.
     and_then (foreach module_global_ports
                 (connect_global_port g circuit_lib global_ports benchmark_clock_port_names)) (\<lambda>_.
     and_then (print_verilog_comment ''----- End Connect Global ports of FPGA top module -----'') (\<lambda>_.
     emit Endl)))))"

subsection \<open>Benchmark I/Os\<close>

text \<open>\<^verbatim>\<open>std::to_string\<close> of an unsigned number: its decimal digits.\<close>

fun to_string :: "nat \<Rightarrow> string" where
  "to_string n =
     (if n < 10 then [''0123456789'' ! n]
      else to_string (n div 10) @ [''0123456789'' ! (n mod 10)])"

declare to_string.simps [simp del]

text \<open>
  The first loop of \<^verbatim>\<open>print_verilog_preconfig_top_module_connect_ios\<close>, with the vector
  \<^verbatim>\<open>io_used\<close> as its state. \<^verbatim>\<open>find_benchmark_io_index\<close> is not among the sources: the
  lookup, with the device size, the grids and the blocks it reads, is the parameter
  \<open>find_io_index\<close>.
\<close>

fun link_benchmark_ios ::
  "verilog_names \<Rightarrow> BasicPort \<Rightarrow> (t_logical_block \<Rightarrow> nat) \<Rightarrow> t_logical_block list \<Rightarrow> bool list
     \<Rightarrow> (emission, bool list) run" where
  "link_benchmark_ios g module_io_port find_io_index [] io_used = Returns io_used []"
| "link_benchmark_ios g module_io_port find_io_index (io_lb # L_logical_blocks) io_used =
     (if VPACK_INPAD \<noteq> lb_type io_lb \<and> VPACK_OUTPAD \<noteq> lb_type io_lb
      then link_benchmark_ios g module_io_port find_io_index L_logical_blocks io_used
      else
        let io_index = find_io_index io_lb;
            module_mapped_io_port = module_io_port
        in and_then (VTR_ASSERT (io_index < get_width module_mapped_io_port)) (\<lambda>_.
           let module_mapped_io_port = set_width module_mapped_io_port io_index io_index;
               benchmark_io_port =
                 BasicPort_width (lb_name io_lb @ formal_verification_top_module_port_postfix g) 1
           in and_then (print_verilog_comment
                          (''----- Blif Benchmark inout '' @ lb_name io_lb
                            @ '' is mapped to FPGA IOPAD '' @ get_name module_mapped_io_port
                            @ ''['' @ to_string io_index @ ''] -----'')) (\<lambda>_.
              and_then (print_verilog_wire_connection module_mapped_io_port benchmark_io_port False) (\<lambda>_.
              link_benchmark_ios g module_io_port find_io_index L_logical_blocks
                (io_used[io_index := True])))))"

text \<open>The body of the second loop, for one position of \<^verbatim>\<open>io_used\<close>.\<close>

definition wire_unused_io :: "verilog_names \<Rightarrow> BasicPort \<Rightarrow> bool list \<Rightarrow> nat \<Rightarrow> (emission, unit) run" where
  "wire_unused_io g module_io_port io_used io_index =
     (if True = io_used ! io_index then Returns () []
      else
        let module_unused_io_port = set_width module_io_port io_index io_index
        in print_verilog_wire_constant_values module_unused_io_port
             (replicate (get_width module_unused_io_port) (verilog_default_signal_init_value g)))"

definition print_verilog_preconfig_top_module_connect_ios ::
  "verilog_names \<Rightarrow> bool \<Rightarrow> ModuleManager \<Rightarrow> nat \<Rightarrow> t_logical_block list
     \<Rightarrow> (t_logical_block \<Rightarrow> nat) \<Rightarrow> (emission, unit) run" where
  "print_verilog_preconfig_top_module_connect_ios g fp_ok module_manager top_module
       L_logical_blocks find_io_index =
     and_then (check_file_handler fp_ok) (\<lambda>_.
     and_then (module_ports_by_type module_manager top_module MODULE_GPIO_PORT) (\<lambda>gpio_ports.
     and_then (VTR_ASSERT (1 = length gpio_ports)) (\<lambda>_.
     and_then (lookup gpio_ports 0) (\<lambda>module_io_port.
     and_then (print_verilog_comment ''----- Link BLIF Benchmark I/Os to FPGA I/Os -----'') (\<lambda>_.
     and_then (link_benchmark_ios g module_io_port find_io_index L_logical_blocks
                 (replicate (get_width module_io_port) False)) (\<lambda>io_used.
     and_then (emit Endl) (\<lambda>_.
     and_then (print_verilog_comment ''----- Wire unused FPGA I/Os to constants -----'') (\<lambda>_.
     and_then (foreach [0..<length io_used] (wire_unused_io g module_io_port io_used)) (\<lambda>_.
     emit Endl)))))))))"

subsection \<open>The bitstream\<close>

text \<open>The loop that appends a separator and a block name for every block of the hierarchy.\<close>

fun append_block_names :: "BitstreamManager \<Rightarrow> string \<Rightarrow> nat option list \<Rightarrow> (emission, string) run" where
  "append_block_names bm bit_hierarchy_path [] = Returns bit_hierarchy_path []"
| "append_block_names bm bit_hierarchy_path (temp_block # block_hierarchy) =
     and_then (block_name bm temp_block) (\<lambda>n.
       append_block_names bm (bit_hierarchy_path @ ''.'' @ n) block_hierarchy)"

text \<open>
  The body of the loop over the bitstream. Reading \<^verbatim>\<open>block_hierarchy[0]\<close> of an empty
  vector is an invalid read.
\<close>

definition load_config_bit ::
  "verilog_names \<Rightarrow> ModuleManager \<Rightarrow> nat \<Rightarrow> BitstreamManager \<Rightarrow> nat \<Rightarrow> (emission, unit) run" where
  "load_config_bit g module_manager top_module bm config_bit_id =
     and_then (bit_parent_block bm config_bit_id) (\<lambda>bit_parent_block.
     and_then (find_bitstream_manager_block_hierarchy bm bit_parent_block) (\<lambda>block_hierarchy.
     and_then (module_name_of module_manager top_module) (\<lambda>top_name.
     and_then (lookup block_hierarchy 0) (\<lambda>root.
     and_then (block_name bm root) (\<lambda>root_name.
     and_then (VTR_ASSERT (top_name = root_name)) (\<lambda>_.
     let block_hierarchy = tl block_hierarchy
     in and_then (append_block_names bm (formal_verification_top_module_uut_name g) block_hierarchy)
          (\<lambda>bit_hierarchy_path.
        let bit_hierarchy_path =
              bit_hierarchy_path @ ''.'' @ generate_configuration_chain_data_out_name g
        in and_then (bit_index_in_parent_block bm config_bit_id) (\<lambda>index.
           let config_port = BasicPort_range bit_hierarchy_path index index
           in and_then (bit_value bm config_bit_id) (\<lambda>v.
              print_verilog_wire_constant_values config_port
                (replicate (get_width config_port) (if v then 1 else 0)))))))))))"

definition print_verilog_preconfig_top_module_load_bitstream ::
  "verilog_names \<Rightarrow> ModuleManager \<Rightarrow> nat \<Rightarrow> BitstreamManager \<Rightarrow> nat list \<Rightarrow> (emission, unit) run" where
  "print_verilog_preconfig_top_module_load_bitstream g module_manager top_module bm fabric_bitstream =
     and_then (print_verilog_comment ''----- Begin load bitstream to configuration memories -----'') (\<lambda>_.
     and_then (foreach fabric_bitstream (load_config_bit g module_manager top_module bm)) (\<lambda>_.
     print_verilog_comment ''----- End load bitstream to configuration memories -----''))"

section \<open>Counted errors\<close>

text \<open>
  The messages that go with an increment of \<^verbatim>\<open>num_err\<close>: every error message but the
  one of the fatal default-model check, which exits instead of counting.
\<close>

fun is_counted_error :: "msg \<Rightarrow> bool" where
  "is_counted_error Info_Checking = False"
| "is_counted_error (Info_Finished n) = False"
| "is_counted_error (Err_No_Default t) = False"
| "is_counted_error _ = True"

text \<open>
  A check that starts from the count \<open>n0\<close> is \<open>counted\<close> when it returns, its messages
  are all counted errors, and it returns \<open>n0\<close> plus the number of its messages.
\<close>

definition counted_from :: "nat \<Rightarrow> (msg, nat) run \<Rightarrow> bool" where
  "counted_from n0 m =
     (case m of
        Returns n log \<Rightarrow> n = n0 + length log \<and> list_all is_counted_error log
      | Stops s log \<Rightarrow> False)"

text \<open>The first of MUX, CHAN\_WIRE, WIRE without a default model, in the order of the checks.\<close>

definition first_missing_default :: "CircuitLibrary \<Rightarrow> e_spice_model_type option" where
  "first_missing_default lib =
     (if default_model lib SPICE_MODEL_MUX = None then Some SPICE_MODEL_MUX
      else if default_model lib SPICE_MODEL_CHAN_WIRE = None then Some SPICE_MODEL_CHAN_WIRE
      else if default_model lib SPICE_MODEL_WIRE = None then Some SPICE_MODEL_WIRE
      else None)"

section \<open>Ancestor chains\<close>

text \<open>
  A list of blocks, owner first, in which every block is valid and has the next one as
  its parent, and the last one, the root, has no valid parent.
\<close>

fun chain_to_root :: "BitstreamManager \<Rightarrow> nat list \<Rightarrow> bool" where
  "chain_to_root bm [] = False"
| "chain_to_root bm [r] =
     (r < length (bm_blocks bm) \<and> \<not> valid_block_id bm (blk_parent (bm_blocks bm ! r)))"
| "chain_to_root bm (b # p # rest) =
     (b < length (bm_blocks bm) \<and> blk_parent (bm_blocks bm ! b) = Some p
      \<and> chain_to_root bm (p # rest))"

section \<open>Emissions for a pad bit\<close>

text \<open>The logical blocks that the first loop of the I/O binder does not skip.\<close>

definition is_io_block :: "t_logical_block \<Rightarrow> bool" where
  "is_io_block lb = (lb_type lb = VPACK_INPAD \<or> lb_type lb = VPACK_OUTPAD)"

text \<open>A wire connection or a constant assignment whose first port is \<open>p\<close>.\<close>

fun drives :: "BasicPort \<Rightarrow> emission \<Rightarrow> bool" where
  "drives p (Wire_Connection output_port input_port inverted) = (output_port = p)"
| "drives p (Wire_Constant_Values output_port const_values) = (output_port = p)"
| "drives p _ = False"

fun is_wire_connection :: "emission \<Rightarrow> bool" where
  "is_wire_connection (Wire_Connection output_port input_port inverted) = True"
| "is_wire_connection _ = False"

fun is_constant_assignment :: "emission \<Rightarrow> bool" where
  "is_constant_assignment (Wire_Constant_Values output_port const_values) = True"
| "is_constant_assignment _ = False"

text \<open>What the first loop of the I/O binder writes for one I/O block.\<close>

definition link_emissions ::
  "verilog_names \<Rightarrow> BasicPort \<Rightarrow> (t_logical_block \<Rightarrow> nat) \<Rightarrow> t_logical_block \<Rightarrow> emission list" where
  "link_emissions g p find_io_index lb =
     [Verilog_Comment (''----- Blif Benchmark inout '' @ lb_name lb
                        @ '' is mapped to FPGA IOPAD '' @ get_name p
                        @ ''['' @ to_string (find_io_index lb) @ ''] -----''),
      Wire_Connection (set_width p (find_io_index lb) (find_io_index lb))
        (BasicPort_width (lb_name lb @ formal_verification_top_module_port_postfix g) 1) False]"

section \<open>The messages of checks 1 to 9\<close>

text \<open>
  What each of the accumulated checks writes, as a list of messages; the lemmas below
  show that every check returns the length of its list.
\<close>

definition required_model_log :: "CircuitLibrary \<Rightarrow> e_spice_model_type \<Rightarrow> msg list" where
  "required_model_log lib t = (if models_by_type lib t = [] then [Err_Model_Required t] else [])"

definition required_port_log ::
  "CircuitLibrary \<Rightarrow> e_spice_model_type \<Rightarrow> e_spice_model_port_type list \<Rightarrow> msg list" where
  "required_port_log lib t pts =
     concat (map (\<lambda>m. map (Err_No_Port t (model_names lib ! m))
                         (filter (\<lambda>pt. model_ports_by_type lib m pt False = []) pts))
               (models_by_type lib t))"

definition library_ports_log :: "CircuitLibrary \<Rightarrow> msg list" where
  "library_ports_log lib =
     map (\<lambda>p. Err_Global_Not_Input (cp_type (lib_ports lib ! p)) p)
       (filter (\<lambda>p. cp_is_global (lib_ports lib ! p) \<and> \<not> is_input_port lib p) (ports lib))
     @ map (\<lambda>p. Err_Not_Global (cp_type (lib_ports lib ! p)) p)
         (filter (\<lambda>p. (cp_is_set (lib_ports lib ! p) \<or> cp_is_reset (lib_ports lib ! p)
                         \<or> cp_is_config_enable (lib_ports lib ! p))
                        \<and> \<not> cp_is_global (lib_ports lib ! p)) (ports lib))"

definition accumulated_log :: "CircuitLibrary \<Rightarrow> msg list" where
  "accumulated_log lib =
     map (\<lambda>(i, j). Err_Share_Name i j (model_names lib ! i)) (equal_pairs (model_names lib))
     @ map (\<lambda>(i, j). Err_Share_Prefix (model_names lib ! i) (model_names lib ! j)
                        (model_prefixes lib ! i))
         (equal_pairs (model_prefixes lib))
     @ library_ports_log lib
     @ required_model_log lib SPICE_MODEL_IOPAD
     @ required_port_log lib SPICE_MODEL_IOPAD iopad_port_types_required
     @ required_model_log lib SPICE_MODEL_MUX
     @ required_port_log lib SPICE_MODEL_MUX mux_port_types_required
     @ (if models_by_type lib SPICE_MODEL_SRAM = [] \<and> models_by_type lib SPICE_MODEL_SCFF = []
        then [Err_SRAM_Or_SCFF_Required] else [])
     @ required_port_log lib SPICE_MODEL_SRAM sram_port_types_required
     @ required_port_log lib SPICE_MODEL_SCFF scff_port_types_required
     @ required_port_log lib SPICE_MODEL_FF ff_port_types_required
     @ required_port_log lib SPICE_MODEL_LUT lut_port_types_required"

text \<open>The messages about IOPAD models: a missing IOPAD model, an IOPAD model without a port.\<close>

fun iopad_error :: "msg \<Rightarrow> bool" where
  "iopad_error (Err_Model_Required t) = (t = SPICE_MODEL_IOPAD)"
| "iopad_error (Err_No_Port t n pt) = (t = SPICE_MODEL_IOPAD)"
| "iopad_error _ = False"

text \<open>The messages about an SRAM model without a port of a required type.\<close>

fun sram_port_error :: "msg \<Rightarrow> bool" where
  "sram_port_error (Err_No_Port t n pt) = (t = SPICE_MODEL_SRAM)"
| "sram_port_error _ = False"

text \<open>The messages about the number of ports of a type and about the width of a port.\<close>

fun width_or_count_error :: "msg \<Rightarrow> bool" where
  "width_or_count_error (Err_Port_Size n pt sz) = True"
| "width_or_count_error (Err_Port_Count num pt t n) = True"
| "width_or_count_error _ = False"

section \<open>Example inputs\<close>

definition empty_library :: CircuitLibrary where
  "empty_library = \<lparr>lib_models = [], lib_ports = []\<rparr>"

definition mk_model :: "string \<Rightarrow> e_spice_model_type \<Rightarrow> bool \<Rightarrow> circuit_model" where
  "mk_model n t d = \<lparr>cm_name = n, cm_prefix = n, cm_type = t, cm_is_default = d\<rparr>"

definition mk_port :: "nat \<Rightarrow> e_spice_model_port_type \<Rightarrow> nat \<Rightarrow> string \<Rightarrow> circuit_port" where
  "mk_port m t w n =
     \<lparr>cp_model = m, cp_type = t, cp_size = w, cp_lib_name = n, cp_is_global = False,
      cp_is_set = False, cp_is_reset = False, cp_is_config_enable = False, cp_is_prog = False,
      cp_default_value = 0\<rparr>"

definition single_model_library :: CircuitLibrary where
  "single_model_library =
     \<lparr>lib_models = [mk_model ''wire'' SPICE_MODEL_WIRE True], lib_ports = []\<rparr>"

text \<open>
  A catalog that passes the validate pass: an IOPAD, a default MUX, an SRAM, a default
  channel wire and a default wire. The only OUTPUT port of the SRAM model has width 1.
\<close>

definition sample_ports :: "circuit_port list" where
  "sample_ports =
     [mk_port 0 SPICE_MODEL_PORT_INPUT 1 ''outpad'', mk_port 0 SPICE_MODEL_PORT_OUTPUT 1 ''inpad'',
      mk_port 0 SPICE_MODEL_PORT_INOUT 1 ''pad'', mk_port 0 SPICE_MODEL_PORT_SRAM 1 ''en'',
      mk_port 1 SPICE_MODEL_PORT_INPUT 1 ''in'', mk_port 1 SPICE_MODEL_PORT_OUTPUT 1 ''out'',
      mk_port 1 SPICE_MODEL_PORT_SRAM 1 ''sram'',
      mk_port 2 SPICE_MODEL_PORT_INPUT 1 ''in'', mk_port 2 SPICE_MODEL_PORT_OUTPUT 1 ''out'']"

definition sample_library :: CircuitLibrary where
  "sample_library =
     \<lparr>lib_models =
        [mk_model ''iopad'' SPICE_MODEL_IOPAD False, mk_model ''mux'' SPICE_MODEL_MUX True,
         mk_model ''sram'' SPICE_MODEL_SRAM False, mk_model ''chan_wire'' SPICE_MODEL_CHAN_WIRE True,
         mk_model ''wire'' SPICE_MODEL_WIRE True],
      lib_ports = sample_ports\<rparr>"

text \<open>The same catalog with a second OUTPUT port, of width 2, on the SRAM model.\<close>

definition two_output_library :: CircuitLibrary where
  "two_output_library =
     \<lparr>lib_models =
        [mk_model ''iopad'' SPICE_MODEL_IOPAD False, mk_model ''mux'' SPICE_MODEL_MUX True,
         mk_model ''sram'' SPICE_MODEL_SRAM False, mk_model ''chan_wire'' SPICE_MODEL_CHAN_WIRE True,
         mk_model ''wire'' SPICE_MODEL_WIRE True],
      lib_ports = sample_ports @ [mk_port 2 SPICE_MODEL_PORT_OUTPUT 2 ''outb'']\<rparr>"

text \<open>The same catalog with the wire model not registered as default.\<close>

definition no_default_wire_library :: CircuitLibrary where
  "no_default_wire_library =
     \<lparr>lib_models =
        [mk_model ''iopad'' SPICE_MODEL_IOPAD False, mk_model ''mux'' SPICE_MODEL_MUX True,
         mk_model ''sram'' SPICE_MODEL_SRAM False, mk_model ''chan_wire'' SPICE_MODEL_CHAN_WIRE True,
         mk_model ''wire'' SPICE_MODEL_WIRE False],
      lib_ports = sample_ports\<rparr>"

text \<open>Three models named \<open>dup\<close>, with different prefixes, before the two wire models.\<close>

definition shared_name_library :: CircuitLibrary where
  "shared_name_library =
     \<lparr>lib_models =
        [\<lparr>cm_name = ''dup'', cm_prefix = ''iopad'', cm_type = SPICE_MODEL_IOPAD, cm_is_default = False\<rparr>,
         \<lparr>cm_name = ''dup'', cm_prefix = ''mux'', cm_type = SPICE_MODEL_MUX, cm_is_default = True\<rparr>,
         \<lparr>cm_name = ''dup'', cm_prefix = ''sram'', cm_type = SPICE_MODEL_SRAM, cm_is_default = False\<rparr>,
         mk_model ''chan_wire'' SPICE_MODEL_CHAN_WIRE True,
         mk_model ''wire'' SPICE_MODEL_WIRE True],
      lib_ports = sample_ports\<rparr>"

text \<open>Values for the names that the absent headers fix.\<close>

definition sample_names :: verilog_names where
  "sample_names =
     \<lparr>formal_verification_top_module_port_postfix = ''_fm'',
      formal_verification_top_module_uut_name = ''U0_formal_verification'',
      verilog_default_signal_init_value = 0,
      generate_configuration_chain_data_out_name = ''ccff_tail''\<rparr>"

text \<open>
  A top module with a 4-bit global reset, a 1-bit global clock and an 8-bit pad port, and
  a circuit library with the two global ports: the reset has default value 1, the clock
  is an operating clock.
\<close>

definition reset_pin_port :: BasicPort where
  "reset_pin_port = \<lparr>bp_name = ''reset'', bp_lsb = 0, bp_msb = 3\<rparr>"

definition clk_pin_port :: BasicPort where
  "clk_pin_port = \<lparr>bp_name = ''clk'', bp_lsb = 0, bp_msb = 0\<rparr>"

definition gpio_pin_port :: BasicPort where
  "gpio_pin_port = \<lparr>bp_name = ''gfpga_pad'', bp_lsb = 0, bp_msb = 7\<rparr>"

definition sample_top_module :: module where
  "sample_top_module =
     \<lparr>mod_name = ''fpga_top'',
      mod_ports = [(MODULE_GLOBAL_PORT, reset_pin_port), (MODULE_GPIO_PORT, gpio_pin_port)]\<rparr>"

definition clocked_top_module :: module where
  "clocked_top_module =
     \<lparr>mod_name = ''fpga_top'',
      mod_ports = [(MODULE_GLOBAL_PORT, reset_pin_port), (MODULE_GLOBAL_PORT, clk_pin_port),
                   (MODULE_GPIO_PORT, gpio_pin_port)]\<rparr>"

definition global_port_library :: CircuitLibrary where
  "global_port_library =
     \<lparr>lib_models = [mk_model ''dff'' SPICE_MODEL_FF False],
      lib_ports =
        [\<lparr>cp_model = 0, cp_type = SPICE_MODEL_PORT_INPUT, cp_size = 4, cp_lib_name = ''reset'',
          cp_is_global = True, cp_is_set = False, cp_is_reset = True, cp_is_config_enable = False,
          cp_is_prog = False, cp_default_value = 1\<rparr>,
         \<lparr>cp_model = 0, cp_type = SPICE_MODEL_PORT_CLOCK, cp_size = 1, cp_lib_name = ''clk'',
          cp_is_global = True, cp_is_set = False, cp_is_reset = False, cp_is_config_enable = False,
          cp_is_prog = False, cp_default_value = 0\<rparr>]\<rparr>"

text \<open>
  A bitstream manager with the root block \<open>fpga_top\<close>, its children \<open>grid_clb\<close>,
  \<open>sb_0\<close> and \<open>grid_io\<close>, and the children \<open>lut4\<close> and \<open>ff\<close> of \<open>grid_clb\<close>; four
  configuration bits owned by \<open>lut4\<close>, the root, \<open>sb_0\<close> and \<open>lut4\<close>.
\<close>

definition sample_bitstream :: BitstreamManager where
  "sample_bitstream =
     \<lparr>bm_blocks =
        [\<lparr>blk_name = ''fpga_top'', blk_parent = None\<rparr>,
         \<lparr>blk_name = ''grid_clb'', blk_parent = Some 0\<rparr>,
         \<lparr>blk_name = ''lut4'', blk_parent = Some 1\<rparr>,
         \<lparr>blk_name = ''sb_0'', blk_parent = Some 0\<rparr>,
         \<lparr>blk_name = ''grid_io'', blk_parent = Some 0\<rparr>,
         \<lparr>blk_name = ''ff'', blk_parent = Some 1\<rparr>],
      bm_bits =
        [\<lparr>cbit_parent_block = Some 2, cbit_index_in_parent_block = 0, cbit_value = True\<rparr>,
         \<lparr>cbit_parent_block = Some 0, cbit_index_in_parent_block = 3, cbit_value = False\<rparr>,
         \<lparr>cbit_parent_block = Some 3, cbit_index_in_parent_block = 1, cbit_value = True\<rparr>,
         \<lparr>cbit_parent_block = Some 2, cbit_index_in_parent_block = 1, cbit_value = False\<rparr>]\<rparr>"

text \<open>
  A top module whose pad port has two bits; an input pad \<open>a\<close>, an output pad \<open>b\<close> and
  a logic block \<open>n1\<close>; a placement that resolves \<open>a\<close> to pad 2 and every other block
  to pad 5.
\<close>

definition two_pad_top_module :: module where
  "two_pad_top_module =
     \<lparr>mod_name = ''fpga_top'',
      mod_ports = [(MODULE_GPIO_PORT, \<lparr>bp_name = ''gfpga_pad'', bp_lsb = 0, bp_msb = 1\<rparr>)]\<rparr>"

definition block_in_a :: t_logical_block where
  "block_in_a = \<lparr>lb_type = VPACK_INPAD, lb_name = ''a''\<rparr>"

definition block_out_b :: t_logical_block where
  "block_out_b = \<lparr>lb_type = VPACK_OUTPAD, lb_name = ''b''\<rparr>"

definition block_n1 :: t_logical_block where
  "block_n1 = \<lparr>lb_type = VPACK_COMB, lb_name = ''n1''\<rparr>"

definition find_io_index_2_5 :: "t_logical_block \<Rightarrow> nat" where
  "find_io_index_2_5 lb = (if lb_name lb = ''a'' then 2 else 5)"

section \<open>Lemmas about the uniqueness loops\<close>

lemma after_output_Nil [simp]: "after_output [] m = m"
  by (cases m) simp_all

lemma and_then_Returns_Nil: "and_then (Returns a []) f = f a"
  by simp

lemma model_name_valid:
  "j < num_models lib \<Longrightarrow> model_name lib j = Returns (model_names lib ! j) []"
  by (simp add: model_name_def lookup_def num_models_def model_names_def)

lemma model_prefix_valid:
  "j < num_models lib \<Longrightarrow> model_prefix lib j = Returns (model_prefixes lib ! j) []"
  by (simp add: model_prefix_def lookup_def num_models_def model_prefixes_def)

lemma size_t_sub_one:
  "0 < n \<Longrightarrow> n < SIZE_T_RANGE \<Longrightarrow> size_t_sub n 1 = n - 1"
  by (simp add: size_t_sub_def SIZE_T_RANGE_def nat_diff_distrib' flip: of_nat_diff)

lemma equal_pairs_from_end: "length xs \<le> Suc k \<Longrightarrow> equal_pairs_from xs k = []"
  by (cases "k < length xs") (simp_all add: equal_pairs_from_def upt_conv_Cons)

lemma equal_pairs_from_step:
  "k < length xs \<Longrightarrow>
   equal_pairs_from xs k =
     map (Pair k) (filter (\<lambda>j. xs ! j = xs ! k) [k + 1..<length xs]) @ equal_pairs_from xs (k + 1)"
  by (simp add: equal_pairs_from_def upt_conv_Cons)

lemma unique_names_loop_j_eq:
  "unique_names_loop_j lib i i_name j e =
     Returns (e + length (filter (\<lambda>j'. model_names lib ! j' = i_name) [j..<num_models lib]))
       (map (\<lambda>j'. Err_Share_Name i j' i_name)
          (filter (\<lambda>j'. model_names lib ! j' = i_name) [j..<num_models lib]))"
proof (induction lib i i_name j e rule: unique_names_loop_j.induct)
  case (1 lib i i_name j num_err)
  show ?case
  proof (cases "j < num_models lib")
    case False
    then show ?thesis by (subst unique_names_loop_j.simps) simp
  next
    case True
    have upt: "[j..<num_models lib] = j # [j + 1..<num_models lib]"
      using True by (simp add: upt_conv_Cons)
    show ?thesis
    proof (cases "i_name = model_names lib ! j")
      case False
      with 1(1) [OF True, of "model_names lib ! j"] True upt show ?thesis
        by (subst unique_names_loop_j.simps) (simp add: model_name_valid and_then_Returns_Nil)
    next
      case same: True
      with 1(2) [OF True, of "model_names lib ! j"] True upt show ?thesis
        by (subst unique_names_loop_j.simps)
           (simp add: model_name_valid and_then_Returns_Nil vpr_printf_def emit_def)
    qed
  qed
qed

lemma unique_names_loop_i_eq:
  assumes "num_models lib < SIZE_T_RANGE"
  shows "unique_names_loop_i lib i e =
     Returns (e + length (equal_pairs_from (model_names lib) i))
       (map (\<lambda>(i, j). Err_Share_Name i j (model_names lib ! i)) (equal_pairs_from (model_names lib) i))"
  using assms
proof (induction lib i e rule: unique_names_loop_i.induct)
  case (1 lib i num_err)
  have len: "length (model_names lib) = num_models lib"
    by (simp add: model_names_def num_models_def)
  show ?case
  proof (cases "i < num_models lib")
    case False
    then show ?thesis
      by (subst unique_names_loop_i.simps) (simp add: equal_pairs_from_end len)
  next
    case True
    have sub: "size_t_sub (num_models lib) 1 = num_models lib - 1"
      by (rule size_t_sub_one) (use True "1.prems" in auto)
    show ?thesis
    proof (cases "i = num_models lib - 1")
      case last: True
      then have "equal_pairs_from (model_names lib) i = []"
        by (simp add: equal_pairs_from_end len)
      moreover have "equal_pairs_from (model_names lib) (i + 1) = []"
        using last by (simp add: equal_pairs_from_end len)
      ultimately show ?thesis
        using "1.IH"(1) [OF True] "1.prems" True last sub
        by (subst unique_names_loop_i.simps) simp
    next
      case False
      let ?js = "filter (\<lambda>j. model_names lib ! j = model_names lib ! i) [i + 1..<num_models lib]"
      have "unique_names_loop_i lib (i + 1) (num_err + length ?js) =
          Returns (num_err + length ?js + length (equal_pairs_from (model_names lib) (i + 1)))
            (map (\<lambda>(i, j). Err_Share_Name i j (model_names lib ! i))
               (equal_pairs_from (model_names lib) (i + 1)))"
        using "1.IH"(2) [OF True _ "1.prems"] False sub by simp
      then show ?thesis
        using True False sub
        by (subst unique_names_loop_i.simps)
           (simp add: model_name_valid and_then_Returns_Nil unique_names_loop_j_eq
              equal_pairs_from_step [of i "model_names lib"] len comp_def)
    qed
  qed
qed

lemma check_circuit_library_unique_names_eq:
  "num_models lib < SIZE_T_RANGE \<Longrightarrow>
   check_circuit_library_unique_names lib =
     Returns (length (equal_pairs (model_names lib)))
       (map (\<lambda>(i, j). Err_Share_Name i j (model_names lib ! i)) (equal_pairs (model_names lib)))"
  by (simp add: check_circuit_library_unique_names_def unique_names_loop_i_eq equal_pairs_def)


lemma unique_prefix_loop_j_eq:
  "i < num_models lib \<Longrightarrow>
   unique_prefix_loop_j lib i i_prefix j e =
     Returns (e + length (filter (\<lambda>j'. model_prefixes lib ! j' = i_prefix) [j..<num_models lib]))
       (map (\<lambda>j'. Err_Share_Prefix (model_names lib ! i) (model_names lib ! j') i_prefix)
          (filter (\<lambda>j'. model_prefixes lib ! j' = i_prefix) [j..<num_models lib]))"
proof (induction lib i i_prefix j e rule: unique_prefix_loop_j.induct)
  case (1 lib i i_prefix j num_err)
  show ?case
  proof (cases "j < num_models lib")
    case False
    then show ?thesis by (subst unique_prefix_loop_j.simps) simp
  next
    case True
    have upt: "[j..<num_models lib] = j # [j + 1..<num_models lib]"
      using True by (simp add: upt_conv_Cons)
    show ?thesis
    proof (cases "i_prefix = model_prefixes lib ! j")
      case False
      with "1.IH"(1) [OF True, of "model_prefixes lib ! j"] "1.prems" True upt show ?thesis
        by (subst unique_prefix_loop_j.simps) (simp add: model_prefix_valid and_then_Returns_Nil)
    next
      case same: True
      with "1.IH"(2) [OF True, of "model_prefixes lib ! j"] "1.prems" True upt show ?thesis
        by (subst unique_prefix_loop_j.simps)
           (simp add: model_prefix_valid model_name_valid and_then_Returns_Nil vpr_printf_def emit_def)
    qed
  qed
qed

lemma unique_prefix_loop_i_eq:
  assumes "num_models lib < SIZE_T_RANGE"
  shows "unique_prefix_loop_i lib i e =
     Returns (e + length (equal_pairs_from (model_prefixes lib) i))
       (map (\<lambda>(i, j). Err_Share_Prefix (model_names lib ! i) (model_names lib ! j) (model_prefixes lib ! i))
          (equal_pairs_from (model_prefixes lib) i))"
  using assms
proof (induction lib i e rule: unique_prefix_loop_i.induct)
  case (1 lib i num_err)
  have len: "length (model_prefixes lib) = num_models lib"
    by (simp add: model_prefixes_def num_models_def)
  show ?case
  proof (cases "i < num_models lib")
    case False
    then show ?thesis
      by (subst unique_prefix_loop_i.simps) (simp add: equal_pairs_from_end len)
  next
    case True
    have sub: "size_t_sub (num_models lib) 1 = num_models lib - 1"
      by (rule size_t_sub_one) (use True "1.prems" in auto)
    show ?thesis
    proof (cases "i = num_models lib - 1")
      case last: True
      then have "equal_pairs_from (model_prefixes lib) i = []"
        by (simp add: equal_pairs_from_end len)
      moreover have "equal_pairs_from (model_prefixes lib) (i + 1) = []"
        using last by (simp add: equal_pairs_from_end len)
      ultimately show ?thesis
        using "1.IH"(1) [OF True] "1.prems" True last sub
        by (subst unique_prefix_loop_i.simps) simp
    next
      case False
      let ?js = "filter (\<lambda>j. model_prefixes lib ! j = model_prefixes lib ! i) [i + 1..<num_models lib]"
      have "unique_prefix_loop_i lib (i + 1) (num_err + length ?js) =
          Returns (num_err + length ?js + length (equal_pairs_from (model_prefixes lib) (i + 1)))
            (map (\<lambda>(i, j). Err_Share_Prefix (model_names lib ! i) (model_names lib ! j) (model_prefixes lib ! i))
               (equal_pairs_from (model_prefixes lib) (i + 1)))"
        using "1.IH"(2) [OF True _ "1.prems"] False sub by simp
      then show ?thesis
        using True False sub
        by (subst unique_prefix_loop_i.simps)
           (simp add: model_prefix_valid and_then_Returns_Nil unique_prefix_loop_j_eq
              equal_pairs_from_step [of i "model_prefixes lib"] len comp_def)
    qed
  qed
qed

lemma check_circuit_library_unique_prefix_eq:
  "num_models lib < SIZE_T_RANGE \<Longrightarrow>
   check_circuit_library_unique_prefix lib =
     Returns (length (equal_pairs (model_prefixes lib)))
       (map (\<lambda>(i, j). Err_Share_Prefix (model_names lib ! i) (model_names lib ! j) (model_prefixes lib ! i))
          (equal_pairs (model_prefixes lib)))"
  by (simp add: check_circuit_library_unique_prefix_def unique_prefix_loop_i_eq equal_pairs_def)

lemma SIZE_T_RANGE_gt: "2 < SIZE_T_RANGE"
  by (simp add: SIZE_T_RANGE_def)

section \<open>Lemmas about the accumulated checks\<close>

lemma counted_fromI: "list_all is_counted_error log \<Longrightarrow> counted_from n0 (Returns (n0 + length log) log)"
  by (simp add: counted_from_def)

lemma counted_fromE:
  assumes "counted_from n0 m"
  obtains log where "m = Returns (n0 + length log) log" "list_all is_counted_error log"
  using assms by (cases m) (auto simp: counted_from_def)

lemma counted_from_Returns: "counted_from n (Returns n [])"
  by (simp add: counted_from_def)

lemma counted_from_report_error: "is_counted_error m \<Longrightarrow> counted_from n (report_error m n)"
  by (simp add: counted_from_def report_error_def vpr_printf_def emit_def)

lemma counted_from_and_then:
  assumes "counted_from n0 m" and "\<And>n. counted_from n (f n)"
  shows "counted_from n0 (and_then m f)"
proof -
  from assms(1) obtain l1 where m: "m = Returns (n0 + length l1) l1" and l1: "list_all is_counted_error l1"
    by (rule counted_fromE)
  from assms(2) [of "n0 + length l1"] obtain l2
    where f: "f (n0 + length l1) = Returns (n0 + length l1 + length l2) l2" and l2: "list_all is_counted_error l2"
    by (rule counted_fromE)
  show ?thesis using m f l1 l2 by (simp add: counted_from_def)
qed

lemma counted_from_add_errors:
  assumes "counted_from 0 m"
  shows "counted_from n (add_errors n m)"
proof -
  from assms obtain l where "m = Returns (0 + length l) l" "list_all is_counted_error l"
    by (rule counted_fromE)
  then show ?thesis by (simp add: counted_from_def add_errors_def)
qed

lemma counted_from_foreach_add:
  "(\<And>x. x \<in> set xs \<Longrightarrow> counted_from 0 (body x)) \<Longrightarrow> counted_from n (foreach_add xs body n)"
proof (induction xs arbitrary: n)
  case Nil
  then show ?case by (simp add: counted_from_Returns)
next
  case (Cons x xs)
  show ?case
    unfolding foreach_add.simps
  proof (rule counted_from_and_then)
    show "counted_from n (add_errors n (body x))"
      by (rule counted_from_add_errors) (simp add: Cons.prems)
    show "counted_from n' (foreach_add xs body n')" for n'
      by (rule Cons.IH) (simp add: Cons.prems)
  qed
qed

lemma models_by_type_valid: "mid \<in> set (models_by_type lib t) \<Longrightarrow> mid < num_models lib"
  by (simp add: models_by_type_def)

lemma model_type_valid:
  "mid < num_models lib \<Longrightarrow> model_type lib mid = Returns (cm_type (lib_models lib ! mid)) []"
  by (simp add: model_type_def lookup_def num_models_def)

lemma counted_check_one_circuit_model_port_required:
  assumes "mid < num_models lib"
  shows "counted_from 0 (check_one_circuit_model_port_required lib mid pts)"
  unfolding check_one_circuit_model_port_required_def
  by (rule counted_from_foreach_add)
     (simp add: model_type_valid [OF assms] model_name_valid [OF assms] and_then_Returns_Nil
        counted_from_report_error counted_from_Returns)

lemma counted_check_circuit_model_port_required:
  "counted_from 0 (check_circuit_model_port_required lib t pts)"
  unfolding check_circuit_model_port_required_def
  by (rule counted_from_foreach_add)
     (simp add: counted_check_one_circuit_model_port_required models_by_type_valid)

lemma counted_check_circuit_model_required:
  "counted_from 0 (check_circuit_model_required lib t)"
  by (simp add: check_circuit_model_required_def counted_from_report_error counted_from_Returns)

lemma counted_check_circuit_library_ports:
  "counted_from 0 (check_circuit_library_ports lib)"
  unfolding check_circuit_library_ports_def
  by (intro counted_from_and_then counted_from_foreach_add)
     (simp_all add: counted_from_report_error counted_from_Returns)

lemma counted_check_circuit_library_unique_names:
  "num_models lib < SIZE_T_RANGE \<Longrightarrow> counted_from 0 (check_circuit_library_unique_names lib)"
  by (simp add: check_circuit_library_unique_names_eq counted_from_def list_all_iff split_def)

lemma counted_check_circuit_library_unique_prefix:
  "num_models lib < SIZE_T_RANGE \<Longrightarrow> counted_from 0 (check_circuit_library_unique_prefix lib)"
  by (simp add: check_circuit_library_unique_prefix_eq counted_from_def list_all_iff split_def)

lemma accumulated_checks_shape:
  assumes "m = Returns c l" and "\<And>n. counted_from n (f n)"
  shows "\<exists>rest. and_then (add_errors 0 m) f = Returns (c + length rest) (l @ rest)
           \<and> list_all is_counted_error rest"
proof -
  from assms(2) [of c] obtain rest
    where "f c = Returns (c + length rest) rest" "list_all is_counted_error rest"
    by (rule counted_fromE)
  with assms(1) show ?thesis by (auto simp: add_errors_def)
qed

lemma accumulated_checks_eq:
  assumes "num_models lib < SIZE_T_RANGE"
  shows "\<exists>rest. accumulated_checks lib =
           Returns (length (equal_pairs (model_names lib)) + length rest)
             (map (\<lambda>(i, j). Err_Share_Name i j (model_names lib ! i)) (equal_pairs (model_names lib)) @ rest)
         \<and> list_all is_counted_error rest"
  unfolding accumulated_checks_def
  by (rule accumulated_checks_shape [OF check_circuit_library_unique_names_eq [OF assms]])
     (intro counted_from_and_then counted_from_add_errors counted_check_circuit_model_port_required
        counted_check_circuit_model_required counted_check_circuit_library_ports
        counted_check_circuit_library_unique_prefix assms,
      simp_all add: counted_from_report_error counted_from_Returns)

lemma counted_accumulated_checks:
  assumes "num_models lib < SIZE_T_RANGE"
  shows "counted_from 0 (accumulated_checks lib)"
proof -
  from accumulated_checks_eq [OF assms] obtain rest
    where "accumulated_checks lib =
             Returns (length (equal_pairs (model_names lib)) + length rest)
               (map (\<lambda>(i, j). Err_Share_Name i j (model_names lib ! i)) (equal_pairs (model_names lib)) @ rest)"
      and "list_all is_counted_error rest"
    by blast
  then show ?thesis
    by (auto simp: counted_from_def list_all_iff)
qed

section \<open>Lemmas about equal pairs\<close>

lemma length_filter_nth_upt: "length (filter (\<lambda>j. xs ! j = a) [0..<length xs]) = count_list xs a"
proof (induction xs rule: rev_induct)
  case Nil
  then show ?case by simp
next
  case (snoc x xs)
  have "filter (\<lambda>j. (xs @ [x]) ! j = a) [0..<length xs] = filter (\<lambda>j. xs ! j = a) [0..<length xs]"
    by (rule filter_cong) (auto simp: nth_append)
  with snoc show ?case by simp
qed

lemma sum_list_if_add:
  "sum_list (map (\<lambda>i. if P i then f i + (c::nat) else 0) ks) =
   sum_list (map (\<lambda>i. if P i then f i else 0) ks) + c * length (filter P ks)"
  by (induction ks) auto

lemma pairs_with_snoc:
  "sum_list (map (\<lambda>i. if (xs @ [x]) ! i = a
                        then length (filter (\<lambda>j. (xs @ [x]) ! j = a) [Suc i..<length (xs @ [x])])
                        else 0) [0..<length (xs @ [x])])
   = sum_list (map (\<lambda>i. if xs ! i = a
                        then length (filter (\<lambda>j. xs ! j = a) [Suc i..<length xs])
                        else 0) [0..<length xs])
     + (if x = a then count_list xs a else 0)"
proof -
  let ?n = "length xs"
  have inner: "(if (xs @ [x]) ! i = a then length (filter (\<lambda>j. (xs @ [x]) ! j = a) [Suc i..<length (xs @ [x])]) else 0)
      = (if xs ! i = a then length (filter (\<lambda>j. xs ! j = a) [Suc i..<?n]) + (if x = a then 1 else 0) else 0)"
    if "i < ?n" for i
  proof -
    have "[Suc i..<length (xs @ [x])] = [Suc i..<?n] @ [?n]" using that by simp
    moreover have "filter (\<lambda>j. (xs @ [x]) ! j = a) [Suc i..<?n] = filter (\<lambda>j. xs ! j = a) [Suc i..<?n]"
      by (rule filter_cong) (auto simp: nth_append)
    ultimately show ?thesis using that by (simp add: nth_append)
  qed
  have "sum_list (map (\<lambda>i. if (xs @ [x]) ! i = a then length (filter (\<lambda>j. (xs @ [x]) ! j = a) [Suc i..<length (xs @ [x])]) else 0) [0..<length (xs @ [x])])
      = sum_list (map (\<lambda>i. if (xs @ [x]) ! i = a then length (filter (\<lambda>j. (xs @ [x]) ! j = a) [Suc i..<length (xs @ [x])]) else 0) [0..<?n])"
    by simp
  also have "\<dots> = sum_list (map (\<lambda>i. if xs ! i = a then length (filter (\<lambda>j. xs ! j = a) [Suc i..<?n]) + (if x = a then 1 else 0) else 0) [0..<?n])"
    by (rule arg_cong [where f = sum_list], rule map_cong) (auto simp: inner)
  also have "\<dots> = sum_list (map (\<lambda>i. if xs ! i = a then length (filter (\<lambda>j. xs ! j = a) [Suc i..<?n]) else 0) [0..<?n])
       + (if x = a then 1 else 0) * length (filter (\<lambda>i. xs ! i = a) [0..<?n])"
    by (rule sum_list_if_add)
  finally show ?thesis by (simp add: length_filter_nth_upt)
qed

lemma pairs_with_choose:
  "sum_list (map (\<lambda>i. if xs ! i = a
                        then length (filter (\<lambda>j. xs ! j = a) [Suc i..<length xs])
                        else 0) [0..<length xs])
   = count_list xs a choose 2"
proof (induction xs rule: rev_induct)
  case Nil
  then show ?case by simp
next
  case (snoc x xs)
  have "Suc k choose 2 = k + (k choose 2)" for k :: nat
    by (simp add: numeral_2_eq_2)
  with snoc show ?case unfolding pairs_with_snoc by simp
qed

lemma length_filter_concat:
  "length (filter P (concat xss)) = sum_list (map (\<lambda>xs. length (filter P xs)) xss)"
  by (induction xss) auto

lemma equal_pairs_with:
  "length (filter (\<lambda>(i, j). xs ! i = a) (equal_pairs xs)) = count_list xs a choose 2"
proof -
  have "length (filter (\<lambda>(i, j). xs ! i = a) (equal_pairs xs))
      = sum_list (map (\<lambda>i. if xs ! i = a
                        then length (filter (\<lambda>j. xs ! j = a) [Suc i..<length xs])
                        else 0) [0..<length xs])"
    unfolding equal_pairs_def equal_pairs_from_def length_filter_concat map_map comp_def
    by (rule arg_cong [where f = sum_list], rule map_cong)
       (auto simp: filter_map comp_def cong: filter_cong)
  then show ?thesis by (simp add: pairs_with_choose)
qed

lemma mem_equal_pairs:
  "(i, j) \<in> set (equal_pairs xs) \<longleftrightarrow> i < j \<and> j < length xs \<and> xs ! j = xs ! i"
proof
  assume "(i, j) \<in> set (equal_pairs xs)"
  then show "i < j \<and> j < length xs \<and> xs ! j = xs ! i"
    by (auto simp: equal_pairs_def equal_pairs_from_def)
next
  assume h: "i < j \<and> j < length xs \<and> xs ! j = xs ! i"
  then have "i < length xs" by simp
  with h show "(i, j) \<in> set (equal_pairs xs)"
    by (auto simp: equal_pairs_def equal_pairs_from_def intro!: bexI [of _ i])
qed

lemma set_equal_pairs:
  "set (equal_pairs xs) = {(i, j). i < j \<and> j < length xs \<and> xs ! j = xs ! i}"
  using mem_equal_pairs [of _ _ xs] by auto

lemma distinct_concat_map:
  assumes "distinct ks" and "\<forall>k. distinct (f k)"
    and "\<forall>k k'. k \<noteq> k' \<longrightarrow> set (f k) \<inter> set (f k') = {}"
  shows "distinct (concat (map f ks))"
  using assms(1)
proof (induction ks)
  case Nil
  then show ?case by simp
next
  case (Cons k ks)
  have "set (f k) \<inter> set (f k') = {}" if "k' \<in> set ks" for k'
  proof -
    from that Cons.prems have "k \<noteq> k'" by auto
    with assms(3) show ?thesis by blast
  qed
  then have "set (f k) \<inter> (\<Union>k' \<in> set ks. set (f k')) = {}" by blast
  with Cons assms(2) show ?case by simp
qed

lemma distinct_equal_pairs: "distinct (equal_pairs xs)"
  unfolding equal_pairs_def equal_pairs_from_def
proof (rule distinct_concat_map)
  show "distinct [0..<length xs]" by simp
  show "\<forall>k. distinct (map (Pair k) (filter (\<lambda>j. xs ! j = xs ! k) [k + 1..<length xs]))"
    by (simp add: distinct_map inj_on_def)
  show "\<forall>k k'. k \<noteq> k' \<longrightarrow>
          set (map (Pair k) (filter (\<lambda>j. xs ! j = xs ! k) [k + 1..<length xs])) \<inter>
          set (map (Pair k') (filter (\<lambda>j. xs ! j = xs ! k') [k' + 1..<length xs])) = {}"
    by auto
qed

lemma card_positions: "card {k. k < length xs \<and> xs ! k = b} = count_list xs b"
proof -
  have "{k. k < length xs \<and> xs ! k = b} = set (filter (\<lambda>j. xs ! j = b) [0..<length xs])"
    by auto
  moreover have "card (set (filter (\<lambda>j. xs ! j = b) [0..<length xs]))
      = length (filter (\<lambda>j. xs ! j = b) [0..<length xs])"
    by (rule distinct_card) simp
  ultimately show ?thesis by (simp add: length_filter_nth_upt)
qed

lemma equal_pairs_only:
  assumes "\<forall>b. b \<noteq> a \<longrightarrow> count_list xs b \<le> 1"
  shows "length (equal_pairs xs) = count_list xs a choose 2"
proof -
  have "xs ! i = a" if "(i, j) \<in> set (equal_pairs xs)" for i j
  proof (rule ccontr)
    assume na: "xs ! i \<noteq> a"
    from that have ij: "i < j" "j < length xs" "xs ! j = xs ! i"
      by (auto simp: mem_equal_pairs)
    have "{i, j} \<subseteq> {k. k < length xs \<and> xs ! k = xs ! i}" using ij by auto
    then have "card {i, j} \<le> card {k. k < length xs \<and> xs ! k = xs ! i}"
      by (rule card_mono [rotated]) simp
    then have "2 \<le> count_list xs (xs ! i)" using ij by (simp add: card_positions)
    with assms na show False by force
  qed
  then have "filter (\<lambda>(i, j). xs ! i = a) (equal_pairs xs) = equal_pairs xs"
    by (auto simp: filter_id_conv)
  with equal_pairs_with [of xs a] show ?thesis by simp
qed

section \<open>Lemmas about the default-model checks\<close>

lemma default_model_checks_missing:
  "first_missing_default lib = Some t \<Longrightarrow>
   default_model_checks lib n = Stops (Exit 1) [Err_No_Default t]"
  by (auto simp: first_missing_default_def default_model_checks_def
      check_required_default_circuit_model_def add_errors_def vpr_printf_def emit_def
      exit_process_def split: if_splits)

lemma default_model_checks_present:
  "first_missing_default lib = None \<Longrightarrow> default_model_checks lib n = Returns n []"
  by (auto simp: first_missing_default_def default_model_checks_def
      check_required_default_circuit_model_def add_errors_def split: if_splits)

lemma first_missing_default_iff:
  "first_missing_default lib \<noteq> None \<longleftrightarrow>
     default_model lib SPICE_MODEL_MUX = None \<or> default_model lib SPICE_MODEL_CHAN_WIRE = None
     \<or> default_model lib SPICE_MODEL_WIRE = None"
  by (simp add: first_missing_default_def)

lemma counted_no_info:
  "list_all is_counted_error log \<Longrightarrow> Info_Finished n \<notin> set log \<and> Err_No_Default t \<notin> set log"
  by (auto simp: list_all_iff)

lemma choose_two_pos: "2 \<le> k \<Longrightarrow> 0 < k choose 2"
  by (simp add: zero_less_binomial)

lemma no_models_of_type:
  "t \<notin> cm_type ` set (lib_models lib) \<Longrightarrow> models_by_type lib t = []"
  by (auto simp: models_by_type_def num_models_def filter_empty_conv)

section \<open>Lemmas about the port checks\<close>

lemma foreach_add_Returns:
  "(\<And>x. x \<in> set xs \<Longrightarrow> body x = Returns (c x) (l x)) \<Longrightarrow>
   foreach_add xs body n = Returns (n + sum_list (map c xs)) (concat (map l xs))"
  by (induction xs arbitrary: n) (simp_all add: add_errors_def)

lemma sum_list_if_one: "sum_list (map (\<lambda>x. if P x then 1 else 0) xs) = length (filter P xs)"
  by (induction xs) simp_all

lemma length_concat_if_single:
  "length (concat (map (\<lambda>x. if P x then [f x] else []) xs)) = length (filter P xs)"
  by (induction xs) simp_all

lemma model_ports_by_type_valid:
  "p \<in> set (model_ports_by_type lib m t g) \<Longrightarrow> p < length (lib_ports lib)"
  by (simp add: model_ports_by_type_def ports_def)

lemma port_size_valid:
  "p < length (lib_ports lib) \<Longrightarrow> port_size lib p = Returns (cp_size (lib_ports lib ! p)) []"
  by (simp add: port_size_def lookup_def)

lemma port_type_valid:
  "p < length (lib_ports lib) \<Longrightarrow> port_type lib p = Returns (cp_type (lib_ports lib ! p)) []"
  by (simp add: port_type_def lookup_def)

lemma check_one_circuit_model_port_size_required_eq:
  assumes "m < num_models lib" and "p < length (lib_ports lib)"
  shows "check_one_circuit_model_port_size_required lib m p sz =
     Returns (if sz \<noteq> cp_size (lib_ports lib ! p) then 1 else 0)
       (if sz \<noteq> cp_size (lib_ports lib ! p)
        then [Err_Port_Size (model_names lib ! m) (cp_type (lib_ports lib ! p)) sz] else [])"
  by (simp add: check_one_circuit_model_port_size_required_def port_size_valid [OF assms(2)]
      port_type_valid [OF assms(2)] model_name_valid [OF assms(1)] report_error_def
      vpr_printf_def emit_def)

lemma check_one_circuit_model_port_type_and_size_required_eq:
  assumes "m < num_models lib"
  shows "check_one_circuit_model_port_type_and_size_required lib m pt num sz incl =
     (if num \<noteq> length (model_ports_by_type lib m pt (\<not> incl))
         \<and> length (model_ports_by_type lib m pt (\<not> incl)) \<noteq> 0
      then Stops Segfault []
      else Returns
             ((if num \<noteq> length (model_ports_by_type lib m pt (\<not> incl)) then 1 else 0)
              + length (filter (\<lambda>p. sz \<noteq> cp_size (lib_ports lib ! p))
                          (model_ports_by_type lib m pt (\<not> incl))))
             ((if num \<noteq> length (model_ports_by_type lib m pt (\<not> incl))
               then [Err_Port_Count num pt (cm_type (lib_models lib ! m)) 0] else [])
              @ map (\<lambda>p. Err_Port_Size (model_names lib ! m) (cp_type (lib_ports lib ! p)) sz)
                  (filter (\<lambda>p. sz \<noteq> cp_size (lib_ports lib ! p))
                     (model_ports_by_type lib m pt (\<not> incl)))))"
proof -
  let ?ps = "model_ports_by_type lib m pt (\<not> incl)"
  let ?c = "\<lambda>p. if sz \<noteq> cp_size (lib_ports lib ! p) then 1 else (0::nat)"
  let ?l = "\<lambda>p. if sz \<noteq> cp_size (lib_ports lib ! p)
        then [Err_Port_Size (model_names lib ! m) (cp_type (lib_ports lib ! p)) sz] else []"
  have loop: "foreach_add ?ps (\<lambda>port. check_one_circuit_model_port_size_required lib m port sz) n
      = Returns (n + sum_list (map ?c ?ps)) (concat (map ?l ?ps))" for n
    by (rule foreach_add_Returns)
       (simp add: check_one_circuit_model_port_size_required_eq [OF assms] model_ports_by_type_valid)
  have flat: "concat (map ?l ks)
      = map (\<lambda>p. Err_Port_Size (model_names lib ! m) (cp_type (lib_ports lib ! p)) sz)
          (filter (\<lambda>p. sz \<noteq> cp_size (lib_ports lib ! p)) ks)" for ks
    by (induction ks) simp_all
  show ?thesis
    by (cases "num = length ?ps"; cases "length ?ps = 0")
       (simp_all add: check_one_circuit_model_port_type_and_size_required_def Let_def loop flat
          model_type_valid [OF assms] print_port_count_mismatch_def vpr_printf_def emit_def
          sum_list_if_one)
qed

lemma sizes_eq_single:
  "map f ps = [v] \<longleftrightarrow> length ps = 1 \<and> filter (\<lambda>p. v \<noteq> f p) ps = []"
  by (cases ps) (auto simp: filter_empty_conv)

lemma check_one_circuit_model_port_required_eq:
  assumes "m < num_models lib"
  shows "check_one_circuit_model_port_required lib m pts =
     Returns (length (filter (\<lambda>pt. model_ports_by_type lib m pt False = []) pts))
       (map (Err_No_Port (cm_type (lib_models lib ! m)) (model_names lib ! m))
          (filter (\<lambda>pt. model_ports_by_type lib m pt False = []) pts))"
proof -
  let ?P = "\<lambda>pt. model_ports_by_type lib m pt False = []"
  let ?e = "Err_No_Port (cm_type (lib_models lib ! m)) (model_names lib ! m)"
  have "check_one_circuit_model_port_required lib m pts =
      Returns (0 + sum_list (map (\<lambda>pt. if ?P pt then 1 else 0) pts))
        (concat (map (\<lambda>pt. if ?P pt then [?e pt] else []) pts))"
    unfolding check_one_circuit_model_port_required_def
    by (rule foreach_add_Returns)
       (simp add: model_type_valid [OF assms] model_name_valid [OF assms] report_error_def
          vpr_printf_def emit_def)
  moreover have "concat (map (\<lambda>pt. if ?P pt then [?e pt] else []) pts) = map ?e (filter ?P pts)"
    by (induction pts) simp_all
  ultimately show ?thesis by (simp add: sum_list_if_one)
qed

lemma check_circuit_model_port_required_eq:
  "check_circuit_model_port_required lib t pts =
     Returns
       (length (concat (map (\<lambda>m. map (Err_No_Port t (model_names lib ! m))
                                (filter (\<lambda>pt. model_ports_by_type lib m pt False = []) pts))
                          (models_by_type lib t))))
       (concat (map (\<lambda>m. map (Err_No_Port t (model_names lib ! m))
                         (filter (\<lambda>pt. model_ports_by_type lib m pt False = []) pts))
                   (models_by_type lib t)))"
proof -
  let ?l = "\<lambda>m. map (Err_No_Port t (model_names lib ! m))
                  (filter (\<lambda>pt. model_ports_by_type lib m pt False = []) pts)"
  have "check_circuit_model_port_required lib t pts =
      Returns (0 + sum_list (map (\<lambda>m. length (?l m)) (models_by_type lib t)))
        (concat (map ?l (models_by_type lib t)))"
    unfolding check_circuit_model_port_required_def
    by (rule foreach_add_Returns)
       (simp add: check_one_circuit_model_port_required_eq models_by_type_def)
  then show ?thesis by (simp add: length_concat comp_def)
qed

lemmas checker_defs =
  check_circuit_library_def accumulated_checks_def default_model_checks_def add_errors_def
  check_circuit_library_ports_def check_circuit_model_required_def
  check_circuit_model_port_required_def check_one_circuit_model_port_required_def
  check_required_default_circuit_model_def default_model_def first_missing_default_def
  models_by_type_def model_ports_by_type_def ports_def num_models_def
  report_error_def vpr_printf_def emit_def exit_process_def
  model_type_def model_name_def port_size_def port_type_def lookup_def is_input_port_def
  iopad_port_types_required_def mux_port_types_required_def sram_port_types_required_def
  scff_port_types_required_def ff_port_types_required_def lut_port_types_required_def
  check_sram_circuit_model_ports_def check_one_circuit_model_port_type_and_size_required_def
  check_one_circuit_model_port_size_required_def print_port_count_mismatch_def VTR_ASSERT_def

lemmas example_defs = sample_library_def sample_ports_def mk_model_def mk_port_def
  no_default_wire_library_def shared_name_library_def single_model_library_def empty_library_def
  two_output_library_def

section \<open>Lemmas about the global ports\<close>

lemma foreach_Returns:
  "(\<And>x. x \<in> set xs \<Longrightarrow> body x = Returns () (l x)) \<Longrightarrow>
   foreach xs body = Returns () (concat (map l xs))"
  by (induction xs) simp_all

lemma find_linked_circuit_port_eq:
  "\<forall>i \<in> set ids. i < length (lib_ports lib) \<Longrightarrow>
   find_linked_circuit_port lib name ids =
     Returns (find (\<lambda>i. cp_lib_name (lib_ports lib ! i) = name) ids) []"
  by (induction ids) (auto simp: port_lib_name_def lookup_def)

lemma find_Some_mem: "find P xs = Some x \<Longrightarrow> x \<in> set xs"
  by (induction xs) (auto split: if_splits)

lemma wire_to_benchmark_clocks_eq:
  assumes "is_valid p"
  shows "wire_to_benchmark_clocks g clocks p =
     Returns ()
       (concat (map (\<lambda>pin. map (\<lambda>clk.
            Wire_Connection \<lparr>bp_name = get_name p, bp_lsb = pin, bp_msb = pin\<rparr>
              \<lparr>bp_name = clk @ formal_verification_top_module_port_postfix g, bp_lsb = 0, bp_msb = 0\<rparr>
              False) clocks)
          [bp_lsb p..<bp_msb p + 1]))"
proof -
  have inner: "foreach clocks (\<lambda>clock_port_name.
           print_verilog_wire_connection
             (BasicPort_range (get_name p) pin pin)
             (BasicPort_width (clock_port_name @ formal_verification_top_module_port_postfix g) 1)
             False)
      = Returns () (concat (map (\<lambda>clk.
            [Wire_Connection \<lparr>bp_name = get_name p, bp_lsb = pin, bp_msb = pin\<rparr>
              \<lparr>bp_name = clk @ formal_verification_top_module_port_postfix g, bp_lsb = 0, bp_msb = 0\<rparr>
              False]) clocks))" for pin
    by (rule foreach_Returns)
       (simp add: print_verilog_wire_connection_def emit_def BasicPort_range_def BasicPort_width_def
          set_width_def)
  have flat: "concat (map (\<lambda>x. [f x]) xs) = map f xs" for f :: "string \<Rightarrow> emission" and xs
    by (induction xs) simp_all
  have "foreach [bp_lsb p..<bp_msb p + 1] (\<lambda>pin.
         foreach clocks (\<lambda>clock_port_name.
           print_verilog_wire_connection
             (BasicPort_range (get_name p) pin pin)
             (BasicPort_width (clock_port_name @ formal_verification_top_module_port_postfix g) 1)
             False))
     = Returns ()
       (concat (map (\<lambda>pin. map (\<lambda>clk.
            Wire_Connection \<lparr>bp_name = get_name p, bp_lsb = pin, bp_msb = pin\<rparr>
              \<lparr>bp_name = clk @ formal_verification_top_module_port_postfix g, bp_lsb = 0, bp_msb = 0\<rparr>
              False) clocks)
          [bp_lsb p..<bp_msb p + 1]))"
    by (rule foreach_Returns) (simp only: inner flat)
  then show ?thesis
    using assms by (simp add: wire_to_benchmark_clocks_def pins_def VTR_ASSERT_def)
qed

lemma length_concat_map_const:
  "length (concat (map (\<lambda>x. map (f x) ys) xs)) = length xs * length ys"
  by (induction xs) simp_all

lemma connect_global_port_linked:
  assumes "\<forall>i \<in> set global_ports. i < length (lib_ports lib)"
    and "find (\<lambda>i. cp_lib_name (lib_ports lib ! i) = get_name p) global_ports = Some pid"
    and "get_width p = cp_size (lib_ports lib ! pid)"
  shows "connect_global_port g lib global_ports clocks p =
     (if cp_type (lib_ports lib ! pid) = SPICE_MODEL_PORT_CLOCK \<and> \<not> cp_is_prog (lib_ports lib ! pid)
      then wire_to_benchmark_clocks g clocks p
      else Returns () [Wire_Constant_Values p
                         (replicate (get_width p) (cp_default_value (lib_ports lib ! pid)))])"
proof -
  have pid: "pid < length (lib_ports lib)"
    using assms(1) find_Some_mem [OF assms(2)] by blast
  show ?thesis
    by (auto simp: connect_global_port_def find_linked_circuit_port_eq [OF assms(1)] assms(2)
        VTR_ASSERT_def port_size_def port_type_def port_is_prog_def port_default_value_def
        lookup_def pid assms(3) [symmetric] wire_to_default_value_def
        print_verilog_wire_constant_values_def emit_def)
qed

lemmas verilog_defs =
  print_verilog_preconfig_top_module_connect_global_ports_def connect_global_port_def
  wire_to_benchmark_clocks_def wire_to_default_value_def
  print_verilog_preconfig_top_module_connect_ios_def wire_unused_io_def
  print_verilog_preconfig_top_module_load_bitstream_def load_config_bit_def
  find_bitstream_manager_block_hierarchy_def
  check_file_handler_def module_ports_by_type_def module_name_of_def
  print_verilog_comment_def print_verilog_wire_connection_def
  print_verilog_wire_constant_values_def emit_def exit_process_def VTR_ASSERT_def lookup_def
  port_lib_name_def port_size_def port_type_def port_is_prog_def port_default_value_def
  pins_def is_valid_def get_width_def get_name_def set_width_def BasicPort_width_def
  BasicPort_range_def block_name_def lookup_block_def valid_block_id_def
  bit_parent_block_def bit_index_in_parent_block_def bit_value_def

lemmas verilog_example_defs =
  sample_names_def global_port_library_def sample_top_module_def clocked_top_module_def
  reset_pin_port_def clk_pin_port_def gpio_pin_port_def

section \<open>Lemmas about the block hierarchy\<close>

lemma chain_to_root_valid: "chain_to_root bm bs \<Longrightarrow> \<forall>b \<in> set bs. b < length (bm_blocks bm)"
  by (induction bm bs rule: chain_to_root.induct) auto

lemma block_walk_chain:
  "chain_to_root bm (b # rest) \<Longrightarrow>
   block_walk bm (Some b) acc = Some (acc @ map Some (b # rest))"
proof (induction rest arbitrary: b acc)
  case Nil
  then have "b < length (bm_blocks bm)" "\<not> valid_block_id bm (blk_parent (bm_blocks bm ! b))"
    by simp_all
  then show ?case
    by (subst block_walk.simps, simp add: valid_block_id_def)
       (subst block_walk.simps, simp add: valid_block_id_def)
next
  case (Cons p rest)
  then have b: "b < length (bm_blocks bm)" "blk_parent (bm_blocks bm ! b) = Some p"
    and rest: "chain_to_root bm (p # rest)"
    by simp_all
  from Cons.IH [OF rest, of "acc @ [Some b]"] b show ?case
    by (subst block_walk.simps) (simp add: valid_block_id_def)
qed

lemma find_bitstream_manager_block_hierarchy_chain:
  assumes "chain_to_root bm (rev (root # mids))"
  shows "find_bitstream_manager_block_hierarchy bm (Some (last (root # mids)))
           = Returns (map Some (root # mids)) []"
proof -
  have "rev (root # mids) = last (root # mids) # rev (butlast (root # mids))"
    by (metis append_butlast_last_id list.distinct(1) rev.simps(2) rev_append rev_singleton_conv singleton_rev_conv append_Cons append_Nil)
  with assms have "chain_to_root bm (last (root # mids) # rev (butlast (root # mids)))"
    by simp
  from block_walk_chain [OF this, of "[]"]
  have "block_walk bm (Some (last (root # mids))) [] = Some (map Some (rev (root # mids)))"
    using \<open>rev (root # mids) = last (root # mids) # rev (butlast (root # mids))\<close> by simp
  then show ?thesis
    by (simp add: find_bitstream_manager_block_hierarchy_def rev_map)
qed

lemma append_block_names_eq:
  "\<forall>b \<in> set bs. b < length (bm_blocks bm) \<Longrightarrow>
   append_block_names bm path (map Some bs)
     = Returns (path @ concat (map (\<lambda>b. ''.'' @ blk_name (bm_blocks bm ! b)) bs)) []"
  by (induction bs arbitrary: path) (simp_all add: block_name_def lookup_block_def lookup_def)

lemma load_config_bit_eq:
  assumes "config_bit_id < length (bm_bits bm)"
    and "cbit_parent_block (bm_bits bm ! config_bit_id) = Some (last (root # mids))"
    and "chain_to_root bm (rev (root # mids))"
    and "top_module < length module_manager"
    and "mod_name (module_manager ! top_module) = blk_name (bm_blocks bm ! root)"
  shows "load_config_bit g module_manager top_module bm config_bit_id =
     Returns ()
       [Wire_Constant_Values
          \<lparr>bp_name = formal_verification_top_module_uut_name g
                      @ concat (map (\<lambda>b. ''.'' @ blk_name (bm_blocks bm ! b)) mids)
                      @ ''.'' @ generate_configuration_chain_data_out_name g,
           bp_lsb = cbit_index_in_parent_block (bm_bits bm ! config_bit_id),
           bp_msb = cbit_index_in_parent_block (bm_bits bm ! config_bit_id)\<rparr>
          [if cbit_value (bm_bits bm ! config_bit_id) then 1 else 0]]"
proof -
  from chain_to_root_valid [OF assms(3)]
  have valid: "root < length (bm_blocks bm)" "\<forall>b \<in> set mids. b < length (bm_blocks bm)"
    by simp_all
  show ?thesis
    unfolding load_config_bit_def
    by (simp add: bit_parent_block_def bit_index_in_parent_block_def bit_value_def lookup_def
        assms(1,2,4,5) find_bitstream_manager_block_hierarchy_chain [OF assms(3)]
        module_name_of_def block_name_def lookup_block_def valid
        append_block_names_eq [OF valid(2)] VTR_ASSERT_def BasicPort_range_def set_width_def
        get_width_def is_valid_def print_verilog_wire_constant_values_def emit_def
        del: last.simps)
qed

lemma foreach_list_all2:
  "list_all2 (\<lambda>x e. body x = Returns () [e]) xs es \<Longrightarrow> foreach xs body = Returns () es"
  by (induction xs es rule: list_all2_induct) simp_all

lemmas bitstream_example_defs = sample_bitstream_def sample_names_def sample_top_module_def

section \<open>Lemmas about the benchmark I/Os\<close>

lemma get_name_set_width: "get_name (set_width p i j) = get_name p"
  by (simp add: get_name_def set_width_def)

lemma get_width_pad_bit: "get_width (set_width p i i) = 1"
  by (simp add: get_width_def set_width_def is_valid_def)

lemma set_width_inj: "set_width p i i = set_width p j j \<longleftrightarrow> i = j"
  by (auto simp: set_width_def) (metis BasicPort.select_convs(2) BasicPort.surjective BasicPort.update_convs(2) BasicPort.update_convs(3))

lemma link_benchmark_ios_eq:
  assumes "\<forall>lb \<in> set lbs. is_io_block lb \<longrightarrow> find_io_index lb < get_width p"
  shows "link_benchmark_ios g p find_io_index lbs io_used =
     Returns (fold (\<lambda>lb u. u[find_io_index lb := True]) (filter is_io_block lbs) io_used)
       (concat (map (link_emissions g p find_io_index) (filter is_io_block lbs)))"
  using assms
proof (induction lbs arbitrary: io_used)
  case Nil
  then show ?case by simp
next
  case (Cons lb lbs)
  show ?case
  proof (cases "is_io_block lb")
    case False
    with Cons show ?thesis by (auto simp: is_io_block_def)
  next
    case True
    with Cons.prems have "find_io_index lb < get_width p" by simp
    with True Cons show ?thesis
      by (auto simp: is_io_block_def Let_def VTR_ASSERT_def print_verilog_comment_def
          print_verilog_wire_connection_def emit_def link_emissions_def get_name_set_width)
  qed
qed

lemma fold_update_nth:
  "b < length u \<Longrightarrow>
   fold (\<lambda>lb u. u[f lb := True]) lbs u ! b = (u ! b \<or> b \<in> f ` set lbs)"
proof (induction lbs arbitrary: u)
  case Nil
  then show ?case by simp
next
  case (Cons a lbs)
  have "u[f a := True] ! b = (u ! b \<or> b = f a)"
    using Cons.prems by (cases "f a = b") auto
  with Cons.IH [of "u[f a := True]"] Cons.prems show ?case by auto
qed

lemma fold_update_length: "length (fold (\<lambda>lb u. u[f lb := True]) lbs u) = length u"
  by (induction lbs arbitrary: u) auto

lemma foreach_filter_single:
  "(\<And>x. x \<in> set xs \<Longrightarrow> body x = (if P x then Returns () [f x] else Returns () [])) \<Longrightarrow>
   foreach xs body = Returns () (map f (filter P xs))"
  by (induction xs) simp_all

lemma wire_unused_ios_eq:
  assumes "length io_used = w"
  shows "foreach [0..<w] (wire_unused_io g p io_used) =
     Returns ()
       (map (\<lambda>i. Wire_Constant_Values (set_width p i i) [verilog_default_signal_init_value g])
          (filter (\<lambda>i. \<not> io_used ! i) [0..<w]))"
  by (rule foreach_filter_single)
     (simp add: wire_unused_io_def Let_def get_width_pad_bit print_verilog_wire_constant_values_def
        emit_def)

lemma connect_ios_eq:
  assumes "fp_ok" and "top_module < length module_manager"
    and "map snd (filter (\<lambda>tp. fst tp = MODULE_GPIO_PORT) (mod_ports (module_manager ! top_module))) = [p]"
    and "\<forall>lb \<in> set lbs. is_io_block lb \<longrightarrow> find_io_index lb < get_width p"
  shows "print_verilog_preconfig_top_module_connect_ios g fp_ok module_manager top_module lbs find_io_index =
     Returns ()
       ([Verilog_Comment ''----- Link BLIF Benchmark I/Os to FPGA I/Os -----'']
        @ concat (map (link_emissions g p find_io_index) (filter is_io_block lbs))
        @ [Endl, Verilog_Comment ''----- Wire unused FPGA I/Os to constants -----'']
        @ map (\<lambda>i. Wire_Constant_Values (set_width p i i) [verilog_default_signal_init_value g])
            (filter (\<lambda>i. i \<notin> find_io_index ` set (filter is_io_block lbs)) [0..<get_width p])
        @ [Endl])"
proof -
  let ?used = "fold (\<lambda>lb u. u[find_io_index lb := True]) (filter is_io_block lbs)
                 (replicate (get_width p) False)"
  have len: "length ?used = get_width p"
    by (simp add: fold_update_length)
  have "filter (\<lambda>i. \<not> ?used ! i) [0..<get_width p]
      = filter (\<lambda>i. i \<notin> find_io_index ` set (filter is_io_block lbs)) [0..<get_width p]"
    by (rule filter_cong) (simp_all add: fold_update_nth)
  with wire_unused_ios_eq [OF len, of g p]
  have ties: "foreach [0..<length ?used] (wire_unused_io g p ?used) =
     Returns ()
       (map (\<lambda>i. Wire_Constant_Values (set_width p i i) [verilog_default_signal_init_value g])
          (filter (\<lambda>i. i \<notin> find_io_index ` set (filter is_io_block lbs)) [0..<get_width p]))"
    by (simp add: len)
  show ?thesis
    unfolding print_verilog_preconfig_top_module_connect_ios_def
    by (simp add: assms(1-3) check_file_handler_def module_ports_by_type_def lookup_def
        VTR_ASSERT_def print_verilog_comment_def emit_def link_benchmark_ios_eq [OF assms(4)]
        ties)
qed

lemma count_list_distinct: "distinct xs \<Longrightarrow> count_list xs b = (if b \<in> set xs then 1 else 0)"
  by (induction xs) auto

lemma length_filter_eq_upt:
  "length (filter (\<lambda>i. i = b \<and> P i) [0..<w]) = (if b < w \<and> P b then 1 else 0)"
  by (induction w) auto

lemma wires_of_links:
  "length (filter (\<lambda>e. is_wire_connection e \<and> drives (set_width p b b) e)
             (concat (map (link_emissions g p f) ios)))
   = count_list (map f ios) b"
  by (induction ios) (auto simp: link_emissions_def set_width_inj)

lemma constants_of_links:
  "filter (\<lambda>e. is_constant_assignment e \<and> drives q e) (concat (map (link_emissions g p f) ios)) = []"
  by (induction ios) (auto simp: link_emissions_def)

lemma wires_of_ties:
  "filter (\<lambda>e. is_wire_connection e \<and> drives q e) (map (\<lambda>i. Wire_Constant_Values (h i) [v]) ks) = []"
  by (induction ks) auto

lemma constants_of_ties:
  "length (filter (\<lambda>e. is_constant_assignment e \<and> drives (set_width p b b) e)
             (map (\<lambda>i. Wire_Constant_Values (set_width p i i) [v]) (filter P [0..<w])))
   = (if b < w \<and> P b then 1 else 0)"
proof -
  have "filter (\<lambda>e. is_constant_assignment e \<and> drives (set_width p b b) e)
             (map (\<lambda>i. Wire_Constant_Values (set_width p i i) [v]) (filter P [0..<w]))
      = map (\<lambda>i. Wire_Constant_Values (set_width p i i) [v]) (filter (\<lambda>i. i = b \<and> P i) [0..<w])"
    by (simp add: filter_map comp_def set_width_inj conj_commute)
  then show ?thesis
    by (simp add: length_filter_eq_upt)
qed

lemmas io_example_defs =
  sample_names_def sample_top_module_def gpio_pin_port_def reset_pin_port_def
  two_pad_top_module_def block_in_a_def block_out_b_def block_n1_def

section \<open>Lemmas about the whole validate pass\<close>

lemma check_circuit_model_required_eq:
  "check_circuit_model_required lib t
     = Returns (length (required_model_log lib t)) (required_model_log lib t)"
  by (simp add: check_circuit_model_required_def required_model_log_def report_error_def
      vpr_printf_def emit_def)

lemma check_circuit_model_port_required_log:
  "check_circuit_model_port_required lib t pts
     = Returns (length (required_port_log lib t pts)) (required_port_log lib t pts)"
  unfolding required_port_log_def by (rule check_circuit_model_port_required_eq)

lemma concat_if_single: "concat (map (\<lambda>x. if P x then [f x] else []) xs) = map f (filter P xs)"
  by (induction xs) simp_all

lemma foreach_add_if:
  "foreach_add xs (\<lambda>x. if P x then report_error (f x) 0 else Returns 0 []) n
     = Returns (n + length (filter P xs)) (map f (filter P xs))"
proof -
  have "foreach_add xs (\<lambda>x. if P x then report_error (f x) 0 else Returns 0 []) n
     = Returns (n + sum_list (map (\<lambda>x. if P x then 1 else 0) xs))
         (concat (map (\<lambda>x. if P x then [f x] else []) xs))"
    by (rule foreach_add_Returns) (simp add: report_error_def vpr_printf_def emit_def)
  then show ?thesis
    by (simp add: sum_list_if_one concat_if_single)
qed

lemma check_circuit_library_ports_eq:
  "check_circuit_library_ports lib
     = Returns (length (library_ports_log lib)) (library_ports_log lib)"
  by (simp add: check_circuit_library_ports_def library_ports_log_def foreach_add_if)

lemma add_errors_Returns: "add_errors n (Returns (length l) l) = Returns (n + length l) l"
  by (simp add: add_errors_def)

lemma accumulated_checks_log:
  assumes "num_models lib < SIZE_T_RANGE"
  shows "accumulated_checks lib = Returns (length (accumulated_log lib)) (accumulated_log lib)"
proof -
  have names: "check_circuit_library_unique_names lib
      = Returns (length (map (\<lambda>(i, j). Err_Share_Name i j (model_names lib ! i))
                           (equal_pairs (model_names lib))))
          (map (\<lambda>(i, j). Err_Share_Name i j (model_names lib ! i)) (equal_pairs (model_names lib)))"
    by (simp add: check_circuit_library_unique_names_eq [OF assms])
  have prefix: "check_circuit_library_unique_prefix lib
      = Returns (length (map (\<lambda>(i, j). Err_Share_Prefix (model_names lib ! i) (model_names lib ! j)
                                       (model_prefixes lib ! i))
                           (equal_pairs (model_prefixes lib))))
          (map (\<lambda>(i, j). Err_Share_Prefix (model_names lib ! i) (model_names lib ! j)
                             (model_prefixes lib ! i))
             (equal_pairs (model_prefixes lib)))"
    by (simp add: check_circuit_library_unique_prefix_eq [OF assms])
  show ?thesis
    unfolding accumulated_checks_def names prefix check_circuit_library_ports_eq
      check_circuit_model_required_eq check_circuit_model_port_required_log add_errors_Returns
    by (simp add: accumulated_log_def report_error_def vpr_printf_def emit_def)
qed

lemma check_circuit_library_eq:
  assumes "num_models lib < SIZE_T_RANGE"
  shows "check_circuit_library lib =
     (case first_missing_default lib of
        Some t \<Rightarrow> Stops (Exit 1) (Info_Checking # accumulated_log lib @ [Err_No_Default t])
      | None \<Rightarrow>
          if accumulated_log lib = [] then Returns () [Info_Checking, Info_Finished 0]
          else Stops (Exit 1)
                 (Info_Checking # accumulated_log lib
                    @ [Info_Finished (length (accumulated_log lib))]))"
proof (cases "first_missing_default lib")
  case None
  then show ?thesis
    by (simp add: check_circuit_library_def accumulated_checks_log [OF assms]
        default_model_checks_present vpr_printf_def emit_def exit_process_def)
next
  case (Some t)
  then show ?thesis
    by (simp add: check_circuit_library_def accumulated_checks_log [OF assms]
        default_model_checks_missing vpr_printf_def emit_def)
qed

lemma filter_required_port_log:
  "filter P (required_port_log lib t pts)
     = (if \<forall>n pt. \<not> P (Err_No_Port t n pt) then []
        else filter P (required_port_log lib t pts))"
proof -
  have "filter P (required_port_log lib t pts) = []" if "\<forall>n pt. \<not> P (Err_No_Port t n pt)"
    using that by (auto simp: required_port_log_def filter_empty_conv)
  then show ?thesis by simp
qed

lemma filter_all_required_port_log:
  "\<forall>n pt. P (Err_No_Port t n pt) \<Longrightarrow>
   filter P (required_port_log lib t pts) = required_port_log lib t pts"
  by (auto simp: required_port_log_def filter_id_conv)

lemma no_width_or_count_error: "list_all (\<lambda>e. \<not> width_or_count_error e) (accumulated_log lib)"
  by (auto simp: accumulated_log_def library_ports_log_def required_model_log_def
      required_port_log_def list_all_iff)

lemma sram_port_errors_of_pass:
  "filter sram_port_error (accumulated_log lib)
     = required_port_log lib SPICE_MODEL_SRAM sram_port_types_required"
proof -
  have none: "filter sram_port_error (required_port_log lib t pts) = []"
    if "t \<noteq> SPICE_MODEL_SRAM" for t pts
    using that by (auto simp: required_port_log_def filter_empty_conv)
  have "filter sram_port_error (map f xs) = []"
    if "\<forall>x. \<not> sram_port_error (f x)" for f :: "'a \<Rightarrow> msg" and xs
    using that by (simp add: filter_empty_conv)
  then show ?thesis
    by (simp add: accumulated_log_def library_ports_log_def required_model_log_def none
        filter_all_required_port_log split_def
        del: filter_map filter_concat)
qed

lemma iopad_errors_of_pass:
  assumes "SPICE_MODEL_IOPAD \<notin> cm_type ` set (lib_models lib)"
  shows "filter iopad_error (accumulated_log lib) = [Err_Model_Required SPICE_MODEL_IOPAD]"
proof -
  have none: "filter iopad_error (required_port_log lib t pts) = []"
    if "t \<noteq> SPICE_MODEL_IOPAD" for t pts
    using that by (auto simp: required_port_log_def filter_empty_conv)
  have empty: "required_port_log lib SPICE_MODEL_IOPAD pts = []" for pts
    by (simp add: required_port_log_def no_models_of_type [OF assms])
  have maps: "filter iopad_error (map f xs) = []"
    if "\<forall>x. \<not> iopad_error (f x)" for f :: "'a \<Rightarrow> msg" and xs
    using that by (simp add: filter_empty_conv)
  show ?thesis
    by (simp add: accumulated_log_def library_ports_log_def required_model_log_def none empty
        maps no_models_of_type [OF assms] split_def
        del: filter_map filter_concat)
qed

section \<open>Lemmas about the SRAM port check\<close>

text \<open>
  With at most one port of the type, the check of one port type returns and counts one
  error per message.
\<close>

lemma check_one_port_type_at_most_one:
  assumes "m < num_models lib" and "length (model_ports_by_type lib m pt (\<not> incl)) \<le> 1"
  shows "\<exists>l. check_one_circuit_model_port_type_and_size_required lib m pt 1 sz incl
                = Returns (length l) l
            \<and> length l = (if 1 \<noteq> length (model_ports_by_type lib m pt (\<not> incl)) then 1 else 0)
                 + length (filter (\<lambda>p. sz \<noteq> cp_size (lib_ports lib ! p))
                             (model_ports_by_type lib m pt (\<not> incl)))"
proof -
  from assms(2) have "\<not> (1 \<noteq> length (model_ports_by_type lib m pt (\<not> incl))
      \<and> length (model_ports_by_type lib m pt (\<not> incl)) \<noteq> 0)"
    by linarith
  then show ?thesis
    by (subst check_one_circuit_model_port_type_and_size_required_eq [OF assms(1)])
       (simp del: One_nat_def)
qed

text \<open>
  With two or more non-global OUTPUT ports the count-mismatch message stops the SRAM
  check before it returns.
\<close>

lemma check_sram_circuit_model_ports_stops:
  assumes "m < num_models lib" and "cm_type (lib_models lib ! m) = SPICE_MODEL_SRAM"
    and "2 \<le> length (model_ports_by_type lib m SPICE_MODEL_PORT_OUTPUT True)"
  shows "check_sram_circuit_model_ports lib m check_blwl = Stops Segfault []"
proof -
  from assms(3) have "1 \<noteq> length (model_ports_by_type lib m SPICE_MODEL_PORT_OUTPUT (\<not> False))
      \<and> length (model_ports_by_type lib m SPICE_MODEL_PORT_OUTPUT (\<not> False)) \<noteq> 0"
    by auto
  then have "check_one_circuit_model_port_type_and_size_required lib m SPICE_MODEL_PORT_OUTPUT 1 2 False
      = Stops Segfault []"
    by (subst check_one_circuit_model_port_type_and_size_required_eq [OF assms(1)])
       (simp del: One_nat_def)
  then show ?thesis
    unfolding check_sram_circuit_model_ports_def
    by (simp add: model_type_valid [OF assms(1)] assms(2) VTR_ASSERT_def add_errors_def)
qed

lemma two_output_library_stops:
  "check_sram_circuit_model_ports two_output_library 2 False = Stops Segfault []"
  by (rule check_sram_circuit_model_ports_stops)
     (simp_all add: num_models_def model_ports_by_type_def ports_def example_defs upt_conv_Cons)

section \<open>A missing default model is fatal\<close>

text \<open>
  Claim C1. If no default circuit model is registered for one of the types MUX, CHAN\_WIRE,
  WIRE (checked in that order), the validate pass ends the process at the first missing
  default with exit code 1: the last message written is the one of that check, no
  message of a later default-model check and no final error-count line
  (\<open>Info_Finished\<close>) is written, whatever the earlier checks counted; the messages before
  it are the counted errors of checks 1 to 9, possibly none.
\<close>

theorem missing_default_model_is_fatal:
  assumes "num_models lib < SIZE_T_RANGE"
    and "default_model lib SPICE_MODEL_MUX = None \<or> default_model lib SPICE_MODEL_CHAN_WIRE = None
         \<or> default_model lib SPICE_MODEL_WIRE = None"
  shows "\<exists>t log. first_missing_default lib = Some t
           \<and> check_circuit_library lib = Stops (Exit 1) (Info_Checking # log @ [Err_No_Default t])
           \<and> list_all is_counted_error log
           \<and> (\<forall>n. Info_Finished n \<notin> set log)
           \<and> (\<forall>t'. Err_No_Default t' \<notin> set log)"
proof -
  from assms(2) obtain t where t: "first_missing_default lib = Some t"
    using first_missing_default_iff [of lib] by auto
  from counted_accumulated_checks [OF assms(1)] obtain log
    where acc: "accumulated_checks lib = Returns (0 + length log) log"
      and log: "list_all is_counted_error log"
    by (rule counted_fromE)
  have "check_circuit_library lib = Stops (Exit 1) (Info_Checking # log @ [Err_No_Default t])"
    by (simp add: check_circuit_library_def vpr_printf_def emit_def acc
        default_model_checks_missing [OF t])
  with t log counted_no_info [OF log] show ?thesis by blast
qed

theorem missing_default_model_is_fatal_witness:
  "num_models no_default_wire_library < SIZE_T_RANGE
   \<and> default_model no_default_wire_library SPICE_MODEL_WIRE = None
   \<and> (\<exists>t log. first_missing_default no_default_wire_library = Some t
         \<and> check_circuit_library no_default_wire_library
             = Stops (Exit 1) (Info_Checking # log @ [Err_No_Default t])
         \<and> list_all is_counted_error log
         \<and> (\<forall>n. Info_Finished n \<notin> set log)
         \<and> (\<forall>t'. Err_No_Default t' \<notin> set log))
   \<and> first_missing_default no_default_wire_library = Some SPICE_MODEL_WIRE
   \<and> check_circuit_library no_default_wire_library
       = Stops (Exit 1) [Info_Checking, Err_No_Default SPICE_MODEL_WIRE]
   \<and> num_models single_model_library < SIZE_T_RANGE
   \<and> default_model single_model_library SPICE_MODEL_MUX = None
   \<and> check_circuit_library single_model_library
       = Stops (Exit 1)
           [Info_Checking, Err_Model_Required SPICE_MODEL_IOPAD, Err_Model_Required SPICE_MODEL_MUX,
            Err_SRAM_Or_SCFF_Required, Err_No_Default SPICE_MODEL_MUX]"
proof -
  have h1: "num_models no_default_wire_library < SIZE_T_RANGE"
    by (simp add: num_models_def example_defs SIZE_T_RANGE_def)
  have h2: "default_model no_default_wire_library SPICE_MODEL_WIRE = None"
    by (simp add: default_model_def models_by_type_def num_models_def example_defs upt_conv_Cons)
  have h3: "first_missing_default no_default_wire_library = Some SPICE_MODEL_WIRE"
    by (simp add: first_missing_default_def default_model_def models_by_type_def num_models_def
        example_defs upt_conv_Cons)
  have names: "check_circuit_library_unique_names no_default_wire_library = Returns 0 []"
    by (subst check_circuit_library_unique_names_eq [OF h1])
       (simp add: equal_pairs_def equal_pairs_from_def model_names_def example_defs upt_conv_Cons)
  have prefix: "check_circuit_library_unique_prefix no_default_wire_library = Returns 0 []"
    by (subst check_circuit_library_unique_prefix_eq [OF h1])
       (simp add: equal_pairs_def equal_pairs_from_def model_prefixes_def example_defs upt_conv_Cons)
  have run: "check_circuit_library no_default_wire_library
       = Stops (Exit 1) [Info_Checking, Err_No_Default SPICE_MODEL_WIRE]"
    unfolding check_circuit_library_def accumulated_checks_def names prefix
    by (simp add: checker_defs example_defs upt_conv_Cons)
  have g1: "num_models single_model_library < SIZE_T_RANGE"
    by (simp add: num_models_def example_defs SIZE_T_RANGE_def)
  have g2: "default_model single_model_library SPICE_MODEL_MUX = None"
    by (simp add: default_model_def models_by_type_def num_models_def example_defs upt_conv_Cons)
  have names': "check_circuit_library_unique_names single_model_library = Returns 0 []"
    by (subst check_circuit_library_unique_names_eq [OF g1])
       (simp add: equal_pairs_def equal_pairs_from_def model_names_def example_defs upt_conv_Cons)
  have prefix': "check_circuit_library_unique_prefix single_model_library = Returns 0 []"
    by (subst check_circuit_library_unique_prefix_eq [OF g1])
       (simp add: equal_pairs_def equal_pairs_from_def model_prefixes_def example_defs upt_conv_Cons)
  have run': "check_circuit_library single_model_library
       = Stops (Exit 1)
           [Info_Checking, Err_Model_Required SPICE_MODEL_IOPAD, Err_Model_Required SPICE_MODEL_MUX,
            Err_SRAM_Or_SCFF_Required, Err_No_Default SPICE_MODEL_MUX]"
    unfolding check_circuit_library_def accumulated_checks_def names' prefix'
    by (simp add: checker_defs example_defs upt_conv_Cons)
  from missing_default_model_is_fatal [OF h1] h2
  have "\<exists>t log. first_missing_default no_default_wire_library = Some t
         \<and> check_circuit_library no_default_wire_library
             = Stops (Exit 1) (Info_Checking # log @ [Err_No_Default t])
         \<and> list_all is_counted_error log
         \<and> (\<forall>n. Info_Finished n \<notin> set log)
         \<and> (\<forall>t'. Err_No_Default t' \<notin> set log)"
    by blast
  with h1 h2 h3 run g1 g2 run' show ?thesis
    by blast
qed

section \<open>Models that share a name\<close>

text \<open>
  Claim C2. In a catalog in which \<open>k \<ge> 2\<close> models share the name \<open>nm\<close>, the
  unique-name check reports each unordered pair of equally named models exactly once
  (the reported pairs are the \<open>(i, j)\<close> with \<open>i < j\<close> and equal names, without
  repetition), counts one error per message, and exactly \<open>k choose 2\<close> of its messages
  report \<open>nm\<close>; when no other name is shared, these are all its errors. With the
  default models of MUX, CHAN\_WIRE and WIRE registered, the validate pass then writes
  the final count and exits with code 1.
\<close>

theorem shared_name_errors:
  assumes "num_models lib < SIZE_T_RANGE"
    and "count_list (model_names lib) nm = k" and "2 \<le> k"
    and "first_missing_default lib = None"
  shows "\<exists>log rest.
           check_circuit_library_unique_names lib = Returns (length log) log
         \<and> log = map (\<lambda>(i, j). Err_Share_Name i j (model_names lib ! i)) (equal_pairs (model_names lib))
         \<and> set (equal_pairs (model_names lib))
             = {(i, j). i < j \<and> j < num_models lib \<and> model_names lib ! j = model_names lib ! i}
         \<and> distinct (equal_pairs (model_names lib))
         \<and> length (filter (reports_name nm) log) = k choose 2
         \<and> ((\<forall>m. m \<noteq> nm \<longrightarrow> count_list (model_names lib) m \<le> 1) \<longrightarrow> length log = k choose 2)
         \<and> check_circuit_library lib
             = Stops (Exit 1) (Info_Checking # log @ rest @ [Info_Finished (length log + length rest)])
         \<and> list_all is_counted_error rest"
proof -
  let ?xs = "model_names lib"
  let ?log = "map (\<lambda>(i, j). Err_Share_Name i j (?xs ! i)) (equal_pairs ?xs)"
  have len: "length ?xs = num_models lib"
    by (simp add: model_names_def num_models_def)
  from accumulated_checks_eq [OF assms(1)] obtain rest
    where acc: "accumulated_checks lib = Returns (length (equal_pairs ?xs) + length rest) (?log @ rest)"
      and rest: "list_all is_counted_error rest"
    by blast
  have nm: "length (filter (reports_name nm) ?log) = k choose 2"
    using equal_pairs_with [of ?xs nm] assms(2)
    by (simp add: filter_map comp_def split_def)
  then have ge: "k choose 2 \<le> length (equal_pairs ?xs)"
    using length_filter_le [of "reports_name nm" ?log] by simp
  have pos: "0 < length (equal_pairs ?xs)"
    using choose_two_pos [OF assms(3)] ge by linarith
  have 1: "check_circuit_library_unique_names lib = Returns (length ?log) ?log"
    by (simp add: check_circuit_library_unique_names_eq [OF assms(1)])
  have 2: "set (equal_pairs ?xs) = {(i, j). i < j \<and> j < num_models lib \<and> ?xs ! j = ?xs ! i}"
    using set_equal_pairs [of ?xs] by (simp add: len)
  have 3: "(\<forall>m. m \<noteq> nm \<longrightarrow> count_list ?xs m \<le> 1) \<longrightarrow> length ?log = k choose 2"
    using equal_pairs_only [of nm ?xs] assms(2) by simp
  have 4: "check_circuit_library lib
      = Stops (Exit 1) (Info_Checking # ?log @ rest @ [Info_Finished (length ?log + length rest)])"
    using pos
    by (simp add: check_circuit_library_def vpr_printf_def emit_def acc
        default_model_checks_present [OF assms(4)] exit_process_def)
  from 1 2 3 4 nm rest distinct_equal_pairs [of ?xs] show ?thesis by blast
qed

theorem shared_name_errors_witness:
  "num_models shared_name_library < SIZE_T_RANGE
   \<and> count_list (model_names shared_name_library) ''dup'' = 3
   \<and> (2::nat) \<le> 3
   \<and> first_missing_default shared_name_library = None
   \<and> (\<forall>m. m = ''dup'' \<or> count_list (model_names shared_name_library) m \<le> 1)
   \<and> (3::nat) choose 2 = 3
   \<and> (\<exists>log rest.
         check_circuit_library_unique_names shared_name_library = Returns (length log) log
       \<and> log = [Err_Share_Name 0 1 ''dup'', Err_Share_Name 0 2 ''dup'', Err_Share_Name 1 2 ''dup'']
       \<and> length (filter (reports_name ''dup'') log) = 3 choose 2
       \<and> check_circuit_library shared_name_library
           = Stops (Exit 1) (Info_Checking # log @ rest @ [Info_Finished (length log + length rest)])
       \<and> list_all is_counted_error rest)"
proof -
  have h1: "num_models shared_name_library < SIZE_T_RANGE"
    by (simp add: num_models_def example_defs SIZE_T_RANGE_def)
  have h2: "count_list (model_names shared_name_library) ''dup'' = 3"
    by (simp add: model_names_def example_defs)
  have h3: "(2::nat) \<le> 3" by simp
  have h4: "first_missing_default shared_name_library = None"
    by (simp add: first_missing_default_def default_model_def models_by_type_def num_models_def
        example_defs upt_conv_Cons)
  have others: "\<forall>m. m = ''dup'' \<or> count_list (model_names shared_name_library) m \<le> 1"
    by (simp add: model_names_def example_defs)
  have pairs: "map (\<lambda>(i, j). Err_Share_Name i j (model_names shared_name_library ! i))
        (equal_pairs (model_names shared_name_library))
      = [Err_Share_Name 0 1 ''dup'', Err_Share_Name 0 2 ''dup'', Err_Share_Name 1 2 ''dup'']"
    by (simp add: equal_pairs_def equal_pairs_from_def model_names_def example_defs upt_conv_Cons)
  have c: "(3::nat) choose 2 = 3"
    by (simp add: numeral_eq_Suc)
  from shared_name_errors [OF h1 h2 h3 h4] pairs h1 h2 h4 others c show ?thesis
    by auto
qed

section \<open>Global ports tied to their default value\<close>

text \<open>
  Claim C3 states that a global port of width 4 that is not an operating clock, with
  default value 1, is tied by four separate 1-bit constant assignments. The code makes
  one call of \<^verbatim>\<open>print_verilog_wire_constant_values\<close> for the whole port, with a vector of
  four values; its own comment and the loop over the unused I/Os, which does go bit by
  bit, show the difference. On the sample top module the block for the global ports
  holds one constant assignment for the 4-bit port \<open>reset\<close>.
\<close>

theorem global_port_single_assignment:
  "get_width reset_pin_port = 4
   \<and> connect_global_port sample_names global_port_library [0, 1] [''clk_a'', ''clk_b''] reset_pin_port
       = Returns () [Wire_Constant_Values \<lparr>bp_name = ''reset'', bp_lsb = 0, bp_msb = 3\<rparr> [1, 1, 1, 1]]
   \<and> print_verilog_preconfig_top_module_connect_global_ports sample_names True [sample_top_module] 0
         global_port_library [0, 1] []
       = Returns ()
           [Verilog_Comment ''----- Begin Connect Global ports of FPGA top module -----'',
            Wire_Constant_Values \<lparr>bp_name = ''reset'', bp_lsb = 0, bp_msb = 3\<rparr> [1, 1, 1, 1],
            Verilog_Comment ''----- End Connect Global ports of FPGA top module -----'',
            Endl]"
  by (simp add: verilog_defs verilog_example_defs numeral_eq_Suc)

text \<open>
  Claim C3, amended. For a global port of the top module whose matched circuit port (the
  first of \<open>global_ports\<close> with its name, of the same width) is not a clock or is a
  programming clock, the binder makes exactly one constant assignment, for the whole
  port, with the circuit port's default value replicated across the width: for width 4
  and default value 1 one assignment of the four values 1, 1, 1, 1.
\<close>

theorem other_global_port_default_value:
  assumes "\<forall>i \<in> set global_ports. i < length (lib_ports lib)"
    and "find (\<lambda>i. cp_lib_name (lib_ports lib ! i) = get_name p) global_ports = Some pid"
    and "get_width p = cp_size (lib_ports lib ! pid)"
    and "cp_type (lib_ports lib ! pid) \<noteq> SPICE_MODEL_PORT_CLOCK \<or> cp_is_prog (lib_ports lib ! pid)"
  shows "connect_global_port g lib global_ports clocks p =
           Returns () [Wire_Constant_Values p
                         (replicate (get_width p) (cp_default_value (lib_ports lib ! pid)))]"
  using assms(4)
  by (auto simp: connect_global_port_linked [OF assms(1-3)])

theorem other_global_port_default_value_witness:
  "list_all (\<lambda>i. i < length (lib_ports global_port_library)) [0, 1]
   \<and> find (\<lambda>i. cp_lib_name (lib_ports global_port_library ! i) = get_name reset_pin_port) [0, 1] = Some 0
   \<and> get_width reset_pin_port = cp_size (lib_ports global_port_library ! 0)
   \<and> get_width reset_pin_port = 4
   \<and> cp_type (lib_ports global_port_library ! 0) = SPICE_MODEL_PORT_INPUT
   \<and> cp_default_value (lib_ports global_port_library ! 0) = 1
   \<and> connect_global_port sample_names global_port_library [0, 1] [''clk_a'', ''clk_b''] reset_pin_port
       = Returns () [Wire_Constant_Values reset_pin_port [1, 1, 1, 1]]"
proof -
  have h1: "\<forall>i \<in> set [0, 1]. i < length (lib_ports global_port_library)"
    by (simp add: verilog_example_defs)
  have h2: "find (\<lambda>i. cp_lib_name (lib_ports global_port_library ! i) = get_name reset_pin_port) [0, 1]
      = Some 0"
    by (simp add: verilog_example_defs get_name_def)
  have h3: "get_width reset_pin_port = cp_size (lib_ports global_port_library ! 0)"
    by (simp add: verilog_example_defs get_width_def is_valid_def)
  have h4: "cp_type (lib_ports global_port_library ! 0) \<noteq> SPICE_MODEL_PORT_CLOCK
      \<or> cp_is_prog (lib_ports global_port_library ! 0)"
    by (simp add: verilog_example_defs)
  have w: "get_width reset_pin_port = 4"
    by (simp add: verilog_example_defs get_width_def is_valid_def)
  have t: "cp_type (lib_ports global_port_library ! 0) = SPICE_MODEL_PORT_INPUT"
    and v: "cp_default_value (lib_ports global_port_library ! 0) = 1"
    by (simp_all add: verilog_example_defs)
  have la: "list_all (\<lambda>i. i < length (lib_ports global_port_library)) [0, 1]"
    by (simp add: verilog_example_defs)
  have vals: "replicate (get_width reset_pin_port) (cp_default_value (lib_ports global_port_library ! 0))
      = [1, 1, 1, 1]"
    unfolding w v by (simp add: numeral_eq_Suc)
  from other_global_port_default_value [OF h1 h2 h3 h4, of sample_names "[''clk_a'', ''clk_b'']"]
  have "connect_global_port sample_names global_port_library [0, 1] [''clk_a'', ''clk_b''] reset_pin_port
       = Returns () [Wire_Constant_Values reset_pin_port [1, 1, 1, 1]]"
    unfolding vals .
  with la h2 h3 w t v show ?thesis
    by blast
qed

section \<open>Operating clocks wired to the benchmark clocks\<close>

text \<open>
  Claim C4. For a global port of the top module whose matched circuit port (the first of
  \<open>global_ports\<close> with its name, of the same width) has type CLOCK and is not a
  programming port, the binder makes exactly \<open>W * N\<close> wire connections, one for every
  pin of the port and every benchmark clock name, in that order; each connects the
  1-bit port of that pin to the 1-bit benchmark port named by the clock name and the
  port postfix. \<open>W\<close> is the width of the port and \<open>N\<close> the number of clock names; a
  clock port of width 1 with two clock names gives two connections from its one pin.
\<close>

theorem clock_port_fan_out:
  assumes "\<forall>i \<in> set global_ports. i < length (lib_ports lib)"
    and "find (\<lambda>i. cp_lib_name (lib_ports lib ! i) = get_name p) global_ports = Some pid"
    and "get_width p = cp_size (lib_ports lib ! pid)"
    and "cp_type (lib_ports lib ! pid) = SPICE_MODEL_PORT_CLOCK"
    and "\<not> cp_is_prog (lib_ports lib ! pid)"
    and "is_valid p"
  shows "\<exists>out. connect_global_port g lib global_ports clocks p = Returns () out
         \<and> out = concat (map (\<lambda>pin. map (\<lambda>clk.
              Wire_Connection \<lparr>bp_name = get_name p, bp_lsb = pin, bp_msb = pin\<rparr>
                \<lparr>bp_name = clk @ formal_verification_top_module_port_postfix g, bp_lsb = 0, bp_msb = 0\<rparr>
                False) clocks)
              [bp_lsb p..<bp_msb p + 1])
         \<and> length out = get_width p * length clocks"
  using assms(4-6)
  by (simp add: connect_global_port_linked [OF assms(1-3)] wire_to_benchmark_clocks_eq
      length_concat_map_const get_width_def is_valid_def)

theorem clock_port_fan_out_witness:
  "list_all (\<lambda>i. i < length (lib_ports global_port_library)) [0, 1]
   \<and> find (\<lambda>i. cp_lib_name (lib_ports global_port_library ! i) = get_name clk_pin_port) [0, 1] = Some 1
   \<and> get_width clk_pin_port = cp_size (lib_ports global_port_library ! 1)
   \<and> get_width clk_pin_port = 1
   \<and> cp_type (lib_ports global_port_library ! 1) = SPICE_MODEL_PORT_CLOCK
   \<and> cp_is_prog (lib_ports global_port_library ! 1) = False
   \<and> is_valid clk_pin_port
   \<and> connect_global_port sample_names global_port_library [0, 1] [''clk_a'', ''clk_b''] clk_pin_port
       = Returns ()
           [Wire_Connection \<lparr>bp_name = ''clk'', bp_lsb = 0, bp_msb = 0\<rparr>
              \<lparr>bp_name = ''clk_a_fm'', bp_lsb = 0, bp_msb = 0\<rparr> False,
            Wire_Connection \<lparr>bp_name = ''clk'', bp_lsb = 0, bp_msb = 0\<rparr>
              \<lparr>bp_name = ''clk_b_fm'', bp_lsb = 0, bp_msb = 0\<rparr> False]
   \<and> print_verilog_preconfig_top_module_connect_global_ports sample_names True [clocked_top_module] 0
         global_port_library [0, 1] [''clk_a'', ''clk_b'']
       = Returns ()
           [Verilog_Comment ''----- Begin Connect Global ports of FPGA top module -----'',
            Wire_Constant_Values \<lparr>bp_name = ''reset'', bp_lsb = 0, bp_msb = 3\<rparr> [1, 1, 1, 1],
            Wire_Connection \<lparr>bp_name = ''clk'', bp_lsb = 0, bp_msb = 0\<rparr>
              \<lparr>bp_name = ''clk_a_fm'', bp_lsb = 0, bp_msb = 0\<rparr> False,
            Wire_Connection \<lparr>bp_name = ''clk'', bp_lsb = 0, bp_msb = 0\<rparr>
              \<lparr>bp_name = ''clk_b_fm'', bp_lsb = 0, bp_msb = 0\<rparr> False,
            Verilog_Comment ''----- End Connect Global ports of FPGA top module -----'',
            Endl]"
proof -
  have whole: "print_verilog_preconfig_top_module_connect_global_ports sample_names True
         [clocked_top_module] 0 global_port_library [0, 1] [''clk_a'', ''clk_b'']
       = Returns ()
           [Verilog_Comment ''----- Begin Connect Global ports of FPGA top module -----'',
            Wire_Constant_Values \<lparr>bp_name = ''reset'', bp_lsb = 0, bp_msb = 3\<rparr> [1, 1, 1, 1],
            Wire_Connection \<lparr>bp_name = ''clk'', bp_lsb = 0, bp_msb = 0\<rparr>
              \<lparr>bp_name = ''clk_a_fm'', bp_lsb = 0, bp_msb = 0\<rparr> False,
            Wire_Connection \<lparr>bp_name = ''clk'', bp_lsb = 0, bp_msb = 0\<rparr>
              \<lparr>bp_name = ''clk_b_fm'', bp_lsb = 0, bp_msb = 0\<rparr> False,
            Verilog_Comment ''----- End Connect Global ports of FPGA top module -----'',
            Endl]"
    by (simp add: verilog_defs verilog_example_defs numeral_eq_Suc)
  have h1: "\<forall>i \<in> set [0, 1]. i < length (lib_ports global_port_library)"
    by (simp add: verilog_example_defs)
  have h2: "find (\<lambda>i. cp_lib_name (lib_ports global_port_library ! i) = get_name clk_pin_port) [0, 1]
      = Some 1"
    by (simp add: verilog_example_defs get_name_def)
  have h3: "get_width clk_pin_port = cp_size (lib_ports global_port_library ! 1)"
    by (simp add: verilog_example_defs get_width_def is_valid_def)
  have h4: "cp_type (lib_ports global_port_library ! 1) = SPICE_MODEL_PORT_CLOCK"
    by (simp add: verilog_example_defs)
  have h5: "\<not> cp_is_prog (lib_ports global_port_library ! 1)"
    by (simp add: verilog_example_defs)
  have h6: "is_valid clk_pin_port"
    by (simp add: verilog_example_defs is_valid_def)
  have w: "get_width clk_pin_port = 1"
    by (simp add: verilog_example_defs get_width_def is_valid_def)
  have l: "bp_lsb clk_pin_port = 0" "bp_msb clk_pin_port = 0" "get_name clk_pin_port = ''clk''"
    "formal_verification_top_module_port_postfix sample_names = ''_fm''"
    by (simp_all add: verilog_example_defs get_name_def)
  from clock_port_fan_out [OF h1 h2 h3 h4 h5 h6, of sample_names "[''clk_a'', ''clk_b'']"]
    h1 h2 h3 h4 h5 h6 w l
  have "list_all (\<lambda>i. i < length (lib_ports global_port_library)) [0, 1]
   \<and> find (\<lambda>i. cp_lib_name (lib_ports global_port_library ! i) = get_name clk_pin_port) [0, 1] = Some 1
   \<and> get_width clk_pin_port = cp_size (lib_ports global_port_library ! 1)
   \<and> get_width clk_pin_port = 1
   \<and> cp_type (lib_ports global_port_library ! 1) = SPICE_MODEL_PORT_CLOCK
   \<and> cp_is_prog (lib_ports global_port_library ! 1) = False
   \<and> is_valid clk_pin_port
   \<and> connect_global_port sample_names global_port_library [0, 1] [''clk_a'', ''clk_b''] clk_pin_port
       = Returns ()
           [Wire_Connection \<lparr>bp_name = ''clk'', bp_lsb = 0, bp_msb = 0\<rparr>
              \<lparr>bp_name = ''clk_a_fm'', bp_lsb = 0, bp_msb = 0\<rparr> False,
            Wire_Connection \<lparr>bp_name = ''clk'', bp_lsb = 0, bp_msb = 0\<rparr>
              \<lparr>bp_name = ''clk_b_fm'', bp_lsb = 0, bp_msb = 0\<rparr> False]"
    by auto
  with whole show ?thesis
    by blast
qed

section \<open>The path of a configuration bit\<close>

text \<open>
  Claim C5. Let the owner of a configuration bit have the ancestor chain \<open>root # mids\<close>,
  root first and owner last, and let the root block have the name of the top module
  (the asserted precondition). Then the bit is loaded, by one constant assignment of its
  stored value, to the 1-bit port at the bit's index within its owner whose name is the
  instance name (in place of the root), then a separator and the block name for every
  block of \<open>mids\<close>, then a separator and the configuration-chain data-out name. For a
  bit that the root owns (\<open>mids = []\<close>) the name is the instance name, a separator and
  the data-out name. Only the blocks of the chain enter the name.
\<close>

theorem config_bit_path:
  assumes "config_bit_id < length (bm_bits bm)"
    and "cbit_parent_block (bm_bits bm ! config_bit_id) = Some (last (root # mids))"
    and "chain_to_root bm (rev (root # mids))"
    and "top_module < length module_manager"
    and "mod_name (module_manager ! top_module) = blk_name (bm_blocks bm ! root)"
  shows "load_config_bit g module_manager top_module bm config_bit_id =
     Returns ()
       [Wire_Constant_Values
          \<lparr>bp_name = formal_verification_top_module_uut_name g
                      @ concat (map (\<lambda>b. ''.'' @ blk_name (bm_blocks bm ! b)) mids)
                      @ ''.'' @ generate_configuration_chain_data_out_name g,
           bp_lsb = cbit_index_in_parent_block (bm_bits bm ! config_bit_id),
           bp_msb = cbit_index_in_parent_block (bm_bits bm ! config_bit_id)\<rparr>
          [if cbit_value (bm_bits bm ! config_bit_id) then 1 else 0]]"
  by (rule load_config_bit_eq [OF assms])

theorem config_bit_path_witness:
  "chain_to_root sample_bitstream (rev (0 # [1, 2]))
   \<and> cbit_parent_block (bm_bits sample_bitstream ! 0) = Some (last (0 # [1, 2]))
   \<and> load_config_bit sample_names [sample_top_module] 0 sample_bitstream 0
       = Returns ()
           [Wire_Constant_Values
              \<lparr>bp_name = ''U0_formal_verification.grid_clb.lut4.ccff_tail'', bp_lsb = 0, bp_msb = 0\<rparr> [1]]
   \<and> chain_to_root sample_bitstream (rev (0 # []))
   \<and> cbit_parent_block (bm_bits sample_bitstream ! 1) = Some (last (0 # []))
   \<and> load_config_bit sample_names [sample_top_module] 0 sample_bitstream 1
       = Returns ()
           [Wire_Constant_Values
              \<lparr>bp_name = ''U0_formal_verification.ccff_tail'', bp_lsb = 3, bp_msb = 3\<rparr> [0]]"
proof -
  have top: "0 < length [sample_top_module]"
    "mod_name ([sample_top_module] ! 0) = blk_name (bm_blocks sample_bitstream ! 0)"
    by (simp_all add: bitstream_example_defs)
  have a1: "0 < length (bm_bits sample_bitstream)"
    and a2: "cbit_parent_block (bm_bits sample_bitstream ! 0) = Some (last (0 # [1, 2]))"
    and a3: "chain_to_root sample_bitstream (rev (0 # [1, 2]))"
    by (simp_all add: bitstream_example_defs valid_block_id_def)
  have b1: "1 < length (bm_bits sample_bitstream)"
    and b2: "cbit_parent_block (bm_bits sample_bitstream ! 1) = Some (last (0 # []))"
    and b3: "chain_to_root sample_bitstream (rev (0 # []))"
    by (simp_all add: bitstream_example_defs valid_block_id_def)
  have "load_config_bit sample_names [sample_top_module] 0 sample_bitstream 0
       = Returns ()
           [Wire_Constant_Values
              \<lparr>bp_name = ''U0_formal_verification.grid_clb.lut4.ccff_tail'', bp_lsb = 0, bp_msb = 0\<rparr> [1]]"
    using config_bit_path [OF a1 a2 a3 top, of sample_names]
    by (simp add: bitstream_example_defs)
  moreover have "load_config_bit sample_names [sample_top_module] 0 sample_bitstream 1
       = Returns ()
           [Wire_Constant_Values
              \<lparr>bp_name = ''U0_formal_verification.ccff_tail'', bp_lsb = 3, bp_msb = 3\<rparr> [0]]"
    using config_bit_path [OF b1 b2 b3 top, of sample_names]
    by (simp add: bitstream_example_defs)
  ultimately show ?thesis
    using a2 a3 b2 b3 by blast
qed

section \<open>The order of the bitstream\<close>

text \<open>
  Claim C6. When every configuration bit of the supplied sequence can be loaded (its
  loop body returns, with one constant assignment), the load step returns and writes,
  between its two comments, exactly these assignments in the order of the sequence: as
  many as there are bits, the \<open>i\<close>-th one being the assignment of the \<open>i\<close>-th bit,
  whatever blocks own the bits.
\<close>

theorem bitstream_order_preserved:
  assumes "list_all2 (\<lambda>config_bit_id e.
             load_config_bit g module_manager top_module bm config_bit_id = Returns () [e])
           fabric_bitstream es"
  shows "print_verilog_preconfig_top_module_load_bitstream g module_manager top_module bm fabric_bitstream
     = Returns ()
         (Verilog_Comment ''----- Begin load bitstream to configuration memories -----''
          # es @ [Verilog_Comment ''----- End load bitstream to configuration memories -----''])
     \<and> length es = length fabric_bitstream
     \<and> (\<forall>i < length fabric_bitstream.
           load_config_bit g module_manager top_module bm (fabric_bitstream ! i) = Returns () [es ! i])"
  using assms
  by (simp add: print_verilog_preconfig_top_module_load_bitstream_def foreach_list_all2 [OF assms]
      print_verilog_comment_def emit_def list_all2_conv_all_nth)

theorem bitstream_order_preserved_witness:
  "print_verilog_preconfig_top_module_load_bitstream sample_names [sample_top_module] 0
       sample_bitstream [2, 0, 3, 1]
     = Returns ()
         [Verilog_Comment ''----- Begin load bitstream to configuration memories -----'',
          Wire_Constant_Values
            \<lparr>bp_name = ''U0_formal_verification.sb_0.ccff_tail'', bp_lsb = 1, bp_msb = 1\<rparr> [1],
          Wire_Constant_Values
            \<lparr>bp_name = ''U0_formal_verification.grid_clb.lut4.ccff_tail'', bp_lsb = 0, bp_msb = 0\<rparr> [1],
          Wire_Constant_Values
            \<lparr>bp_name = ''U0_formal_verification.grid_clb.lut4.ccff_tail'', bp_lsb = 1, bp_msb = 1\<rparr> [0],
          Wire_Constant_Values
            \<lparr>bp_name = ''U0_formal_verification.ccff_tail'', bp_lsb = 3, bp_msb = 3\<rparr> [0],
          Verilog_Comment ''----- End load bitstream to configuration memories -----'']"
proof -
  have top: "0 < length [sample_top_module]"
    "mod_name ([sample_top_module] ! 0) = blk_name (bm_blocks sample_bitstream ! 0)"
    by (simp_all add: bitstream_example_defs)
  have e2: "load_config_bit sample_names [sample_top_module] 0 sample_bitstream 2
       = Returns () [Wire_Constant_Values
            \<lparr>bp_name = ''U0_formal_verification.sb_0.ccff_tail'', bp_lsb = 1, bp_msb = 1\<rparr> [1]]"
    using load_config_bit_eq [of 2 sample_bitstream 0 "[3]" 0 "[sample_top_module]" sample_names]
    by (simp add: bitstream_example_defs valid_block_id_def)
  have e0: "load_config_bit sample_names [sample_top_module] 0 sample_bitstream 0
       = Returns () [Wire_Constant_Values
            \<lparr>bp_name = ''U0_formal_verification.grid_clb.lut4.ccff_tail'', bp_lsb = 0, bp_msb = 0\<rparr> [1]]"
    using load_config_bit_eq [of 0 sample_bitstream 0 "[1, 2]" 0 "[sample_top_module]" sample_names]
    by (simp add: bitstream_example_defs valid_block_id_def)
  have e3: "load_config_bit sample_names [sample_top_module] 0 sample_bitstream 3
       = Returns () [Wire_Constant_Values
            \<lparr>bp_name = ''U0_formal_verification.grid_clb.lut4.ccff_tail'', bp_lsb = 1, bp_msb = 1\<rparr> [0]]"
    using load_config_bit_eq [of 3 sample_bitstream 0 "[1, 2]" 0 "[sample_top_module]" sample_names]
    by (simp add: bitstream_example_defs valid_block_id_def)
  have e1: "load_config_bit sample_names [sample_top_module] 0 sample_bitstream 1
       = Returns () [Wire_Constant_Values
            \<lparr>bp_name = ''U0_formal_verification.ccff_tail'', bp_lsb = 3, bp_msb = 3\<rparr> [0]]"
    using load_config_bit_eq [of 1 sample_bitstream 0 "[]" 0 "[sample_top_module]" sample_names]
    by (simp add: bitstream_example_defs valid_block_id_def)
  have "list_all2 (\<lambda>config_bit_id e.
             load_config_bit sample_names [sample_top_module] 0 sample_bitstream config_bit_id
               = Returns () [e])
          [2, 0, 3, 1]
          [Wire_Constant_Values
            \<lparr>bp_name = ''U0_formal_verification.sb_0.ccff_tail'', bp_lsb = 1, bp_msb = 1\<rparr> [1],
           Wire_Constant_Values
            \<lparr>bp_name = ''U0_formal_verification.grid_clb.lut4.ccff_tail'', bp_lsb = 0, bp_msb = 0\<rparr> [1],
           Wire_Constant_Values
            \<lparr>bp_name = ''U0_formal_verification.grid_clb.lut4.ccff_tail'', bp_lsb = 1, bp_msb = 1\<rparr> [0],
           Wire_Constant_Values
            \<lparr>bp_name = ''U0_formal_verification.ccff_tail'', bp_lsb = 3, bp_msb = 3\<rparr> [0]]"
    using e2 e0 e3 e1 by simp
  from bitstream_order_preserved [OF this] show ?thesis
    by simp
qed

section \<open>Benchmark I/Os and unused pads\<close>

text \<open>
  Claim C7 ends with: every pad bit receives exactly one emission, given that the top
  module has one datapath-I/O port and every resolved pad index is below its width. The
  code makes one wire connection for every INPAD or OUTPAD block and does not check
  that the pad is still unused: with two blocks that resolve to pad 0 of a 2-bit pad
  port, both preconditions hold and pad bit 0 receives two wire connections.
\<close>

theorem shared_pad_two_connections:
  "map snd (filter (\<lambda>tp. fst tp = MODULE_GPIO_PORT) (mod_ports ([two_pad_top_module] ! 0)))
     = [\<lparr>bp_name = ''gfpga_pad'', bp_lsb = 0, bp_msb = 1\<rparr>]
   \<and> get_width \<lparr>bp_name = ''gfpga_pad'', bp_lsb = 0, bp_msb = 1\<rparr> = 2
   \<and> is_io_block block_in_a \<and> is_io_block block_out_b
   \<and> print_verilog_preconfig_top_module_connect_ios sample_names True [two_pad_top_module] 0
        [block_in_a, block_out_b] (\<lambda>lb. 0)
       = Returns ()
           [Verilog_Comment ''----- Link BLIF Benchmark I/Os to FPGA I/Os -----'',
            Verilog_Comment ''----- Blif Benchmark inout a is mapped to FPGA IOPAD gfpga_pad[0] -----'',
            Wire_Connection \<lparr>bp_name = ''gfpga_pad'', bp_lsb = 0, bp_msb = 0\<rparr>
              \<lparr>bp_name = ''a_fm'', bp_lsb = 0, bp_msb = 0\<rparr> False,
            Verilog_Comment ''----- Blif Benchmark inout b is mapped to FPGA IOPAD gfpga_pad[0] -----'',
            Wire_Connection \<lparr>bp_name = ''gfpga_pad'', bp_lsb = 0, bp_msb = 0\<rparr>
              \<lparr>bp_name = ''b_fm'', bp_lsb = 0, bp_msb = 0\<rparr> False,
            Endl,
            Verilog_Comment ''----- Wire unused FPGA I/Os to constants -----'',
            Wire_Constant_Values \<lparr>bp_name = ''gfpga_pad'', bp_lsb = 1, bp_msb = 1\<rparr> [0],
            Endl]"
  by (simp add: verilog_defs io_example_defs is_io_block_def to_string.simps upt_conv_Cons)

text \<open>
  Claim C7, amended. When the top module has exactly one datapath-I/O port and every
  INPAD or OUTPAD block resolves to a pad index below its width, the binder returns and
  writes, in this order: for every such block, in the order of the block list, a
  comment and one 1-bit wire connection of its pad bit; then, for every pad bit to
  which no block resolves, in increasing order, one 1-bit constant assignment of the
  unused-tie value. So a pad bit receives one wire connection per block that resolves
  to it and one tie-off exactly when there is none; when the resolved pad indices are
  pairwise distinct, every pad bit receives exactly one emission. For width 8 and two
  blocks at pads 2 and 5: two wire connections and six tie-offs, for the bits
  0, 1, 3, 4, 6, 7.
\<close>

theorem pad_bit_emissions:
  assumes "fp_ok" and "top_module < length module_manager"
    and "map snd (filter (\<lambda>tp. fst tp = MODULE_GPIO_PORT) (mod_ports (module_manager ! top_module))) = [p]"
    and "\<forall>lb \<in> set lbs. is_io_block lb \<longrightarrow> find_io_index lb < get_width p"
  shows "\<exists>out.
      print_verilog_preconfig_top_module_connect_ios g fp_ok module_manager top_module lbs find_io_index
        = Returns () out
    \<and> out = [Verilog_Comment ''----- Link BLIF Benchmark I/Os to FPGA I/Os -----'']
        @ concat (map (link_emissions g p find_io_index) (filter is_io_block lbs))
        @ [Endl, Verilog_Comment ''----- Wire unused FPGA I/Os to constants -----'']
        @ map (\<lambda>i. Wire_Constant_Values (set_width p i i) [verilog_default_signal_init_value g])
            (filter (\<lambda>i. i \<notin> find_io_index ` set (filter is_io_block lbs)) [0..<get_width p])
        @ [Endl]
    \<and> (\<forall>b < get_width p.
          length (filter (\<lambda>e. is_wire_connection e \<and> drives (set_width p b b) e) out)
            = count_list (map find_io_index (filter is_io_block lbs)) b
        \<and> length (filter (\<lambda>e. is_constant_assignment e \<and> drives (set_width p b b) e) out)
            = (if b \<in> find_io_index ` set (filter is_io_block lbs) then 0 else 1))
    \<and> (distinct (map find_io_index (filter is_io_block lbs)) \<longrightarrow>
          (\<forall>b < get_width p.
             length (filter (\<lambda>e. is_wire_connection e \<and> drives (set_width p b b) e) out)
             + length (filter (\<lambda>e. is_constant_assignment e \<and> drives (set_width p b b) e) out) = 1))"
proof -
  let ?ios = "filter is_io_block lbs"
  define out where "out = [Verilog_Comment ''----- Link BLIF Benchmark I/Os to FPGA I/Os -----'']
        @ concat (map (link_emissions g p find_io_index) ?ios)
        @ [Endl, Verilog_Comment ''----- Wire unused FPGA I/Os to constants -----'']
        @ map (\<lambda>i. Wire_Constant_Values (set_width p i i) [verilog_default_signal_init_value g])
            (filter (\<lambda>i. i \<notin> find_io_index ` set ?ios) [0..<get_width p])
        @ [Endl]"
  have run: "print_verilog_preconfig_top_module_connect_ios g fp_ok module_manager top_module lbs find_io_index
        = Returns () out"
    unfolding out_def by (rule connect_ios_eq [OF assms])
  have wires: "length (filter (\<lambda>e. is_wire_connection e \<and> drives (set_width p b b) e) out)
            = count_list (map find_io_index ?ios) b" for b
    unfolding out_def
    by (simp add: wires_of_links wires_of_ties del: filter_concat filter_map filter_filter)
  have ties: "length (filter (\<lambda>e. is_constant_assignment e \<and> drives (set_width p b b) e) out)
            = (if b \<in> find_io_index ` set ?ios then 0 else 1)" if "b < get_width p" for b
  proof -
    have "filter (\<lambda>e. is_constant_assignment e \<and> drives (set_width p b b) e) out
        = filter (\<lambda>e. is_constant_assignment e \<and> drives (set_width p b b) e)
            (map (\<lambda>i. Wire_Constant_Values (set_width p i i) [verilog_default_signal_init_value g])
               (filter (\<lambda>i. i \<notin> find_io_index ` set ?ios) [0..<get_width p]))"
      unfolding out_def
      by (simp add: constants_of_links del: filter_concat filter_map filter_filter)
    then show ?thesis
      by (simp only: constants_of_ties) (use that in simp)
  qed
  have one: "length (filter (\<lambda>e. is_wire_connection e \<and> drives (set_width p b b) e) out)
             + length (filter (\<lambda>e. is_constant_assignment e \<and> drives (set_width p b b) e) out) = 1"
    if "distinct (map find_io_index ?ios)" "b < get_width p" for b
    unfolding wires ties [OF that(2)] count_list_distinct [OF that(1)] by simp
  show ?thesis
    by (rule exI [of _ out]) (use run out_def wires ties one in blast)
qed

theorem pad_bit_emissions_witness:
  "map snd (filter (\<lambda>tp. fst tp = MODULE_GPIO_PORT) (mod_ports ([sample_top_module] ! 0)))
     = [gpio_pin_port]
   \<and> get_width gpio_pin_port = 8
   \<and> list_all (\<lambda>lb. find_io_index_2_5 lb < get_width gpio_pin_port)
        (filter is_io_block [block_in_a, block_n1, block_out_b])
   \<and> map find_io_index_2_5 (filter is_io_block [block_in_a, block_n1, block_out_b]) = [2, 5]
   \<and> print_verilog_preconfig_top_module_connect_ios sample_names True [sample_top_module] 0
        [block_in_a, block_n1, block_out_b] find_io_index_2_5
       = Returns ()
           [Verilog_Comment ''----- Link BLIF Benchmark I/Os to FPGA I/Os -----'',
            Verilog_Comment ''----- Blif Benchmark inout a is mapped to FPGA IOPAD gfpga_pad[2] -----'',
            Wire_Connection \<lparr>bp_name = ''gfpga_pad'', bp_lsb = 2, bp_msb = 2\<rparr>
              \<lparr>bp_name = ''a_fm'', bp_lsb = 0, bp_msb = 0\<rparr> False,
            Verilog_Comment ''----- Blif Benchmark inout b is mapped to FPGA IOPAD gfpga_pad[5] -----'',
            Wire_Connection \<lparr>bp_name = ''gfpga_pad'', bp_lsb = 5, bp_msb = 5\<rparr>
              \<lparr>bp_name = ''b_fm'', bp_lsb = 0, bp_msb = 0\<rparr> False,
            Endl,
            Verilog_Comment ''----- Wire unused FPGA I/Os to constants -----'',
            Wire_Constant_Values \<lparr>bp_name = ''gfpga_pad'', bp_lsb = 0, bp_msb = 0\<rparr> [0],
            Wire_Constant_Values \<lparr>bp_name = ''gfpga_pad'', bp_lsb = 1, bp_msb = 1\<rparr> [0],
            Wire_Constant_Values \<lparr>bp_name = ''gfpga_pad'', bp_lsb = 3, bp_msb = 3\<rparr> [0],
            Wire_Constant_Values \<lparr>bp_name = ''gfpga_pad'', bp_lsb = 4, bp_msb = 4\<rparr> [0],
            Wire_Constant_Values \<lparr>bp_name = ''gfpga_pad'', bp_lsb = 6, bp_msb = 6\<rparr> [0],
            Wire_Constant_Values \<lparr>bp_name = ''gfpga_pad'', bp_lsb = 7, bp_msb = 7\<rparr> [0],
            Endl]"
proof -
  have h2: "0 < length [sample_top_module]" by simp
  have h3: "map snd (filter (\<lambda>tp. fst tp = MODULE_GPIO_PORT) (mod_ports ([sample_top_module] ! 0)))
      = [gpio_pin_port]"
    by (simp add: io_example_defs)
  have w: "get_width gpio_pin_port = 8"
    by (simp add: io_example_defs get_width_def is_valid_def)
  have ios: "filter is_io_block [block_in_a, block_n1, block_out_b] = [block_in_a, block_out_b]"
    by (simp add: io_example_defs is_io_block_def)
  have idx: "find_io_index_2_5 block_in_a = 2" "find_io_index_2_5 block_out_b = 5"
    by (simp_all add: find_io_index_2_5_def io_example_defs)
  have h4: "\<forall>lb \<in> set [block_in_a, block_n1, block_out_b].
      is_io_block lb \<longrightarrow> find_io_index_2_5 lb < get_width gpio_pin_port"
    by (simp add: w idx) (simp add: io_example_defs is_io_block_def)
  have unused: "filter (\<lambda>i. i \<notin> find_io_index_2_5 ` set [block_in_a, block_out_b]) [0..<8]
      = [0, 1, 3, 4, 6, 7]"
    by (simp add: idx upt_conv_Cons)
  from pad_bit_emissions [OF TrueI h2 h3 h4, of sample_names]
  have "print_verilog_preconfig_top_module_connect_ios sample_names True [sample_top_module] 0
        [block_in_a, block_n1, block_out_b] find_io_index_2_5
      = Returns ()
         ([Verilog_Comment ''----- Link BLIF Benchmark I/Os to FPGA I/Os -----'']
          @ concat (map (link_emissions sample_names gpio_pin_port find_io_index_2_5)
                      [block_in_a, block_out_b])
          @ [Endl, Verilog_Comment ''----- Wire unused FPGA I/Os to constants -----'']
          @ map (\<lambda>i. Wire_Constant_Values (set_width gpio_pin_port i i)
                        [verilog_default_signal_init_value sample_names])
              [0, 1, 3, 4, 6, 7]
          @ [Endl])"
    unfolding ios w unused by blast
  moreover have "[Verilog_Comment ''----- Link BLIF Benchmark I/Os to FPGA I/Os -----'']
          @ concat (map (link_emissions sample_names gpio_pin_port find_io_index_2_5)
                      [block_in_a, block_out_b])
          @ [Endl, Verilog_Comment ''----- Wire unused FPGA I/Os to constants -----'']
          @ map (\<lambda>i. Wire_Constant_Values (set_width gpio_pin_port i i)
                        [verilog_default_signal_init_value sample_names])
              [0, 1, 3, 4, 6, 7]
          @ [Endl]
      = [Verilog_Comment ''----- Link BLIF Benchmark I/Os to FPGA I/Os -----'',
            Verilog_Comment ''----- Blif Benchmark inout a is mapped to FPGA IOPAD gfpga_pad[2] -----'',
            Wire_Connection \<lparr>bp_name = ''gfpga_pad'', bp_lsb = 2, bp_msb = 2\<rparr>
              \<lparr>bp_name = ''a_fm'', bp_lsb = 0, bp_msb = 0\<rparr> False,
            Verilog_Comment ''----- Blif Benchmark inout b is mapped to FPGA IOPAD gfpga_pad[5] -----'',
            Wire_Connection \<lparr>bp_name = ''gfpga_pad'', bp_lsb = 5, bp_msb = 5\<rparr>
              \<lparr>bp_name = ''b_fm'', bp_lsb = 0, bp_msb = 0\<rparr> False,
            Endl,
            Verilog_Comment ''----- Wire unused FPGA I/Os to constants -----'',
            Wire_Constant_Values \<lparr>bp_name = ''gfpga_pad'', bp_lsb = 0, bp_msb = 0\<rparr> [0],
            Wire_Constant_Values \<lparr>bp_name = ''gfpga_pad'', bp_lsb = 1, bp_msb = 1\<rparr> [0],
            Wire_Constant_Values \<lparr>bp_name = ''gfpga_pad'', bp_lsb = 3, bp_msb = 3\<rparr> [0],
            Wire_Constant_Values \<lparr>bp_name = ''gfpga_pad'', bp_lsb = 4, bp_msb = 4\<rparr> [0],
            Wire_Constant_Values \<lparr>bp_name = ''gfpga_pad'', bp_lsb = 6, bp_msb = 6\<rparr> [0],
            Wire_Constant_Values \<lparr>bp_name = ''gfpga_pad'', bp_lsb = 7, bp_msb = 7\<rparr> [0],
            Endl]"
    by (simp add: link_emissions_def find_io_index_2_5_def to_string.simps get_name_def
        set_width_def BasicPort_width_def io_example_defs)
  ultimately have "print_verilog_preconfig_top_module_connect_ios sample_names True [sample_top_module] 0
        [block_in_a, block_n1, block_out_b] find_io_index_2_5
       = Returns ()
           [Verilog_Comment ''----- Link BLIF Benchmark I/Os to FPGA I/Os -----'',
            Verilog_Comment ''----- Blif Benchmark inout a is mapped to FPGA IOPAD gfpga_pad[2] -----'',
            Wire_Connection \<lparr>bp_name = ''gfpga_pad'', bp_lsb = 2, bp_msb = 2\<rparr>
              \<lparr>bp_name = ''a_fm'', bp_lsb = 0, bp_msb = 0\<rparr> False,
            Verilog_Comment ''----- Blif Benchmark inout b is mapped to FPGA IOPAD gfpga_pad[5] -----'',
            Wire_Connection \<lparr>bp_name = ''gfpga_pad'', bp_lsb = 5, bp_msb = 5\<rparr>
              \<lparr>bp_name = ''b_fm'', bp_lsb = 0, bp_msb = 0\<rparr> False,
            Endl,
            Verilog_Comment ''----- Wire unused FPGA I/Os to constants -----'',
            Wire_Constant_Values \<lparr>bp_name = ''gfpga_pad'', bp_lsb = 0, bp_msb = 0\<rparr> [0],
            Wire_Constant_Values \<lparr>bp_name = ''gfpga_pad'', bp_lsb = 1, bp_msb = 1\<rparr> [0],
            Wire_Constant_Values \<lparr>bp_name = ''gfpga_pad'', bp_lsb = 3, bp_msb = 3\<rparr> [0],
            Wire_Constant_Values \<lparr>bp_name = ''gfpga_pad'', bp_lsb = 4, bp_msb = 4\<rparr> [0],
            Wire_Constant_Values \<lparr>bp_name = ''gfpga_pad'', bp_lsb = 6, bp_msb = 6\<rparr> [0],
            Wire_Constant_Values \<lparr>bp_name = ''gfpga_pad'', bp_lsb = 7, bp_msb = 7\<rparr> [0],
            Endl]"
    by (rule trans [OF _ arg_cong [where f = "Returns ()"]])
  moreover have "list_all (\<lambda>lb. find_io_index_2_5 lb < get_width gpio_pin_port)
        (filter is_io_block [block_in_a, block_n1, block_out_b])"
    unfolding ios by (simp add: w idx)
  moreover have "map find_io_index_2_5 (filter is_io_block [block_in_a, block_n1, block_out_b]) = [2, 5]"
    unfolding ios by (simp add: idx)
  ultimately show ?thesis
    using h3 w by blast
qed

section \<open>The output port of an SRAM model\<close>

text \<open>
  Claim C8 states that the validate pass counts at least one error for every SRAM model
  that does not expose exactly one OUTPUT port of width 2. \<^verbatim>\<open>check_circuit_library\<close> never
  calls \<^verbatim>\<open>check_sram_circuit_model_ports\<close>: for SRAM models it only requires one INPUT and
  one OUTPUT port of any width (its check 6). The sample catalog, whose SRAM model has a
  single OUTPUT port of width 1, passes with zero errors.
\<close>

theorem sram_output_width_not_validated:
  "cm_type (lib_models sample_library ! 2) = SPICE_MODEL_SRAM
   \<and> map (\<lambda>p. cp_size (lib_ports sample_library ! p))
         (model_ports_by_type sample_library 2 SPICE_MODEL_PORT_OUTPUT False) = [1]
   \<and> check_circuit_library sample_library = Returns () [Info_Checking, Info_Finished 0]"
proof -
  have small: "num_models sample_library < SIZE_T_RANGE"
    by (simp add: num_models_def example_defs SIZE_T_RANGE_def)
  have names: "check_circuit_library_unique_names sample_library = Returns 0 []"
    by (subst check_circuit_library_unique_names_eq [OF small])
       (simp add: equal_pairs_def equal_pairs_from_def model_names_def example_defs upt_conv_Cons)
  have prefix: "check_circuit_library_unique_prefix sample_library = Returns 0 []"
    by (subst check_circuit_library_unique_prefix_eq [OF small])
       (simp add: equal_pairs_def equal_pairs_from_def model_prefixes_def example_defs upt_conv_Cons)
  have "check_circuit_library sample_library = Returns () [Info_Checking, Info_Finished 0]"
    unfolding check_circuit_library_def accumulated_checks_def names prefix
    by (simp add: checker_defs example_defs upt_conv_Cons)
  moreover have "cm_type (lib_models sample_library ! 2) = SPICE_MODEL_SRAM"
    by (simp add: example_defs)
  moreover have "map (\<lambda>p. cp_size (lib_ports sample_library ! p))
         (model_ports_by_type sample_library 2 SPICE_MODEL_PORT_OUTPUT False) = [1]"
    by (simp add: model_ports_by_type_def ports_def example_defs upt_conv_Cons)
  ultimately show ?thesis by simp
qed

text \<open>
  Claim C8, amended. The validate pass does not run \<^verbatim>\<open>check_sram_circuit_model_ports\<close>:
  checks 1 to 9 of \<^verbatim>\<open>check_circuit_library\<close> return the number of the messages they
  write, none of these messages is about the number of ports of a type or the width of
  a port, and those about the ports of SRAM models are one for each SRAM model and each
  of the port types INPUT and OUTPUT of which the model has no port; the pass writes
  these messages after its opening line, and returns only when there is none and every
  default model is registered. The check \<^verbatim>\<open>check_sram_circuit_model_ports\<close> itself, for an
  SRAM model with at most one non-global OUTPUT port (and, when the BL/WL part is
  requested, at most one non-global BL port and at most one non-global WL port),
  returns and counts one error per message; it counts at least one error when the model
  does not expose exactly one non-global OUTPUT port of width 2, and none (without the
  BL/WL part) when it does.
\<close>

theorem sram_output_port_check:
  assumes "num_models lib < SIZE_T_RANGE"
    and "m < num_models lib" and "cm_type (lib_models lib ! m) = SPICE_MODEL_SRAM"
    and "length (model_ports_by_type lib m SPICE_MODEL_PORT_OUTPUT True) \<le> 1"
    and "check_blwl \<longrightarrow> length (model_ports_by_type lib m SPICE_MODEL_PORT_BL True) \<le> 1
                      \<and> length (model_ports_by_type lib m SPICE_MODEL_PORT_WL True) \<le> 1"
  shows "(\<exists>log. check_sram_circuit_model_ports lib m check_blwl = Returns (length log) log
         \<and> (map (\<lambda>p. cp_size (lib_ports lib ! p))
                (model_ports_by_type lib m SPICE_MODEL_PORT_OUTPUT True) \<noteq> [2]
              \<longrightarrow> 1 \<le> length log)
         \<and> (map (\<lambda>p. cp_size (lib_ports lib ! p))
                (model_ports_by_type lib m SPICE_MODEL_PORT_OUTPUT True) = [2] \<and> \<not> check_blwl
              \<longrightarrow> log = []))
       \<and> (\<exists>vlog. accumulated_checks lib = Returns (length vlog) vlog
         \<and> list_all (\<lambda>e. \<not> width_or_count_error e) vlog
         \<and> filter sram_port_error vlog
             = concat (map (\<lambda>m. map (Err_No_Port SPICE_MODEL_SRAM (model_names lib ! m))
                      (filter (\<lambda>pt. model_ports_by_type lib m pt False = []) sram_port_types_required))
                    (models_by_type lib SPICE_MODEL_SRAM))
         \<and> check_circuit_library lib
             = (case first_missing_default lib of
                  Some t \<Rightarrow> Stops (Exit 1) (Info_Checking # vlog @ [Err_No_Default t])
                | None \<Rightarrow>
                    if vlog = [] then Returns () [Info_Checking, Info_Finished 0]
                    else Stops (Exit 1) (Info_Checking # vlog @ [Info_Finished (length vlog)])))"
proof -
  let ?ps = "model_ports_by_type lib m SPICE_MODEL_PORT_OUTPUT True"
  from assms(4) have out: "length (model_ports_by_type lib m SPICE_MODEL_PORT_OUTPUT (\<not> False)) \<le> 1"
    by simp
  from check_one_port_type_at_most_one [OF assms(2) out, of 2]
  obtain l1 where o: "check_one_circuit_model_port_type_and_size_required lib m SPICE_MODEL_PORT_OUTPUT 1 2 False
        = Returns (length l1) l1"
    and n1: "length l1 = (if 1 \<noteq> length ?ps then 1 else 0)
         + length (filter (\<lambda>p. 2 \<noteq> cp_size (lib_ports lib ! p)) ?ps)"
    by auto
  have sram: "\<exists>log. check_sram_circuit_model_ports lib m check_blwl = Returns (length log) log
         \<and> (map (\<lambda>p. cp_size (lib_ports lib ! p)) ?ps \<noteq> [2] \<longrightarrow> 1 \<le> length log)
         \<and> (map (\<lambda>p. cp_size (lib_ports lib ! p)) ?ps = [2] \<and> \<not> check_blwl \<longrightarrow> log = [])"
  proof -
    have bad: "1 \<le> length l1"
      if "map (\<lambda>p. cp_size (lib_ports lib ! p)) ?ps \<noteq> [2]"
    proof (cases "length ?ps = 1")
      case True
      with that have "filter (\<lambda>p. 2 \<noteq> cp_size (lib_ports lib ! p)) ?ps \<noteq> []"
        by (simp add: sizes_eq_single)
      then have "0 < length (filter (\<lambda>p. 2 \<noteq> cp_size (lib_ports lib ! p)) ?ps)"
        by simp
      with n1 show ?thesis by linarith
    next
      case False
      with n1 show ?thesis by simp
    qed
    have good: "l1 = []"
      if "map (\<lambda>p. cp_size (lib_ports lib ! p)) ?ps = [2]"
      using that n1 sizes_eq_single [of "\<lambda>p. cp_size (lib_ports lib ! p)" ?ps 2]
      by (auto split: if_splits)
    show ?thesis
    proof (cases check_blwl)
      case True
      with assms(5)
      have bl: "length (model_ports_by_type lib m SPICE_MODEL_PORT_BL (\<not> False)) \<le> 1"
        and wl: "length (model_ports_by_type lib m SPICE_MODEL_PORT_WL (\<not> False)) \<le> 1"
        by simp_all
      from check_one_port_type_at_most_one [OF assms(2) bl, of 1]
      obtain l2 where b: "check_one_circuit_model_port_type_and_size_required lib m SPICE_MODEL_PORT_BL 1 1 False
            = Returns (length l2) l2"
        by auto
      from check_one_port_type_at_most_one [OF assms(2) wl, of 1]
      obtain l3 where w: "check_one_circuit_model_port_type_and_size_required lib m SPICE_MODEL_PORT_WL 1 1 False
            = Returns (length l3) l3"
        by auto
      have "check_sram_circuit_model_ports lib m check_blwl
          = Returns (length (l1 @ l2 @ l3)) (l1 @ l2 @ l3)"
        unfolding check_sram_circuit_model_ports_def o b w
        by (simp add: model_type_valid [OF assms(2)] assms(3) VTR_ASSERT_def add_errors_def True)
      with True bad show ?thesis
        by (intro exI [of _ "l1 @ l2 @ l3"]) auto
    next
      case False
      have "check_sram_circuit_model_ports lib m check_blwl = Returns (length l1) l1"
        unfolding check_sram_circuit_model_ports_def o
        by (simp add: model_type_valid [OF assms(2)] assms(3) VTR_ASSERT_def add_errors_def False)
      with False bad good show ?thesis
        by (intro exI [of _ l1]) auto
    qed
  qed
  have pass: "accumulated_checks lib = Returns (length (accumulated_log lib)) (accumulated_log lib)
         \<and> list_all (\<lambda>e. \<not> width_or_count_error e) (accumulated_log lib)
         \<and> filter sram_port_error (accumulated_log lib)
             = concat (map (\<lambda>m. map (Err_No_Port SPICE_MODEL_SRAM (model_names lib ! m))
                      (filter (\<lambda>pt. model_ports_by_type lib m pt False = []) sram_port_types_required))
                    (models_by_type lib SPICE_MODEL_SRAM))
         \<and> check_circuit_library lib
             = (case first_missing_default lib of
                  Some t \<Rightarrow> Stops (Exit 1) (Info_Checking # accumulated_log lib @ [Err_No_Default t])
                | None \<Rightarrow>
                    if accumulated_log lib = [] then Returns () [Info_Checking, Info_Finished 0]
                    else Stops (Exit 1)
                           (Info_Checking # accumulated_log lib
                              @ [Info_Finished (length (accumulated_log lib))]))"
    using accumulated_checks_log [OF assms(1)] no_width_or_count_error [of lib]
      sram_port_errors_of_pass [of lib] check_circuit_library_eq [OF assms(1)]
    unfolding required_port_log_def by blast
  from sram pass show ?thesis
    by blast
qed

theorem sram_output_port_check_witness:
  "num_models sample_library < SIZE_T_RANGE
   \<and> 2 < num_models sample_library
   \<and> cm_type (lib_models sample_library ! 2) = SPICE_MODEL_SRAM
   \<and> length (model_ports_by_type sample_library 2 SPICE_MODEL_PORT_OUTPUT True) \<le> 1
   \<and> map (\<lambda>p. cp_size (lib_ports sample_library ! p))
         (model_ports_by_type sample_library 2 SPICE_MODEL_PORT_OUTPUT True) = [1]
   \<and> (\<exists>log. check_sram_circuit_model_ports sample_library 2 False = Returns (length log) log
          \<and> 1 \<le> length log)
   \<and> check_sram_circuit_model_ports sample_library 2 False
       = Returns 1 [Err_Port_Size ''sram'' SPICE_MODEL_PORT_OUTPUT 2]
   \<and> (\<exists>vlog. accumulated_checks sample_library = Returns (length vlog) vlog
          \<and> list_all (\<lambda>e. \<not> width_or_count_error e) vlog
          \<and> filter sram_port_error vlog = [])
   \<and> accumulated_checks sample_library = Returns 0 []"
proof -
  have h0: "num_models sample_library < SIZE_T_RANGE"
    by (simp add: num_models_def example_defs SIZE_T_RANGE_def)
  have h1: "2 < num_models sample_library"
    by (simp add: num_models_def example_defs)
  have h2: "cm_type (lib_models sample_library ! 2) = SPICE_MODEL_SRAM"
    by (simp add: example_defs)
  have h3: "length (model_ports_by_type sample_library 2 SPICE_MODEL_PORT_OUTPUT True) \<le> 1"
    by (simp add: model_ports_by_type_def ports_def example_defs upt_conv_Cons)
  have h4: "False \<longrightarrow> length (model_ports_by_type sample_library 2 SPICE_MODEL_PORT_BL True) \<le> 1
                      \<and> length (model_ports_by_type sample_library 2 SPICE_MODEL_PORT_WL True) \<le> 1"
    by simp
  have sizes: "map (\<lambda>p. cp_size (lib_ports sample_library ! p))
         (model_ports_by_type sample_library 2 SPICE_MODEL_PORT_OUTPUT True) = [1]"
    by (simp add: model_ports_by_type_def ports_def example_defs upt_conv_Cons)
  have run: "check_sram_circuit_model_ports sample_library 2 False
       = Returns 1 [Err_Port_Size ''sram'' SPICE_MODEL_PORT_OUTPUT 2]"
    by (simp add: checker_defs example_defs upt_conv_Cons)
  have none: "concat (map (\<lambda>m. map (Err_No_Port SPICE_MODEL_SRAM (model_names sample_library ! m))
                      (filter (\<lambda>pt. model_ports_by_type sample_library m pt False = [])
                         sram_port_types_required))
                    (models_by_type sample_library SPICE_MODEL_SRAM)) = []"
    by (simp add: checker_defs example_defs upt_conv_Cons)
  have names: "check_circuit_library_unique_names sample_library = Returns 0 []"
    by (subst check_circuit_library_unique_names_eq [OF h0])
       (simp add: equal_pairs_def equal_pairs_from_def model_names_def example_defs upt_conv_Cons)
  have prefix: "check_circuit_library_unique_prefix sample_library = Returns 0 []"
    by (subst check_circuit_library_unique_prefix_eq [OF h0])
       (simp add: equal_pairs_def equal_pairs_from_def model_prefixes_def example_defs upt_conv_Cons)
  have counted: "accumulated_checks sample_library = Returns 0 []"
    unfolding accumulated_checks_def names prefix
    by (simp add: checker_defs example_defs upt_conv_Cons)
  note checked = sram_output_port_check [OF h0 h1 h2 h3 h4]
  from checked sizes
  have ex1: "\<exists>log. check_sram_circuit_model_ports sample_library 2 False = Returns (length log) log
          \<and> 1 \<le> length log"
    by auto
  from checked have ex2: "\<exists>vlog. accumulated_checks sample_library = Returns (length vlog) vlog
          \<and> list_all (\<lambda>e. \<not> width_or_count_error e) vlog
          \<and> filter sram_port_error vlog = []"
    unfolding none by blast
  from h0 h1 h2 h3 sizes ex1 run ex2 counted show ?thesis
    by blast
qed

section \<open>A catalog without IOPAD models\<close>

text \<open>
  Claim C9. For a catalog with no IOPAD model, the IOPAD existence check counts exactly
  one error, and the per-model check of the four required IOPAD port types (INPUT,
  OUTPUT, INOUT, SRAM) counts none and writes nothing, since it runs once per existing
  IOPAD model. Accordingly checks 1 to 9 of \<^verbatim>\<open>check_circuit_library\<close> return the number
  of the messages they write, exactly one of these messages is about IOPAD models, the
  one of the existence check, and the validate pass writes them between its opening line
  and its last line and exits with code 1.
\<close>

theorem no_iopad_model_errors:
  assumes "num_models lib < SIZE_T_RANGE"
    and "SPICE_MODEL_IOPAD \<notin> cm_type ` set (lib_models lib)"
  shows "check_circuit_model_required lib SPICE_MODEL_IOPAD
           = Returns 1 [Err_Model_Required SPICE_MODEL_IOPAD]
       \<and> check_circuit_model_port_required lib SPICE_MODEL_IOPAD iopad_port_types_required
           = Returns 0 []
       \<and> (\<exists>log. accumulated_checks lib = Returns (length log) log
              \<and> filter iopad_error log = [Err_Model_Required SPICE_MODEL_IOPAD]
              \<and> check_circuit_library lib
                  = Stops (Exit 1)
                      (Info_Checking # log
                         @ [case first_missing_default lib of
                              None \<Rightarrow> Info_Finished (length log)
                            | Some t \<Rightarrow> Err_No_Default t]))"
proof -
  have funs: "check_circuit_model_required lib SPICE_MODEL_IOPAD
           = Returns 1 [Err_Model_Required SPICE_MODEL_IOPAD]
       \<and> check_circuit_model_port_required lib SPICE_MODEL_IOPAD iopad_port_types_required
           = Returns 0 []"
    using no_models_of_type [OF assms(2)]
    by (simp add: check_circuit_model_required_def check_circuit_model_port_required_def
        report_error_def vpr_printf_def emit_def)
  have only: "filter iopad_error (accumulated_log lib) = [Err_Model_Required SPICE_MODEL_IOPAD]"
    by (rule iopad_errors_of_pass [OF assms(2)])
  then have "accumulated_log lib \<noteq> []"
    by auto
  then have "check_circuit_library lib
        = Stops (Exit 1)
            (Info_Checking # accumulated_log lib
               @ [case first_missing_default lib of
                    None \<Rightarrow> Info_Finished (length (accumulated_log lib))
                  | Some t \<Rightarrow> Err_No_Default t])"
    by (simp add: check_circuit_library_eq [OF assms(1)] split: option.splits)
  with only accumulated_checks_log [OF assms(1)] funs show ?thesis
    by blast
qed

theorem no_iopad_model_errors_witness:
  "num_models single_model_library < SIZE_T_RANGE
   \<and> SPICE_MODEL_IOPAD \<notin> cm_type ` set (lib_models single_model_library)
   \<and> check_circuit_model_required single_model_library SPICE_MODEL_IOPAD
       = Returns 1 [Err_Model_Required SPICE_MODEL_IOPAD]
   \<and> check_circuit_model_port_required single_model_library SPICE_MODEL_IOPAD
         iopad_port_types_required
       = Returns 0 []
   \<and> (\<exists>log. accumulated_checks single_model_library = Returns (length log) log
          \<and> filter iopad_error log = [Err_Model_Required SPICE_MODEL_IOPAD])
   \<and> accumulated_checks single_model_library
       = Returns 3 [Err_Model_Required SPICE_MODEL_IOPAD, Err_Model_Required SPICE_MODEL_MUX,
                    Err_SRAM_Or_SCFF_Required]
   \<and> check_circuit_library single_model_library
       = Stops (Exit 1)
           [Info_Checking, Err_Model_Required SPICE_MODEL_IOPAD,
            Err_Model_Required SPICE_MODEL_MUX, Err_SRAM_Or_SCFF_Required,
            Err_No_Default SPICE_MODEL_MUX]"
proof -
  have small: "num_models single_model_library < SIZE_T_RANGE"
    by (simp add: num_models_def example_defs SIZE_T_RANGE_def)
  have h: "SPICE_MODEL_IOPAD \<notin> cm_type ` set (lib_models single_model_library)"
    by (simp add: example_defs)
  from no_iopad_model_errors [OF small h] obtain log
    where funs: "check_circuit_model_required single_model_library SPICE_MODEL_IOPAD
           = Returns 1 [Err_Model_Required SPICE_MODEL_IOPAD]"
        "check_circuit_model_port_required single_model_library SPICE_MODEL_IOPAD
           iopad_port_types_required = Returns 0 []"
      and run: "accumulated_checks single_model_library = Returns (length log) log"
      and only: "filter iopad_error log = [Err_Model_Required SPICE_MODEL_IOPAD]"
      and pass: "check_circuit_library single_model_library
           = Stops (Exit 1)
               (Info_Checking # log
                  @ [case first_missing_default single_model_library of
                       None \<Rightarrow> Info_Finished (length log)
                     | Some t \<Rightarrow> Err_No_Default t])"
    by blast
  have names: "check_circuit_library_unique_names single_model_library = Returns 0 []"
    by (subst check_circuit_library_unique_names_eq [OF small])
       (simp add: equal_pairs_def equal_pairs_from_def model_names_def example_defs upt_conv_Cons)
  have prefix: "check_circuit_library_unique_prefix single_model_library = Returns 0 []"
    by (subst check_circuit_library_unique_prefix_eq [OF small])
       (simp add: equal_pairs_def equal_pairs_from_def model_prefixes_def example_defs upt_conv_Cons)
  have counted: "accumulated_checks single_model_library
       = Returns 3 [Err_Model_Required SPICE_MODEL_IOPAD, Err_Model_Required SPICE_MODEL_MUX,
                    Err_SRAM_Or_SCFF_Required]"
    unfolding accumulated_checks_def names prefix
    by (simp add: checker_defs example_defs upt_conv_Cons)
  from counted run have log: "log = [Err_Model_Required SPICE_MODEL_IOPAD,
      Err_Model_Required SPICE_MODEL_MUX, Err_SRAM_Or_SCFF_Required]"
    by simp
  have missing: "first_missing_default single_model_library = Some SPICE_MODEL_MUX"
    by (simp add: first_missing_default_def checker_defs example_defs upt_conv_Cons)
  from pass have final: "check_circuit_library single_model_library
       = Stops (Exit 1)
           [Info_Checking, Err_Model_Required SPICE_MODEL_IOPAD,
            Err_Model_Required SPICE_MODEL_MUX, Err_SRAM_Or_SCFF_Required,
            Err_No_Default SPICE_MODEL_MUX]"
    unfolding log missing by simp
  from run only have ex: "\<exists>log. accumulated_checks single_model_library = Returns (length log) log
          \<and> filter iopad_error log = [Err_Model_Required SPICE_MODEL_IOPAD]"
    by blast
  from small h funs ex counted final show ?thesis
    by blast
qed

section \<open>The uniqueness checks on catalogs with fewer than two models\<close>

text \<open>
  Claim C10. For every catalog with fewer than two models, the unique-name check and the
  unique-prefix check each return 0 errors, write no message and never read a model
  through an index out of range (such a read would stop the run with \<open>Invalid_Id\<close>).
  For the empty catalog the \<^verbatim>\<open>size_t\<close> expression \<^verbatim>\<open>num_models() - 1\<close> wraps around to
  the largest \<^verbatim>\<open>size_t\<close> value, and the loop bodies still do not run.
\<close>

theorem small_catalog_uniqueness_checks:
  assumes "num_models lib < 2"
  shows "check_circuit_library_unique_names lib = Returns 0 []
       \<and> check_circuit_library_unique_prefix lib = Returns 0 []
       \<and> (num_models lib = 0 \<longrightarrow> size_t_sub (num_models lib) 1 = SIZE_T_RANGE - 1)"
proof -
  have small: "num_models lib < SIZE_T_RANGE"
    using assms SIZE_T_RANGE_gt by simp
  have "equal_pairs xs = []" if "length xs < 2" for xs :: "string list"
    using that by (simp add: equal_pairs_def equal_pairs_from_end)
  moreover have "length (model_names lib) < 2" "length (model_prefixes lib) < 2"
    using assms by (simp_all add: model_names_def model_prefixes_def num_models_def)
  moreover have "size_t_sub 0 1 = SIZE_T_RANGE - 1"
    by (simp add: size_t_sub_def SIZE_T_RANGE_def)
  ultimately show ?thesis
    by (simp add: check_circuit_library_unique_names_eq [OF small]
        check_circuit_library_unique_prefix_eq [OF small])
qed

theorem small_catalog_uniqueness_checks_witness:
  "num_models empty_library < 2
   \<and> check_circuit_library_unique_names empty_library = Returns 0 []
   \<and> check_circuit_library_unique_prefix empty_library = Returns 0 []
   \<and> num_models empty_library = 0
   \<and> size_t_sub (num_models empty_library) 1 = 18446744073709551615
   \<and> num_models single_model_library = 1
   \<and> check_circuit_library_unique_names single_model_library = Returns 0 []
   \<and> check_circuit_library_unique_prefix single_model_library = Returns 0 []"
proof -
  have z: "num_models empty_library = 0"
    by (simp add: num_models_def empty_library_def)
  have o: "num_models single_model_library = 1"
    by (simp add: num_models_def single_model_library_def)
  have h0: "num_models empty_library < 2" using z by simp
  have h1: "num_models single_model_library < 2" using o by simp
  from small_catalog_uniqueness_checks [OF h0] small_catalog_uniqueness_checks [OF h1] h0 z o
  show ?thesis
    by (simp add: SIZE_T_RANGE_def)
qed

end
